theory Spec2Isabelle
  imports Complex_Main "HOL-Library.Sublist" "HOL-Library.Word"
begin

section \<open>Strings of the interview component\<close>

text \<open>
  A JavaScript string is a sequence of UTF-16 code units; a code unit is modelled by its
  number. Every character of the component's literals lies in the Basic Multilingual Plane,
  so one character is one code unit, and \<open>length\<close> is the \<open>.length\<close> of the source.
  Literals that are plain ASCII are written through \<open>ascii\<close>, the others as the list of
  their code units.
\<close>

type_synonym jschar = nat
type_synonym jsstring = "jschar list"

definition ascii :: "string \<Rightarrow> jsstring" where
  "ascii cs = map of_char cs"

text \<open>\<open>LineTerminator\<close> of ECMAScript: LF, CR, LS, PS. The regular expression atom
  \<open>.\<close> (without the \<open>s\<close> flag) matches any code unit but these.\<close>

definition is_line_terminator :: "jschar \<Rightarrow> bool" where
  "is_line_terminator c \<longleftrightarrow> c = 0x0A \<or> c = 0x0D \<or> c = 0x2028 \<or> c = 0x2029"

text \<open>What \<open>String.prototype.trim\<close> strips: \<open>WhiteSpace\<close> (TAB, VT, FF, SP, NBSP,
  ZWNBSP and the Unicode space separators) and \<open>LineTerminator\<close>.\<close>

definition is_trim_space :: "jschar \<Rightarrow> bool" where
  "is_trim_space c \<longleftrightarrow>
     c = 0x09 \<or> c = 0x0B \<or> c = 0x0C \<or> c = 0x20 \<or> c = 0xA0 \<or> c = 0xFEFF \<or>
     c = 0x1680 \<or> (0x2000 \<le> c \<and> c \<le> 0x200A) \<or> c = 0x202F \<or> c = 0x205F \<or>
     c = 0x3000 \<or> is_line_terminator c"

definition trim :: "jsstring \<Rightarrow> jsstring" where
  "trim s = rev (dropWhile is_trim_space (rev (dropWhile is_trim_space s)))"

text \<open>\<open>Array.prototype.join\<close> on strings.\<close>

fun join :: "jsstring \<Rightarrow> jsstring list \<Rightarrow> jsstring" where
  "join sep [] = []"
| "join sep [x] = x"
| "join sep (x # y # ys) = x @ sep @ join sep (y # ys)"

text \<open>The decimal digits of a number, as a template literal prints a non-negative integer.\<close>

fun digits :: "nat \<Rightarrow> jsstring" where
  "digits n = (if n < 10 then [0x30 + n] else digits (n div 10) @ [0x30 + n mod 10])"

declare digits.simps [simp del]

text \<open>Truthiness of an optional string: \<open>undefined\<close>, \<open>null\<close> and \<open>""\<close> are falsy.
  (An array is always truthy, also the empty one: \<open>Some l\<close> below.)\<close>

definition truthy :: "jsstring option \<Rightarrow> bool" where
  "truthy v \<longleftrightarrow> (case v of None \<Rightarrow> False | Some s \<Rightarrow> s \<noteq> [])"

text \<open>The string that a truthy optional string holds (used under \<open>truthy\<close> only).\<close>

definition the_string :: "jsstring option \<Rightarrow> jsstring" where
  "the_string v = (case v of None \<Rightarrow> [] | Some s \<Rightarrow> s)"

section \<open>The regular expressions of the fact extraction\<close>

text \<open>
  Every pattern of \<open>updateCandidateInfo\<close> is a sequence of two kinds of atoms: a
  non-capturing alternation of literals \<open>(?:a|b|c)\<close> and the lazy \<open>.+?\<close>; one capturing
  group encloses a contiguous part of the sequence. A pattern is the atoms before the group,
  those inside it and those after it.
\<close>

datatype re_item = OneOf "jsstring list" | LazyAny

record pattern =
  pre :: "re_item list"
  cap :: "re_item list"
  post :: "re_item list"

text \<open>
  Backtracking as the ECMAScript matcher does it, with the rest of the pattern as the
  continuation \<open>k\<close>: an alternation tries its literals from left to right and moves on to
  the next literal when the continuation fails; \<open>.+?\<close> takes one code unit and then takes
  one more each time the continuation fails. The result is the text consumed by each atom.
\<close>

fun first_alt :: "(jsstring \<Rightarrow> jsstring list option) \<Rightarrow> jsstring list \<Rightarrow> jsstring
    \<Rightarrow> jsstring list option" where
  "first_alt k [] s = None"
| "first_alt k (l # ls) s =
     (if prefix l s
      then (case k (drop (length l) s) of
              Some segs \<Rightarrow> Some (l # segs)
            | None \<Rightarrow> first_alt k ls s)
      else first_alt k ls s)"

fun lazy_more :: "(jsstring \<Rightarrow> jsstring list option) \<Rightarrow> jsstring \<Rightarrow> jsstring
    \<Rightarrow> jsstring list option" where
  "lazy_more k acc s =
     (case k s of
        Some segs \<Rightarrow> Some (acc # segs)
      | None \<Rightarrow>
          (case s of
             [] \<Rightarrow> None
           | c # s' \<Rightarrow> if is_line_terminator c then None else lazy_more k (acc @ [c]) s'))"

declare lazy_more.simps [simp del]

primrec match_items :: "re_item list \<Rightarrow> jsstring \<Rightarrow> jsstring list option" where
  "match_items [] = (\<lambda>s. Some [])"
| "match_items (i # is) =
     (case i of
        OneOf ls \<Rightarrow> first_alt (match_items is) ls
      | LazyAny \<Rightarrow>
          (\<lambda>s. case s of
                 [] \<Rightarrow> None
               | c # s' \<Rightarrow> if is_line_terminator c then None else lazy_more (match_items is) [c] s'))"

text \<open>A match attempt at the start of \<open>s\<close>; the value is the text of capture group 1.\<close>

definition match_here :: "pattern \<Rightarrow> jsstring \<Rightarrow> jsstring option" where
  "match_here p s =
     (case match_items (pre p @ cap p @ post p) s of
        None \<Rightarrow> None
      | Some segs \<Rightarrow> Some (concat (take (length (cap p)) (drop (length (pre p)) segs))))"

text \<open>\<open>str.match(re)\<close> for a pattern without the \<open>g\<close> flag: the leftmost start position
  that matches; \<open>None\<close> is \<open>null\<close>, \<open>Some c\<close> a match array whose element 1 is \<open>c\<close>.\<close>

fun js_match :: "pattern \<Rightarrow> jsstring \<Rightarrow> jsstring option" where
  "js_match p [] = match_here p []"
| "js_match p (c # s) =
     (case match_here p (c # s) of
        Some g \<Rightarrow> Some g
      | None \<Rightarrow> js_match p s)"

section \<open>Candidate fact sheet\<close>

record candidate_info =
  name :: "jsstring option"
  experience :: "jsstring option"
  skills :: "jsstring list option"
  interests :: "jsstring list option"
  university :: "jsstring option"
  company :: "jsstring option"

definition emptyInfo :: candidate_info where
  "emptyInfo = \<lparr>name = None, experience = None, skills = None, interests = None,
                university = None, company = None\<rparr>"

definition namePatterns :: "pattern list" where
  "namePatterns =
   [\<lparr>pre = [OneOf [[0x79C1, 0x306E, 0x540D, 0x524D, 0x306F], [0x79C1, 0x306F]]],
      cap = [LazyAny],
      post = [OneOf [[0x3067, 0x3059], [0x3068, 0x7533, 0x3057, 0x307E, 0x3059], [0x3068, 0x7533, 0x3057, 0x307E, 0x3059], [0x3067, 0x3059]]]\<rparr>,
    \<lparr>pre = [OneOf [[0x540D, 0x524D, 0x306F], [0x540D, 0x524D, 0x304C]]],
      cap = [LazyAny],
      post = [OneOf [[0x3067, 0x3059], [0x3068, 0x7533, 0x3057, 0x307E, 0x3059]]]\<rparr>,
    \<lparr>pre = [OneOf [[0x79C1, 0x306F]]],
      cap = [LazyAny],
      post = [OneOf [[0x3067, 0x3059], [0x3068, 0x7533, 0x3057, 0x307E, 0x3059]]]\<rparr>,
    \<lparr>pre = [OneOf [[0x5019, 0x88DC, 0x8005, 0x306F], [0x5FDC, 0x52DF, 0x8005, 0x306F]]],
      cap = [LazyAny],
      post = [OneOf [[0x3067, 0x3059], [0x3068, 0x7533, 0x3057, 0x307E, 0x3059]]]\<rparr>]"

definition universityPatterns :: "pattern list" where
  "universityPatterns =
   [\<lparr>pre = [],
      cap = [LazyAny, OneOf [[0x5927, 0x5B66], [0x5B66, 0x9662], [0x5C02, 0x9580, 0x5B66, 0x6821], [0x77ED, 0x5927]], LazyAny],
      post = [OneOf [[0x3067, 0x3059], [0x51FA, 0x8EAB], [0x5352, 0x696D]]]\<rparr>,
    \<lparr>pre = [OneOf [[0x51FA, 0x8EAB, 0x306F], [0x5352, 0x696D, 0x306F]]],
      cap = [LazyAny, OneOf [[0x5927, 0x5B66], [0x5B66, 0x9662], [0x5C02, 0x9580, 0x5B66, 0x6821], [0x77ED, 0x5927]], LazyAny],
      post = [OneOf [[0x3067, 0x3059], [0x3067, 0x3059]]]\<rparr>,
    \<lparr>pre = [],
      cap = [LazyAny, OneOf [[0x5927, 0x5B66], [0x5B66, 0x9662], [0x5C02, 0x9580, 0x5B66, 0x6821], [0x77ED, 0x5927]], LazyAny],
      post = [OneOf [[0x3067], [0x306B]], OneOf [[0x901A, 0x3063], [0x5728, 0x5B66], [0x5352, 0x696D]]]\<rparr>,
    \<lparr>pre = [OneOf [[0x5927, 0x5B66, 0x306F], [0x5B66, 0x6821, 0x306F]]],
      cap = [LazyAny],
      post = [OneOf [[0x3067, 0x3059], [0x3067, 0x3057, 0x305F]]]\<rparr>]"

definition experiencePatterns :: "pattern list" where
  "experiencePatterns =
   [\<lparr>pre = [],
      cap = [LazyAny, OneOf [[0x7D4C, 0x9A13], [0x50CD, 0x3044], [0x8077, 0x6B74], [0x52E4, 0x52D9], [0x5728, 0x8077]], LazyAny],
      post = []\<rparr>,
    \<lparr>pre = [],
      cap = [LazyAny, OneOf [[0x5E74], [0x5E74, 0x9593]], LazyAny, OneOf [[0x7D4C, 0x9A13], [0x50CD, 0x3044], [0x8077, 0x6B74]], LazyAny],
      post = []\<rparr>,
    \<lparr>pre = [],
      cap = [LazyAny, OneOf [[0x4F1A, 0x793E], [0x4F01, 0x696D], [0x7D44, 0x7E54]], LazyAny, OneOf [[0x3067], [0x306B]], LazyAny, OneOf [[0x50CD, 0x3044], [0x52E4, 0x52D9]], LazyAny],
      post = []\<rparr>]"

definition companyPatterns :: "pattern list" where
  "companyPatterns =
   [\<lparr>pre = [],
      cap = [LazyAny, OneOf [[0x4F1A, 0x793E], [0x4F01, 0x696D], [0x682A, 0x5F0F, 0x4F1A, 0x793E], [0x6709, 0x9650, 0x4F1A, 0x793E], [0x5408, 0x540C, 0x4F1A, 0x793E]], LazyAny],
      post = [OneOf [[0x3067], [0x306B]], OneOf [[0x50CD, 0x3044], [0x52E4, 0x52D9]]]\<rparr>,
    \<lparr>pre = [OneOf [[0x4F1A, 0x793E, 0x306F], [0x4F01, 0x696D, 0x306F]]],
      cap = [LazyAny],
      post = [OneOf [[0x3067, 0x3059], [0x3067, 0x3057, 0x305F]]]\<rparr>,
    \<lparr>pre = [],
      cap = [LazyAny, OneOf [[0x682A, 0x5F0F, 0x4F1A, 0x793E], [0x6709, 0x9650, 0x4F1A, 0x793E], [0x5408, 0x540C, 0x4F1A, 0x793E]], LazyAny],
      post = [OneOf [[0x3067, 0x3059], [0x3067, 0x3057, 0x305F]]]\<rparr>]"

definition skillsPatterns :: "pattern list" where
  "skillsPatterns =
   [\<lparr>pre = [],
      cap = [LazyAny, OneOf [[0x30B9, 0x30AD, 0x30EB], [0x3067, 0x304D, 0x308B], [0x6280, 0x8853], [0x5F97, 0x610F], [0x5C02, 0x9580]], LazyAny],
      post = []\<rparr>,
    \<lparr>pre = [],
      cap = [LazyAny, OneOf [[0x30D7, 0x30ED, 0x30B0, 0x30E9, 0x30DF, 0x30F3, 0x30B0], [0x958B, 0x767A], [0x8A2D, 0x8A08], [0x5206, 0x6790], [0x7BA1, 0x7406]], LazyAny],
      post = []\<rparr>,
    \<lparr>pre = [],
      cap = [LazyAny, OneOf [[0x8A00, 0x8A9E], [0x30C4, 0x30FC, 0x30EB], [0x30D5, 0x30EC, 0x30FC, 0x30E0, 0x30EF, 0x30FC, 0x30AF]], LazyAny],
      post = []\<rparr>]"

text \<open>
  The loop \<open>for (const pattern of patterns) { const m = userTranscript.match(pattern);
  if (m && m[1].trim().length > minlen) { ... = m[1].trim(); break; } }\<close>: the value
  of the first pattern whose trimmed capture is longer than \<open>minlen\<close>.
\<close>

fun first_accepted :: "pattern list \<Rightarrow> nat \<Rightarrow> jsstring \<Rightarrow> jsstring option" where
  "first_accepted [] minlen t = None"
| "first_accepted (p # ps) minlen t =
     (case js_match p t of
        Some g \<Rightarrow> if length (trim g) > minlen then Some (trim g) else first_accepted ps minlen t
      | None \<Rightarrow> first_accepted ps minlen t)"

definition extract_name :: "jsstring \<Rightarrow> candidate_info \<Rightarrow> candidate_info" where
  "extract_name t updated =
     (if \<not> truthy (name updated)
      then (case first_accepted namePatterns 0 t of
              Some v \<Rightarrow> updated\<lparr>name := Some v\<rparr> | None \<Rightarrow> updated)
      else updated)"

definition extract_university :: "jsstring \<Rightarrow> candidate_info \<Rightarrow> candidate_info" where
  "extract_university t updated =
     (if \<not> truthy (university updated)
      then (case first_accepted universityPatterns 2 t of
              Some v \<Rightarrow> updated\<lparr>university := Some v\<rparr> | None \<Rightarrow> updated)
      else updated)"

definition extract_experience :: "jsstring \<Rightarrow> candidate_info \<Rightarrow> candidate_info" where
  "extract_experience t updated =
     (if \<not> truthy (experience updated)
      then (case first_accepted experiencePatterns 5 t of
              Some v \<Rightarrow> updated\<lparr>experience := Some v\<rparr> | None \<Rightarrow> updated)
      else updated)"

definition extract_company :: "jsstring \<Rightarrow> candidate_info \<Rightarrow> candidate_info" where
  "extract_company t updated =
     (if \<not> truthy (company updated)
      then (case first_accepted companyPatterns 2 t of
              Some v \<Rightarrow> updated\<lparr>company := Some v\<rparr> | None \<Rightarrow> updated)
      else updated)"

definition extract_skills :: "jsstring \<Rightarrow> candidate_info \<Rightarrow> candidate_info" where
  "extract_skills t updated =
     (if (case skills updated of None \<Rightarrow> True | Some l \<Rightarrow> length l = 0)
      then (case first_accepted skillsPatterns 3 t of
              Some v \<Rightarrow> updated\<lparr>skills := Some [v]\<rparr> | None \<Rightarrow> updated)
      else updated)"

text \<open>The updater passed to \<open>setCandidateInfo\<close>; \<open>aiResponse\<close> is not used by the source
  either.\<close>

definition updateCandidateInfo :: "jsstring \<Rightarrow> jsstring \<Rightarrow> candidate_info \<Rightarrow> candidate_info" where
  "updateCandidateInfo aiResponse userTranscript prev =
     extract_skills userTranscript
       (extract_company userTranscript
         (extract_experience userTranscript
           (extract_university userTranscript
             (extract_name userTranscript prev))))"

section \<open>Conversation history and interview phase\<close>

datatype role = User | Assistant

record message =
  role :: role
  content :: jsstring
  timestamp :: int

datatype phase = Introduction | Experience | Skills | Motivation | Closing

text \<open>\<open>updateInterviewPhase\<close>: the value it passes to \<open>setInterviewPhase\<close>.\<close>

definition userMessageCount :: "message list \<Rightarrow> nat" where
  "userMessageCount history = length (filter (\<lambda>msg. role msg = User) history)"

definition updateInterviewPhase :: "message list \<Rightarrow> phase" where
  "updateInterviewPhase history =
     (if userMessageCount history \<le> 2 then Introduction
      else if userMessageCount history \<le> 5 then Experience
      else if userMessageCount history \<le> 8 then Skills
      else if userMessageCount history \<le> 11 then Motivation
      else Closing)"

section \<open>Prompt composition\<close>

text \<open>The text returned for an empty history (line 183).\<close>

definition no_history_text :: jsstring where
  "no_history_text =
    [0x307E, 0x3060, 0x4F1A, 0x8A71, 0x304C, 0x59CB, 0x307E, 0x3063, 0x3066, 0x3044, 0x307E, 0x305B,
     0x3093, 0x3002]"

text \<open>The pieces of the two templates of \<open>formatConversationHistory\<close> (lines 191 and 193).\<close>

definition exchange_open :: jsstring where
  "exchange_open =
    [0x3010, 0x3084, 0x308A, 0x53D6, 0x308A]"

definition exchange_close :: jsstring where
  "exchange_close =
    [0x3011, 0x000A]"

definition candidate_label :: jsstring where
  "candidate_label =
    [0x5019, 0x88DC, 0x8005, 0x003A, 0x0020]"

definition interviewer_label :: jsstring where
  "interviewer_label =
    [0x9762, 0x63A5, 0x5B98, 0x003A, 0x0020]"

text \<open>The pieces of the template \<open>candidateInfoText\<close> (line 208).\<close>

definition facts_heading_name :: jsstring where
  "facts_heading_name =
    [0x000A, 0x5019, 0x88DC, 0x8005, 0x60C5, 0x5831, 0x003A, 0x000A, 0x002D, 0x0020, 0x540D, 0x524D,
     0x003A, 0x0020]"

definition fact_university :: jsstring where
  "fact_university =
    [0x000A, 0x002D, 0x0020, 0x5927, 0x5B66, 0x003A, 0x0020]"

definition fact_company :: jsstring where
  "fact_company =
    [0x000A, 0x002D, 0x0020, 0x4F1A, 0x793E, 0x003A, 0x0020]"

definition fact_experience :: jsstring where
  "fact_experience =
    [0x000A, 0x002D, 0x0020, 0x7D4C, 0x9A13, 0x003A, 0x0020]"

definition fact_skills :: jsstring where
  "fact_skills =
    [0x000A, 0x002D, 0x0020, 0x30B9, 0x30AD, 0x30EB, 0x003A, 0x0020]"

text \<open>The phase labels of line 238.\<close>

definition label_introduction :: jsstring where
  "label_introduction =
    [0x81EA, 0x5DF1, 0x7D39, 0x4ECB]"

definition label_experience :: jsstring where
  "label_experience =
    [0x7D4C, 0x6B74, 0x30FB, 0x7D4C, 0x9A13]"

definition label_skills :: jsstring where
  "label_skills =
    [0x30B9, 0x30AD, 0x30EB, 0x78BA, 0x8A8D]"

definition label_motivation :: jsstring where
  "label_motivation =
    [0x5FD7, 0x671B, 0x52D5, 0x6A5F]"

definition label_closing :: jsstring where
  "label_closing =
    [0x8CEA, 0x7591, 0x5FDC, 0x7B54]"

text \<open>The template of line 211 up to \<open>${introPhaseBlock}\<close>.\<close>

definition prompt_head :: jsstring where
  "prompt_head =
    [0x3042, 0x306A, 0x305F, 0x306F, 0x7D4C, 0x9A13, 0x8C4A, 0x5BCC, 0x306A, 0x65E5, 0x672C, 0x4F01,
     0x696D, 0x306E, 0x9762, 0x63A5, 0x5B98, 0x3067, 0x3059, 0x3002, 0x4EE5, 0x4E0B, 0x306E, 0x6307,
     0x91DD, 0x306B, 0x5F93, 0x3063, 0x3066, 0x9762, 0x63A5, 0x3092, 0x9032, 0x3081, 0x3066, 0x304F,
     0x3060, 0x3055, 0x3044, 0xFF1A]"

text \<open>The literal assigned to \<open>introPhaseBlock\<close> in the introduction phase (line 202).\<close>

definition introPhaseBlock_text :: jsstring where
  "introPhaseBlock_text =
    [0x000A, 0x3010, 0x81EA, 0x5DF1, 0x7D39, 0x4ECB, 0x6BB5, 0x968E, 0x306E, 0x7279, 0x5225, 0x6307,
     0x793A, 0x3011, 0x000A, 0x002D, 0x0020, 0x5019, 0x88DC, 0x8005, 0x306E, 0x81EA, 0x5DF1, 0x7D39,
     0x4ECB, 0x304C, 0x77ED, 0x3044, 0x30FB, 0x62BD, 0x8C61, 0x7684, 0x30FB, 0x60C5, 0x5831, 0x304C,
     0x5C11, 0x306A, 0x3044, 0x5834, 0x5408, 0x306F, 0x3001, 0x5FC5, 0x305A, 0x5177, 0x4F53, 0x7684,
     0x306A, 0x8CEA, 0x554F, 0x3092, 0x3057, 0x3066, 0x8A73, 0x7D30, 0x3092, 0x5F15, 0x304D, 0x51FA,
     0x3057, 0x3066, 0x304F, 0x3060, 0x3055, 0x3044, 0x3002, 0x000A, 0x002D, 0x0020, 0x4F8B, 0xFF1A,
     0x300C, 0x3069, 0x306E, 0x5927, 0x5B66, 0x3092, 0x5352, 0x696D, 0x3055, 0x308C, 0x307E, 0x3057,
     0x305F, 0x304B, 0xFF1F, 0x300D, 0x300C, 0x3054, 0x5C02, 0x9580, 0x306F, 0x4F55, 0x3067, 0x3059,
     0x304B, 0xFF1F, 0x300D, 0x300C, 0x3069, 0x3093, 0x306A, 0x4ED5, 0x4E8B, 0x3092, 0x3055, 0x308C,
     0x3066, 0x3044, 0x307E, 0x3059, 0x304B, 0xFF1F, 0x300D, 0x300C, 0x8DA3, 0x5473, 0x3084, 0x8208,
     0x5473, 0x306F, 0x3042, 0x308A, 0x307E, 0x3059, 0x304B, 0xFF1F, 0x300D, 0x306A, 0x3069, 0x3002,
     0x000A, 0x002D, 0x0020, 0x6C7A, 0x3057, 0x3066, 0x5019, 0x88DC, 0x8005, 0x304C, 0x81EA, 0x767A,
     0x7684, 0x306B, 0x8A71, 0x3057, 0x51FA, 0x3059, 0x306E, 0x3092, 0x5F85, 0x305F, 0x305A, 0x3001,
     0x7A4D, 0x6975, 0x7684, 0x306B, 0x8CEA, 0x554F, 0x3057, 0x3066, 0x304F, 0x3060, 0x3055, 0x3044,
     0x3002, 0x000A, 0x002D, 0x0020, 0x3082, 0x3057, 0x5019, 0x88DC, 0x8005, 0x304C, 0x65E2, 0x306B,
     0x300C, 0x540D, 0x524D, 0x300D, 0x300C, 0x5927, 0x5B66, 0x300D, 0x300C, 0x5C02, 0x653B, 0x300D,
     0x306A, 0x3069, 0x306E, 0x57FA, 0x672C, 0x60C5, 0x5831, 0x3092, 0x81EA, 0x5DF1, 0x7D39, 0x4ECB,
     0x3067, 0x8FF0, 0x3079, 0x3066, 0x3044, 0x308B, 0x5834, 0x5408, 0x306F, 0x3001, 0x3053, 0x308C,
     0x4EE5, 0x4E0A, 0x300C, 0x81EA, 0x5DF1, 0x7D39, 0x4ECB, 0x3092, 0x304A, 0x9858, 0x3044, 0x3057,
     0x307E, 0x3059, 0x300D, 0x3068, 0x306F, 0x8A00, 0x308F, 0x305A, 0x3001, 0x5B66, 0x6821, 0x5916,
     0x3067, 0x306E, 0x6D3B, 0x52D5, 0x3001, 0x8DA3, 0x5473, 0x3001, 0x30A2, 0x30EB, 0x30D0, 0x30A4,
     0x30C8, 0x7D4C, 0x9A13, 0x3001, 0x307E, 0x305F, 0x306F, 0x6B21, 0x306E, 0x9762, 0x63A5, 0x30D5,
     0x30A7, 0x30FC, 0x30BA, 0xFF08, 0x7D4C, 0x9A13, 0x30FB, 0x30B9, 0x30AD, 0x30EB, 0x30FB, 0x5FD7,
     0x671B, 0x52D5, 0x6A5F, 0x306A, 0x3069, 0xFF09, 0x306B, 0x81EA, 0x7136, 0x306B, 0x79FB, 0x884C,
     0x3057, 0x3066, 0x304F, 0x3060, 0x3055, 0x3044, 0x3002, 0x000A, 0x002D, 0x0020, 0x4F8B, 0xFF1A,
     0x300C, 0x5927, 0x5B66, 0x4EE5, 0x5916, 0x3067, 0x529B, 0x3092, 0x5165, 0x308C, 0x3066, 0x3044,
     0x308B, 0x6D3B, 0x52D5, 0x306F, 0x3042, 0x308A, 0x307E, 0x3059, 0x304B, 0xFF1F, 0x300D, 0x300C,
     0x8DA3, 0x5473, 0x3084, 0x7279, 0x6280, 0x306B, 0x3064, 0x3044, 0x3066, 0x6559, 0x3048, 0x3066,
     0x304F, 0x3060, 0x3055, 0x3044, 0x300D, 0x300C, 0x5B66, 0x751F, 0x6642, 0x4EE3, 0x306B, 0x9811,
     0x5F35, 0x3063, 0x305F, 0x3053, 0x3068, 0x306F, 0x4F55, 0x3067, 0x3059, 0x304B, 0xFF1F, 0x300D,
     0x306A, 0x3069, 0x3002]"

text \<open>The literal \<open>progressionBlock\<close> (line 205).\<close>

definition progressionBlock :: jsstring where
  "progressionBlock =
    [0x000A, 0x3010, 0x9762, 0x63A5, 0x306E, 0x9032, 0x884C, 0x306B, 0x95A2, 0x3059, 0x308B, 0x6307,
     0x793A, 0x3011, 0x000A, 0x002D, 0x0020, 0x4F1A, 0x8A71, 0x306E, 0x6D41, 0x308C, 0x3092, 0x3088,
     0x304F, 0x89B3, 0x5BDF, 0x3057, 0x3001, 0x5019, 0x88DC, 0x8005, 0x304C, 0x5341, 0x5206, 0x306B,
     0x81EA, 0x5DF1, 0x7D39, 0x4ECB, 0x3084, 0x57FA, 0x672C, 0x60C5, 0x5831, 0x3092, 0x8FF0, 0x3079,
     0x305F, 0x3068, 0x5224, 0x65AD, 0x3057, 0x305F, 0x3089, 0x3001, 0x81EA, 0x7136, 0x306B, 0x6B21,
     0x306E, 0x8A71, 0x984C, 0x3084, 0x8CEA, 0x554F, 0x306B, 0x79FB, 0x3063, 0x3066, 0x304F, 0x3060,
     0x3055, 0x3044, 0x3002, 0x000A, 0x002D, 0x0020, 0x30D5, 0x30A7, 0x30FC, 0x30BA, 0xFF08, 0x81EA,
     0x5DF1, 0x7D39, 0x4ECB, 0x30FB, 0x7D4C, 0x9A13, 0x30FB, 0x30B9, 0x30AD, 0x30EB, 0x30FB, 0x5FD7,
     0x671B, 0x52D5, 0x6A5F, 0x306A, 0x3069, 0xFF09, 0x306B, 0x3053, 0x3060, 0x308F, 0x308A, 0x3059,
     0x304E, 0x305A, 0x3001, 0x4F1A, 0x8A71, 0x306E, 0x5185, 0x5BB9, 0x3084, 0x5019, 0x88DC, 0x8005,
     0x306E, 0x767A, 0x8A00, 0x306B, 0x5FDC, 0x3058, 0x3066, 0x67D4, 0x8EDF, 0x306B, 0x8CEA, 0x554F,
     0x3092, 0x5C55, 0x958B, 0x3057, 0x3066, 0x304F, 0x3060, 0x3055, 0x3044, 0x3002, 0x000A, 0x002D,
     0x0020, 0x305F, 0x3060, 0x300C, 0x826F, 0x3044, 0x3067, 0x3059, 0x306D, 0x300D, 0x300C, 0x5206,
     0x304B, 0x308A, 0x307E, 0x3057, 0x305F, 0x300D, 0x306A, 0x3069, 0x306E, 0x76F8, 0x69CC, 0x3060,
     0x3051, 0x3067, 0x7D42, 0x308F, 0x3089, 0x305A, 0x3001, 0x5FC5, 0x305A, 0x6B21, 0x306E, 0x8CEA,
     0x554F, 0x3084, 0x6DF1, 0x6398, 0x308A, 0x3092, 0x884C, 0x3063, 0x3066, 0x304F, 0x3060, 0x3055,
     0x3044, 0x3002, 0x000A, 0x002D, 0x0020, 0x3082, 0x3057, 0x8A71, 0x984C, 0x306B, 0x56F0, 0x3063,
     0x305F, 0x5834, 0x5408, 0x306F, 0x3001, 0x5019, 0x88DC, 0x8005, 0x306E, 0x904E, 0x53BB, 0x306E,
     0x767A, 0x8A00, 0x3084, 0x4F1A, 0x8A71, 0x5C65, 0x6B74, 0x304B, 0x3089, 0x8208, 0x5473, 0x6DF1,
     0x3044, 0x70B9, 0x3092, 0x898B, 0x3064, 0x3051, 0x3066, 0x8CEA, 0x554F, 0x3057, 0x3066, 0x304F,
     0x3060, 0x3055, 0x3044, 0x3002, 0x000A, 0x000A, 0x3010, 0x8CEA, 0x554F, 0x306E, 0x591A, 0x69D8,
     0x6027, 0x3068, 0x6DF1, 0x6398, 0x308A, 0x3011, 0x000A, 0x002D, 0x0020, 0x540C, 0x3058, 0x8CEA,
     0x554F, 0x3092, 0x0032, 0x56DE, 0x4EE5, 0x4E0A, 0x7E70, 0x308A, 0x8FD4, 0x3055, 0x306A, 0x3044,
     0x3067, 0x304F, 0x3060, 0x3055, 0x3044, 0x3002, 0x4F1A, 0x8A71, 0x5C65, 0x6B74, 0x3092, 0x78BA,
     0x8A8D, 0x3057, 0x3066, 0x3001, 0x65E2, 0x306B, 0x805E, 0x3044, 0x305F, 0x5185, 0x5BB9, 0x306F,
     0x907F, 0x3051, 0x3066, 0x304F, 0x3060, 0x3055, 0x3044, 0x3002, 0x000A, 0x002D, 0x0020, 0x8868,
     0x9762, 0x7684, 0x306A, 0x8CEA, 0x554F, 0x3060, 0x3051, 0x3067, 0x306A, 0x304F, 0x3001, 0x5FC5,
     0x305A, 0x6DF1, 0x6398, 0x308A, 0x8CEA, 0x554F, 0x3092, 0x3057, 0x3066, 0x304F, 0x3060, 0x3055,
     0x3044, 0x3002, 0x4F8B, 0xFF1A, 0x000A, 0x0020, 0x0020, 0x002A, 0x0020, 0x300C, 0x306A, 0x305C,
     0x305D, 0x306E, 0x6D3B, 0x52D5, 0x3092, 0x59CB, 0x3081, 0x3089, 0x308C, 0x305F, 0x306E, 0x3067,
     0x3059, 0x304B, 0xFF1F, 0x300D, 0x000A, 0x0020, 0x0020, 0x002A, 0x0020, 0x300C, 0x305D, 0x306E,
     0x7D4C, 0x9A13, 0x304B, 0x3089, 0x4F55, 0x3092, 0x5B66, 0x3070, 0x308C, 0x307E, 0x3057, 0x305F,
     0x304B, 0xFF1F, 0x300D, 0x000A, 0x0020, 0x0020, 0x002A, 0x0020, 0x300C, 0x5177, 0x4F53, 0x7684,
     0x306B, 0x3069, 0x306E, 0x3088, 0x3046, 0x306A, 0x56F0, 0x96E3, 0x304C, 0x3042, 0x308A, 0x307E,
     0x3057, 0x305F, 0x304B, 0xFF1F, 0x300D, 0x000A, 0x0020, 0x0020, 0x002A, 0x0020, 0x300C, 0x305D,
     0x306E, 0x7D50, 0x679C, 0x3001, 0x3069, 0x306E, 0x3088, 0x3046, 0x306A, 0x5909, 0x5316, 0x304C,
     0x3042, 0x308A, 0x307E, 0x3057, 0x305F, 0x304B, 0xFF1F, 0x300D, 0x000A, 0x002D, 0x0020, 0x8CEA,
     0x554F, 0x306E, 0x30D0, 0x30EA, 0x30A8, 0x30FC, 0x30B7, 0x30E7, 0x30F3, 0x3092, 0x8C4A, 0x5BCC,
     0x306B, 0x3057, 0x3066, 0x304F, 0x3060, 0x3055, 0x3044, 0xFF1A, 0x000A, 0x0020, 0x0020, 0x002A,
     0x0020, 0x7D4C, 0x9A13, 0x30FB, 0x6D3B, 0x52D5, 0xFF1A, 0x300C, 0x5B66, 0x751F, 0x6642, 0x4EE3,
     0x306B, 0x6700, 0x3082, 0x5370, 0x8C61, 0x306B, 0x6B8B, 0x3063, 0x3066, 0x3044, 0x308B, 0x7D4C,
     0x9A13, 0x306F, 0xFF1F, 0x300D, 0x300C, 0x90E8, 0x6D3B, 0x52D5, 0x3084, 0x30B5, 0x30FC, 0x30AF,
     0x30EB, 0x6D3B, 0x52D5, 0x306F, 0xFF1F, 0x300D, 0x300C, 0x30A2, 0x30EB, 0x30D0, 0x30A4, 0x30C8,
     0x7D4C, 0x9A13, 0x306F, 0xFF1F, 0x300D, 0x300C, 0x30A4, 0x30F3, 0x30BF, 0x30FC, 0x30F3, 0x30B7,
     0x30C3, 0x30D7, 0x7D4C, 0x9A13, 0x306F, 0xFF1F, 0x300D, 0x000A, 0x0020, 0x0020, 0x002A, 0x0020,
     0x30B9, 0x30AD, 0x30EB, 0x30FB, 0x6280, 0x8853, 0xFF1A, 0x300C, 0x5F97, 0x610F, 0x306A, 0x6280,
     0x8853, 0x3084, 0x30C4, 0x30FC, 0x30EB, 0x306F, 0xFF1F, 0x300D, 0x300C, 0x6700, 0x8FD1, 0x5B66,
     0x3093, 0x3067, 0x3044, 0x308B, 0x3053, 0x3068, 0x306F, 0xFF1F, 0x300D, 0x300C, 0x6280, 0x8853,
     0x7684, 0x306A, 0x8AB2, 0x984C, 0x306B, 0x3069, 0x3046, 0x53D6, 0x308A, 0x7D44, 0x307F, 0x307E,
     0x3059, 0x304B, 0xFF1F, 0x300D, 0x000A, 0x0020, 0x0020, 0x002A, 0x0020, 0x5FD7, 0x671B, 0x52D5,
     0x6A5F, 0xFF1A, 0x300C, 0x306A, 0x305C, 0x3053, 0x306E, 0x696D, 0x754C, 0x306B, 0x8208, 0x5473,
     0x3092, 0x6301, 0x305F, 0x308C, 0x307E, 0x3057, 0x305F, 0x304B, 0xFF1F, 0x300D, 0x300C, 0x5C06,
     0x6765, 0x306E, 0x30AD, 0x30E3, 0x30EA, 0x30A2, 0x30D3, 0x30B8, 0x30E7, 0x30F3, 0x306F, 0xFF1F,
     0x300D, 0x300C, 0x3053, 0x306E, 0x4F1A, 0x793E, 0x3092, 0x9078, 0x3093, 0x3060, 0x7406, 0x7531,
     0x306F, 0xFF1F, 0x300D, 0x000A, 0x0020, 0x0020, 0x002A, 0x0020, 0x6027, 0x683C, 0x30FB, 0x4FA1,
     0x5024, 0x89B3, 0xFF1A, 0x300C, 0x30B9, 0x30C8, 0x30EC, 0x30B9, 0x89E3, 0x6D88, 0x6CD5, 0x306F,
     0xFF1F, 0x300D, 0x300C, 0x30C1, 0x30FC, 0x30E0, 0x30EF, 0x30FC, 0x30AF, 0x3067, 0x5927, 0x5207,
     0x306B, 0x3057, 0x3066, 0x3044, 0x308B, 0x3053, 0x3068, 0x306F, 0xFF1F, 0x300D, 0x300C, 0x5931,
     0x6557, 0x304B, 0x3089, 0x5B66, 0x3093, 0x3060, 0x3053, 0x3068, 0x306F, 0xFF1F, 0x300D, 0x000A,
     0x000A, 0x3010, 0x4F1A, 0x8A71, 0x5C65, 0x6B74, 0x306E, 0x6D3B, 0x7528, 0x3011, 0x000A, 0x002D,
     0x0020, 0x5019, 0x88DC, 0x8005, 0x304C, 0x65E2, 0x306B, 0x8A71, 0x3057, 0x305F, 0x5185, 0x5BB9,
     0x3092, 0x5FC5, 0x305A, 0x899A, 0x3048, 0x3066, 0x304A, 0x304D, 0x3001, 0x540C, 0x3058, 0x8CEA,
     0x554F, 0x3092, 0x7E70, 0x308A, 0x8FD4, 0x3055, 0x306A, 0x3044, 0x3067, 0x304F, 0x3060, 0x3055,
     0x3044, 0x3002, 0x000A, 0x002D, 0x0020, 0x524D, 0x306E, 0x56DE, 0x7B54, 0x3092, 0x8E0F, 0x307E,
     0x3048, 0x3066, 0x3001, 0x3088, 0x308A, 0x5177, 0x4F53, 0x7684, 0x3067, 0x6DF1, 0x3044, 0x8CEA,
     0x554F, 0x3092, 0x3057, 0x3066, 0x304F, 0x3060, 0x3055, 0x3044, 0x3002, 0x000A, 0x002D, 0x0020,
     0x5019, 0x88DC, 0x8005, 0x304C, 0x8A00, 0x53CA, 0x3057, 0x305F, 0x30AD, 0x30FC, 0x30EF, 0x30FC,
     0x30C9, 0x3084, 0x7D4C, 0x9A13, 0x3092, 0x62FE, 0x3063, 0x3066, 0x3001, 0x305D, 0x308C, 0x306B,
     0x3064, 0x3044, 0x3066, 0x8A73, 0x3057, 0x304F, 0x805E, 0x3044, 0x3066, 0x304F, 0x3060, 0x3055,
     0x3044, 0x3002]"

text \<open>The template from after \<open>${progressionBlock}\<close> (line 211) to the phase label (line 238).\<close>

definition prompt_rules :: jsstring where
  "prompt_rules =
    [0x000A, 0x000A, 0x002A, 0x002A, 0x91CD, 0x8981, 0x306A, 0x6307, 0x793A, 0x003A, 0x002A, 0x002A,
     0x000A, 0x002D, 0x0020, 0x4F1A, 0x8A71, 0x306E, 0x5C65, 0x6B74, 0x3092, 0x5FC5, 0x305A, 0x53C2,
     0x7167, 0x3057, 0x3001, 0x5019, 0x88DC, 0x8005, 0x304C, 0x65E2, 0x306B, 0x8A71, 0x3057, 0x305F,
     0x5185, 0x5BB9, 0x3092, 0x899A, 0x3048, 0x3066, 0x304A, 0x304F, 0x000A, 0x002D, 0x0020, 0x5019,
     0x88DC, 0x8005, 0x306E, 0x540D, 0x524D, 0x3001, 0x5927, 0x5B66, 0x3001, 0x4F1A, 0x793E, 0x3001,
     0x7D4C, 0x9A13, 0x3001, 0x30B9, 0x30AD, 0x30EB, 0x306A, 0x3069, 0x306E, 0x60C5, 0x5831, 0x3092,
     0x8A18, 0x61B6, 0x3057, 0x3001, 0x5F8C, 0x3067, 0x53C2, 0x7167, 0x3059, 0x308B, 0x000A, 0x002D,
     0x0020, 0x4E00, 0x8CAB, 0x6027, 0x306E, 0x3042, 0x308B, 0x4F1A, 0x8A71, 0x3092, 0x7DAD, 0x6301,
     0x3059, 0x308B, 0x000A, 0x000A, 0x002A, 0x002A, 0x9762, 0x63A5, 0x306E, 0x6D41, 0x308C, 0x003A,
     0x002A, 0x002A, 0x000A, 0x002D, 0x0020, 0x81EA, 0x5DF1, 0x7D39, 0x4ECB, 0x304B, 0x3089, 0x59CB,
     0x3081, 0x308B, 0xFF08, 0x0069, 0x006E, 0x0074, 0x0072, 0x006F, 0x0064, 0x0075, 0x0063, 0x0074,
     0x0069, 0x006F, 0x006E, 0x6BB5, 0x968E, 0xFF09, 0x000A, 0x002D, 0x0020, 0x7D4C, 0x6B74, 0x30FB,
     0x7D4C, 0x9A13, 0x306B, 0x3064, 0x3044, 0x3066, 0x8A73, 0x3057, 0x304F, 0x805E, 0x304F, 0xFF08,
     0x0065, 0x0078, 0x0070, 0x0065, 0x0072, 0x0069, 0x0065, 0x006E, 0x0063, 0x0065, 0x6BB5, 0x968E,
     0xFF09, 0x000A, 0x002D, 0x0020, 0x30B9, 0x30AD, 0x30EB, 0x3084, 0x5C02, 0x9580, 0x77E5, 0x8B58,
     0x3092, 0x78BA, 0x8A8D, 0xFF08, 0x0073, 0x006B, 0x0069, 0x006C, 0x006C, 0x0073, 0x6BB5, 0x968E,
     0xFF09, 0x000A, 0x002D, 0x0020, 0x5FD7, 0x671B, 0x52D5, 0x6A5F, 0x3084, 0x5C06, 0x6765, 0x306E,
     0x76EE, 0x6A19, 0x3092, 0x805E, 0x304F, 0xFF08, 0x006D, 0x006F, 0x0074, 0x0069, 0x0076, 0x0061,
     0x0074, 0x0069, 0x006F, 0x006E, 0x6BB5, 0x968E, 0xFF09, 0x000A, 0x002D, 0x0020, 0x8CEA, 0x554F,
     0x306E, 0x6A5F, 0x4F1A, 0x3092, 0x63D0, 0x4F9B, 0x3057, 0x3066, 0x7DE0, 0x3081, 0x308B, 0xFF08,
     0x0063, 0x006C, 0x006F, 0x0073, 0x0069, 0x006E, 0x0067, 0x6BB5, 0x968E, 0xFF09, 0x000A, 0x000A,
     0x002A, 0x002A, 0x9762, 0x63A5, 0x5B98, 0x3068, 0x3057, 0x3066, 0x306E, 0x614B, 0x5EA6, 0x003A,
     0x002A, 0x002A, 0x000A, 0x002D, 0x0020, 0x4E01, 0x5BE7, 0x3067, 0x656C, 0x8A9E, 0x3092, 0x4F7F,
     0x3063, 0x305F, 0x8A71, 0x3057, 0x65B9, 0x000A, 0x002D, 0x0020, 0x5019, 0x88DC, 0x8005, 0x306E,
     0x56DE, 0x7B54, 0x306B, 0x5BFE, 0x3057, 0x3066, 0x9069, 0x5207, 0x306A, 0x6DF1, 0x6398, 0x308A,
     0x8CEA, 0x554F, 0x000A, 0x002D, 0x0020, 0x0031, 0x56DE, 0x306E, 0x5FDC, 0x7B54, 0x306F, 0x0031,
     0x002D, 0x0032, 0x500B, 0x306E, 0x8CEA, 0x554F, 0x306B, 0x7559, 0x3081, 0x308B, 0x000A, 0x002D,
     0x0020, 0x5019, 0x88DC, 0x8005, 0x306B, 0x305F, 0x304F, 0x3055, 0x3093, 0x8A71, 0x3057, 0x3066,
     0x3082, 0x3089, 0x3046, 0x000A, 0x002D, 0x0020, 0x81EA, 0x7136, 0x306A, 0x4F1A, 0x8A71, 0x306E,
     0x6D41, 0x308C, 0x3092, 0x4F5C, 0x308B, 0x000A, 0x000A, 0x002A, 0x002A, 0x8A18, 0x61B6, 0x306E,
     0x6D3B, 0x7528, 0x003A, 0x002A, 0x002A, 0x000A, 0x002D, 0x0020, 0x524D, 0x306E, 0x56DE, 0x7B54,
     0x3092, 0x53C2, 0x8003, 0x306B, 0x3057, 0x305F, 0x8CEA, 0x554F, 0x3092, 0x3059, 0x308B, 0x000A,
     0x002D, 0x0020, 0x5019, 0x88DC, 0x8005, 0x306E, 0x767A, 0x8A00, 0x306B, 0x4E00, 0x8CAB, 0x6027,
     0x304C, 0x3042, 0x308B, 0x304B, 0x30C1, 0x30A7, 0x30C3, 0x30AF, 0x000A, 0x002D, 0x0020, 0x5177,
     0x4F53, 0x7684, 0x306A, 0x4F8B, 0x3084, 0x30A8, 0x30D4, 0x30BD, 0x30FC, 0x30C9, 0x3092, 0x6C42,
     0x3081, 0x308B, 0x000A, 0x002D, 0x0020, 0x5019, 0x88DC, 0x8005, 0x306E, 0x540D, 0x524D, 0x3092,
     0x9069, 0x5207, 0x306B, 0x4F7F, 0x7528, 0x3059, 0x308B, 0x000A, 0x000A, 0x002A, 0x002A, 0x73FE,
     0x5728, 0x306E, 0x9762, 0x63A5, 0x30D5, 0x30A7, 0x30FC, 0x30BA, 0x003A, 0x002A, 0x002A, 0x0020]"

text \<open>The template between the phase label and the rendered history (lines 238 to 241).\<close>

definition prompt_history_heading :: jsstring where
  "prompt_history_heading =
    [0x000A, 0x000A, 0x002A, 0x002A, 0x4F1A, 0x8A71, 0x5C65, 0x6B74, 0x003A, 0x002A, 0x002A, 0x000A]"

text \<open>The end of the template (lines 241 to 243).\<close>

definition prompt_tail :: jsstring where
  "prompt_tail =
    [0x000A, 0x000A, 0x5404, 0x56DE, 0x7B54, 0x306F, 0x0031, 0x6587, 0x3068, 0x5FC5, 0x305A, 0x7C21,
     0x6F54, 0x306B, 0x307E, 0x3068, 0x3081, 0x3066, 0x304F, 0x3060, 0x3055, 0x3044, 0x3002]"

text \<open>The callback of \<open>history.map\<close> in \<open>formatConversationHistory\<close>.\<close>

definition format_message :: "nat \<Rightarrow> message \<Rightarrow> jsstring" where
  "format_message index msg =
     (let messageNumber = index div 2 + 1 in
      if role msg = User
      then exchange_open @ digits messageNumber @ exchange_close @ candidate_label
           @ content msg @ [0x0A]
      else interviewer_label @ content msg @ [0x0A])"

definition formatConversationHistory :: "message list \<Rightarrow> jsstring" where
  "formatConversationHistory history =
     (if length history = 0 then no_history_text
      else join [0x0A] (map (\<lambda>(index, msg). format_message index msg) (enumerate 0 history)))"

definition candidateInfoText :: "candidate_info \<Rightarrow> jsstring" where
  "candidateInfoText info =
     (if truthy (name info)
      then facts_heading_name @ the_string (name info)
        @ (if truthy (university info) then fact_university @ the_string (university info) else [])
        @ (if truthy (company info) then fact_company @ the_string (company info) else [])
        @ (if truthy (experience info) then fact_experience @ the_string (experience info) else [])
        @ (case skills info of
             Some l \<Rightarrow> fact_skills @ join (ascii '', '') l
           | None \<Rightarrow> [])
      else [])"

definition phase_label :: "phase \<Rightarrow> jsstring" where
  "phase_label ph =
     (if ph = Introduction then label_introduction
      else if ph = Experience then label_experience
      else if ph = Skills then label_skills
      else if ph = Motivation then label_motivation
      else label_closing)"

text \<open>\<open>createSystemPrompt\<close>, as a function of the three state values that its closure
  holds: the history, the phase and the fact sheet.\<close>

definition createSystemPrompt :: "message list \<Rightarrow> phase \<Rightarrow> candidate_info \<Rightarrow> jsstring" where
  "createSystemPrompt history ph info =
     (let introPhaseBlock = (if ph = Introduction then introPhaseBlock_text else [])
      in prompt_head @ introPhaseBlock @ progressionBlock @ prompt_rules @ phase_label ph
         @ prompt_history_heading @ formatConversationHistory history @ candidateInfoText info
         @ prompt_tail)"

text \<open>The greeting of \<open>handleInitialAIGreeting\<close> (line 480).\<close>

definition initialMessage :: jsstring where
  "initialMessage =
    [0x672C, 0x65E5, 0x306F, 0x304A, 0x6642, 0x9593, 0x3092, 0x3044, 0x305F, 0x3060, 0x304D, 0x3042,
     0x308A, 0x304C, 0x3068, 0x3046, 0x3054, 0x3056, 0x3044, 0x307E, 0x3059, 0x3002, 0x307E, 0x305A,
     0x306F, 0x7C21, 0x5358, 0x306B, 0x81EA, 0x5DF1, 0x7D39, 0x4ECB, 0x3092, 0x304A, 0x9858, 0x3044,
     0x3067, 0x304D, 0x307E, 0x3059, 0x304B, 0xFF1F]"

text \<open>The messages given to \<open>setError\<close> (lines 468, 309, 524 and 496).\<close>

definition error_prefix :: jsstring where
  "error_prefix =
    [0x30A8, 0x30E9, 0x30FC, 0x304C, 0x767A, 0x751F, 0x3057, 0x307E, 0x3057, 0x305F, 0x003A, 0x0020]"

definition recorder_error_text :: jsstring where
  "recorder_error_text =
    [0x97F3, 0x58F0, 0x9332, 0x97F3, 0x30A8, 0x30E9, 0x30FC, 0x304C, 0x767A, 0x751F, 0x3057, 0x307E,
     0x3057, 0x305F]"

definition microphone_error_text :: jsstring where
  "microphone_error_text =
    [0x30DE, 0x30A4, 0x30AF, 0x3078, 0x306E, 0x30A2, 0x30AF, 0x30BB, 0x30B9, 0x306B, 0x5931, 0x6557,
     0x3057, 0x307E, 0x3057, 0x305F]"

definition usage_limit_open :: jsstring where
  "usage_limit_open =
    [0x6708, 0x9593, 0x5229, 0x7528, 0x5236, 0x9650, 0x306B, 0x9054, 0x3057, 0x307E, 0x3057, 0x305F,
     0x0020, 0x0028]"

definition usage_limit_close :: jsstring where
  "usage_limit_close =
    [0x5206, 0x0029]"

section \<open>The state of the component\<close>

definition SILENCE_THRESHOLD :: real where
  "SILENCE_THRESHOLD = 0.05"

definition SILENCE_DURATION :: int where
  "SILENCE_DURATION = 1500"

text \<open>A \<open>Blob\<close> is observed through its \<open>size\<close> only; \<open>new Blob(parts)\<close> has the sum
  of the sizes of its parts.\<close>

datatype blob = Blob (blob_size: nat)

definition new_Blob :: "blob list \<Rightarrow> blob" where
  "new_Blob parts = Blob (sum_list (map blob_size parts))"

text \<open>A \<open>MediaRecorder\<close> made by \<open>startNewRecordingSession\<close>: the \<open>sessionId\<close> that its
  \<open>ondataavailable\<close> handler has captured, and its \<open>state\<close>.\<close>

datatype recorder_state = Rec_inactive | Rec_recording

record recorder =
  sessionId :: nat
  rec_state :: recorder_state

text \<open>
  The values of \<open>useState\<close> and of \<open>useRef\<close>, under the names of the source. A setter
  call is an update of the field. A ref that holds an opaque browser object
  (\<open>streamRef\<close>, \<open>audioContextRef\<close>, \<open>analyserRef\<close>, \<open>analysisIntervalRef\<close>) is the
  boolean "is not null"; \<open>silenceTimerRef\<close> holds the pending countdown, identified by
  the time \<open>startTime\<close> at which it was set; \<open>currentAudioRef\<close> holds the data URL of the
  audio element. Times are \<open>Date.now()\<close> in milliseconds.
\<close>

record component =
  isActive :: bool
  isProcessing :: bool
  isSpeaking :: bool
  response :: jsstring
  error :: jsstring
  silenceTimer :: int
  hasSpokenInCurrentSession :: bool
  isPlayingTTS :: bool
  sessionStartTime :: "int option"
  conversationHistory :: "message list"
  interviewPhase :: phase
  candidateInfo :: candidate_info
  mediaRecorderRef :: "recorder option"
  audioContextRef :: bool
  analyserRef :: bool
  streamRef :: bool
  chunksRef :: "blob list"
  silenceTimerRef :: "int option"
  analysisIntervalRef :: bool
  currentAudioRef :: "jsstring option"
  previousSpeakingStateRef :: bool
  hasSpokenInCurrentSessionRef :: bool
  isProcessingRef :: bool
  isPlayingTTSRef :: bool
  currentRecordingSessionRef :: nat

text \<open>The component as it is mounted: the initial values of lines 30 to 73.\<close>

definition mounted :: component where
  "mounted =
     \<lparr>isActive = False, isProcessing = False, isSpeaking = False, response = [], error = [],
      silenceTimer = 0, hasSpokenInCurrentSession = False, isPlayingTTS = False,
      sessionStartTime = None, conversationHistory = [], interviewPhase = Introduction,
      candidateInfo = emptyInfo, mediaRecorderRef = None, audioContextRef = False,
      analyserRef = False, streamRef = False, chunksRef = [], silenceTimerRef = None,
      analysisIntervalRef = False, currentAudioRef = None, previousSpeakingStateRef = False,
      hasSpokenInCurrentSessionRef = False, isProcessingRef = False, isPlayingTTSRef = False,
      currentRecordingSessionRef = 0\<rparr>"

text \<open>
  \<open>currentRecordingSessionRef.current += 1\<close> on a JavaScript number. The counter holds
  integers counted up from 0; up to \<open>2^53\<close> every one of them is a double and the
  addition is exact, and \<open>2^53 + 1\<close> rounds back to \<open>2^53\<close>.
\<close>

definition js_inc :: "nat \<Rightarrow> nat" where
  "js_inc n = (if n < 2 ^ 53 then n + 1 else n)"

text \<open>\<open>if (mediaRecorderRef.current && mediaRecorderRef.current.state === "recording")
  mediaRecorderRef.current.stop()\<close>.\<close>

definition stop_if_recording :: "recorder option \<Rightarrow> recorder option" where
  "stop_if_recording r =
     (case r of
        None \<Rightarrow> None
      | Some m \<Rightarrow> if rec_state m = Rec_recording then Some (m\<lparr>rec_state := Rec_inactive\<rparr>) else Some m)"

text \<open>\<open>cleanup\<close>. Stopping the tracks and closing the audio context act on the device;
  the refs keep their objects.\<close>

definition cleanup :: "component \<Rightarrow> component" where
  "cleanup s =
     s\<lparr>mediaRecorderRef := stop_if_recording (mediaRecorderRef s),
       chunksRef := [],
       silenceTimerRef := None,
       analysisIntervalRef := False,
       currentAudioRef := None,
       previousSpeakingStateRef := False,
       hasSpokenInCurrentSessionRef := False,
       isProcessingRef := False,
       isPlayingTTSRef := False\<rparr>"

definition startNewRecordingSession :: "component \<Rightarrow> component" where
  "startNewRecordingSession s =
     (let s1 = s\<lparr>currentRecordingSessionRef := js_inc (currentRecordingSessionRef s)\<rparr>;
          s2 = s1\<lparr>mediaRecorderRef := stop_if_recording (mediaRecorderRef s1),
                  chunksRef := [],
                  hasSpokenInCurrentSessionRef := False,
                  hasSpokenInCurrentSession := False,
                  previousSpeakingStateRef := False,
                  silenceTimerRef := None,
                  silenceTimer := 0\<rparr>
      in if streamRef s2 \<and> audioContextRef s2
         then s2\<lparr>mediaRecorderRef :=
                   Some \<lparr>sessionId = currentRecordingSessionRef s2, rec_state = Rec_recording\<rparr>\<rparr>
         else s2)"

text \<open>\<open>recorder.ondataavailable\<close> of the recorder whose handler captured \<open>sid\<close>, called
  with the chunk \<open>e.data\<close>; and \<open>recorder.onerror\<close>.\<close>

definition ondataavailable :: "nat \<Rightarrow> blob \<Rightarrow> component \<Rightarrow> component" where
  "ondataavailable sid e_data s =
     (if blob_size e_data > 0 \<and> \<not> isProcessingRef s \<and> \<not> isPlayingTTSRef s
         \<and> sid = currentRecordingSessionRef s
      then s\<lparr>chunksRef := chunksRef s @ [e_data]\<rparr>
      else s)"

definition recorder_onerror :: "component \<Rightarrow> component" where
  "recorder_onerror s = s\<lparr>error := recorder_error_text\<rparr>"

section \<open>Voice activity\<close>

text \<open>
  The level of one analysis sample: the mean of the bytes that \<open>getByteFrequencyData\<close>
  wrote into \<open>dataArray\<close>, over 255. The source computes the two quotients in doubles; the
  model takes them exactly. (An empty array gives \<open>NaN\<close> in the source and 0 here; neither
  is above the threshold.)
\<close>

definition normalizedLevel :: "8 word list \<Rightarrow> real" where
  "normalizedLevel dataArray =
     (let bufferLength = length dataArray;
          average = real (sum_list (map unat dataArray)) / real bufferLength
      in average / 255)"

definition currentlySpeaking :: "8 word list \<Rightarrow> bool" where
  "currentlySpeaking dataArray \<longleftrightarrow> normalizedLevel dataArray > SILENCE_THRESHOLD"

text \<open>\<open>updateTimer\<close> of the countdown set at \<open>startTime\<close>, called at the time \<open>now\<close>; its
  re-scheduling every 50 ms is the event \<open>Tick\<close> below.\<close>

definition updateTimer :: "int \<Rightarrow> int \<Rightarrow> component \<Rightarrow> component" where
  "updateTimer startTime now s =
     (let elapsed = now - startTime in s\<lparr>silenceTimer := min elapsed SILENCE_DURATION\<rparr>)"

text \<open>The guard under which \<open>analyzeAudio\<close> calls \<open>setTimeout\<close> (lines 336 to 344).\<close>

definition arms :: "bool \<Rightarrow> bool \<Rightarrow> component \<Rightarrow> bool" where
  "arms previouslySpeaking speaking s \<longleftrightarrow>
     hasSpokenInCurrentSessionRef s \<and> previouslySpeaking \<and> \<not> speaking
     \<and> length (chunksRef s) > 0 \<and> silenceTimerRef s = None
     \<and> \<not> isProcessingRef s \<and> \<not> isPlayingTTSRef s"

text \<open>\<open>analyzeAudio\<close> on the sample \<open>dataArray\<close>; \<open>startTime\<close> is the \<open>Date.now()\<close> read when
  the countdown is set and \<open>now\<close> the one read by the first \<open>updateTimer\<close>.\<close>

definition analyzeAudio :: "8 word list \<Rightarrow> int \<Rightarrow> int \<Rightarrow> component \<Rightarrow> component" where
  "analyzeAudio dataArray startTime now s =
     (if \<not> analyserRef s \<or> isProcessingRef s \<or> isPlayingTTSRef s then s
      else
        let speaking = currentlySpeaking dataArray;
            previouslySpeaking = previousSpeakingStateRef s;
            s1 = s\<lparr>isSpeaking := speaking\<rparr>;
            s2 = (if speaking
                  then s1\<lparr>hasSpokenInCurrentSessionRef := True,
                          hasSpokenInCurrentSession := True,
                          silenceTimerRef := None,
                          silenceTimer := 0\<rparr>
                  else if arms previouslySpeaking speaking s1
                  then updateTimer startTime now (s1\<lparr>silenceTimerRef := Some startTime\<rparr>)
                  else s1)
        in s2\<lparr>previousSpeakingStateRef := speaking\<rparr>)"

section \<open>One turn: \<open>sendCurrentAudio\<close>\<close>

text \<open>
  The state values that a \<open>sendCurrentAudio\<close> closure holds: \<open>conversationHistory\<close>,
  \<open>interviewPhase\<close> and \<open>candidateInfo\<close> of the render that made it, and the prop
  \<open>interviewId\<close>.
\<close>

record closure =
  c_history :: "message list"
  c_phase :: phase
  c_info :: candidate_info
  c_interviewId :: jsstring

text \<open>The form data of the request to \<open>/api/interview-conversation\<close>.\<close>

record conversationContext =
  ctx_history :: "message list"
  ctx_phase :: phase
  ctx_candidateInfo :: candidate_info
  ctx_totalExchanges :: nat
  ctx_formattedHistory :: jsstring

record request =
  req_audio :: blob
  req_systemPrompt :: jsstring
  req_context :: conversationContext
  req_interviewId :: jsstring

text \<open>A thrown value: an \<open>Error\<close> with its message, or something else.\<close>

datatype thrown = Error jsstring | NotAnError

definition error_message :: "thrown \<Rightarrow> jsstring" where
  "error_message err = (case err of Error m \<Rightarrow> m | NotAnError \<Rightarrow> ascii ''Unknown error'')"

text \<open>The \<open>finally\<close> block, and the \<open>catch\<close> block followed by it.\<close>

definition finally_block :: "component \<Rightarrow> component" where
  "finally_block s = s\<lparr>isProcessingRef := False, isProcessing := False\<rparr>"

definition catch_finally :: "thrown \<Rightarrow> component \<Rightarrow> component" where
  "catch_finally err s =
     finally_block (startNewRecordingSession (s\<lparr>error := error_prefix @ error_message err\<rparr>))"

text \<open>
  \<open>sendCurrentAudio\<close> up to the call of \<open>fetch\<close>, which runs without interruption: the
  new state, and the request if one is sent. \<open>(s, None)\<close> with \<open>s\<close> unchanged is the early
  return of line 364.
\<close>

definition sendCurrentAudio_begin :: "closure \<Rightarrow> component \<Rightarrow> component \<times> request option" where
  "sendCurrentAudio_begin c s =
     (if length (chunksRef s) = 0 \<or> isProcessingRef s then (s, None)
      else
        let audioChunks = chunksRef s;
            s1 = s\<lparr>isProcessingRef := True,
                    isProcessing := True,
                    silenceTimerRef := None,
                    silenceTimer := 0,
                    chunksRef := [],
                    hasSpokenInCurrentSessionRef := False,
                    hasSpokenInCurrentSession := False,
                    previousSpeakingStateRef := False\<rparr>;
            s2 = s1\<lparr>error := []\<rparr>;
            audioBlob = new_Blob audioChunks
        in if blob_size audioBlob = 0
           then (catch_finally (Error (ascii ''Empty audio data'')) s2, None)
           else if blob_size audioBlob < 1000
           then (catch_finally (Error (ascii ''Audio data too small - please speak longer'')) s2,
                 None)
           else
             (s2, Some \<lparr>req_audio = audioBlob,
                        req_systemPrompt = createSystemPrompt (c_history c) (c_phase c) (c_info c),
                        req_context =
                          \<lparr>ctx_history = c_history c,
                           ctx_phase = c_phase c,
                           ctx_candidateInfo = c_info c,
                           ctx_totalExchanges =
                             length (filter (\<lambda>msg. role msg = User) (c_history c)),
                           ctx_formattedHistory = formatConversationHistory (c_history c)\<rparr>,
                        req_interviewId = c_interviewId c\<rparr>))"

text \<open>
  What comes back: \<open>fetch\<close> rejects; or the response is not \<open>ok\<close>, with its status and
  its body text (or the rejection of \<open>response.text()\<close>); or \<open>response.json()\<close> rejects;
  or it yields the object \<open>data\<close>, of which the four fields that are read.
\<close>

record api_data =
  d_text :: "jsstring option"
  d_transcript :: "jsstring option"
  d_audio :: "jsstring option"
  d_mimeType :: "jsstring option"

datatype fetch_outcome =
    FetchRejected thrown
  | NotOk nat jsstring
  | NotOkUnreadable thrown
  | JsonRejected thrown
  | Json api_data

text \<open>
  The rest of what the turn meets: whether \<open>saveTranscript\<close> and \<open>audio.play()\<close> reject
  (\<open>None\<close>: they resolve), and the two readings of \<open>Date.now()\<close>.
\<close>

record turn_env =
  fetched :: fetch_outcome
  saved :: "thrown option"
  played :: "thrown option"
  user_now :: int
  assistant_now :: int

text \<open>The handlers \<open>audio.onended\<close> and \<open>audio.onerror\<close> (they are the same).\<close>

definition audio_onended :: "component \<Rightarrow> component" where
  "audio_onended s =
     startNewRecordingSession
       (s\<lparr>currentAudioRef := None, isPlayingTTSRef := False, isPlayingTTS := False\<rparr>)"

definition audio_onerror :: "component \<Rightarrow> component" where
  "audio_onerror s =
     startNewRecordingSession
       (s\<lparr>currentAudioRef := None, isPlayingTTSRef := False, isPlayingTTS := False\<rparr>)"

text \<open>\<open>sendCurrentAudio\<close> from line 412 on, for a \<open>data\<close> whose \<open>text\<close> is truthy.\<close>

definition apply_response :: "closure \<Rightarrow> turn_env \<Rightarrow> api_data \<Rightarrow> component \<Rightarrow> component" where
  "apply_response c env d s =
     (let s1 = s\<lparr>response := the_string (d_text d)\<rparr> in
      if truthy (d_transcript d) \<and> saved env \<noteq> None
      then catch_finally (case saved env of Some err \<Rightarrow> err | None \<Rightarrow> NotAnError) s1
      else
        let newUserMessage =
              \<lparr>role = User,
               content = (if truthy (d_transcript d) then the_string (d_transcript d)
                          else ascii ''[Audio message]''),
               timestamp = user_now env\<rparr>;
            newAssistantMessage =
              \<lparr>role = Assistant, content = the_string (d_text d), timestamp = assistant_now env\<rparr>;
            newHistory = c_history c @ [newUserMessage, newAssistantMessage];
            s2 = s1\<lparr>conversationHistory := newHistory,
                    interviewPhase := updateInterviewPhase newHistory\<rparr>;
            s3 = (if truthy (d_transcript d)
                  then s2\<lparr>candidateInfo :=
                            updateCandidateInfo (the_string (d_text d))
                              (the_string (d_transcript d)) (candidateInfo s2)\<rparr>
                  else s2)
        in if truthy (d_audio d) \<and> truthy (d_mimeType d)
           then
             let audioData = ascii ''data:'' @ the_string (d_mimeType d) @ ascii '';base64,''
                             @ the_string (d_audio d);
                 s4 = s3\<lparr>currentAudioRef := Some audioData,
                         isPlayingTTSRef := True,
                         isPlayingTTS := True,
                         chunksRef := []\<rparr>
             in (case played env of
                   None \<Rightarrow> finally_block s4
                 | Some err \<Rightarrow> catch_finally err s4)
           else finally_block (startNewRecordingSession s3))"

text \<open>\<open>sendCurrentAudio\<close> from the point where the promise of \<open>fetch\<close> settles.\<close>

definition sendCurrentAudio_resume :: "closure \<Rightarrow> turn_env \<Rightarrow> component \<Rightarrow> component" where
  "sendCurrentAudio_resume c env s =
     (case fetched env of
        FetchRejected err \<Rightarrow> catch_finally err s
      | NotOk status errorText \<Rightarrow>
          catch_finally
            (Error (ascii ''API Error: '' @ digits status @ ascii '' - '' @ errorText)) s
      | NotOkUnreadable err \<Rightarrow> catch_finally err s
      | JsonRejected err \<Rightarrow> catch_finally err s
      | Json d \<Rightarrow>
          if \<not> truthy (d_text d)
          then catch_finally (Error (ascii ''No text response from API'')) s
          else apply_response c env d s)"

section \<open>Starting and stopping an interview\<close>

definition handleInitialAIGreeting :: "int \<Rightarrow> component \<Rightarrow> component" where
  "handleInitialAIGreeting now s =
     (let initialAIMessage = \<lparr>role = Assistant, content = initialMessage, timestamp = now\<rparr>
      in s\<lparr>conversationHistory := [initialAIMessage], response := initialMessage\<rparr>)"

text \<open>What \<open>startRealTimeRecording\<close> meets: the result of \<open>canStartSession\<close> (or its
  rejection), whether \<open>getUserMedia\<close> rejects, and the time.\<close>

record usage_check =
  canStart :: bool
  currentUsage :: nat
  planLimit :: nat

record start_env =
  usageCheck :: "thrown + usage_check"
  userMedia :: "thrown option"
  start_now :: int

definition startRealTimeRecording :: "start_env \<Rightarrow> component \<Rightarrow> component" where
  "startRealTimeRecording env s =
     (case usageCheck env of
        Inl err \<Rightarrow> s\<lparr>error := microphone_error_text\<rparr>
      | Inr u \<Rightarrow>
          if \<not> canStart u
          then s\<lparr>error := usage_limit_open @ digits (currentUsage u) @ ascii ''/''
                          @ digits (planLimit u) @ usage_limit_close\<rparr>
          else
            (case userMedia env of
               Some err \<Rightarrow> s\<lparr>error := microphone_error_text\<rparr>
             | None \<Rightarrow>
                 let s1 = s\<lparr>streamRef := True,
                            audioContextRef := True,
                            analyserRef := True,
                            conversationHistory := [],
                            interviewPhase := Introduction,
                            candidateInfo := emptyInfo,
                            response := [],
                            error := [],
                            sessionStartTime := Some (start_now env)\<rparr>;
                     s2 = startNewRecordingSession s1
                 in s2\<lparr>analysisIntervalRef := True, isActive := True, error := []\<rparr>))"

text \<open>\<open>stopRealTimeRecording\<close> at the time \<open>now\<close>: the new state and the minutes given to
  \<open>addSessionUsage\<close>, if it is called; \<open>added\<close> tells whether that call resolves.\<close>

definition stopRealTimeRecording :: "int \<Rightarrow> bool \<Rightarrow> component \<Rightarrow> component \<times> int option" where
  "stopRealTimeRecording now added s =
     (let s1 = cleanup s;
          s2 = s1\<lparr>isActive := False,
                  isSpeaking := False,
                  silenceTimer := 0,
                  isPlayingTTS := False,
                  isProcessing := False,
                  currentRecordingSessionRef := 0\<rparr>
      in case sessionStartTime s2 of
           None \<Rightarrow> (s2, None)
         | Some started \<Rightarrow>
             let sessionMinutes = - ((- (now - started)) div (1000 * 60)) in
             if sessionMinutes > 0
             then (if added then s2\<lparr>sessionStartTime := None\<rparr> else s2, Some sessionMinutes)
             else (s2\<lparr>sessionStartTime := None\<rparr>, None))"

record click_env =
  greeting_now :: int
  starting :: start_env
  stop_now :: int
  usage_added :: bool

definition toggleRecording :: "click_env \<Rightarrow> component \<Rightarrow> component" where
  "toggleRecording env s =
     (if isActive s
      then fst (stopRealTimeRecording (stop_now env) (usage_added env) s)
      else startRealTimeRecording (starting env) (handleInitialAIGreeting (greeting_now env) s))"

section \<open>The component as an event system\<close>

text \<open>
  The callbacks run one at a time. \<open>analyzeAudio\<close> is memoised with an empty dependency
  list (line 360), so the function given to \<open>setInterval\<close> and the \<open>sendCurrentAudio\<close> that
  its timeout calls are those of the first render: their closure holds the initial values
  of the state, whatever the state has become.
\<close>

definition first_render :: "jsstring \<Rightarrow> closure" where
  "first_render interviewId =
     \<lparr>c_history = [], c_phase = Introduction, c_info = emptyInfo, c_interviewId = interviewId\<rparr>"

text \<open>
  The events: a click on the button (disabled while \<open>isProcessing\<close>, line 594); a run of
  the analysis interval; a chunk from a recorder with the session id its handler
  captured; a recorder error; a run of \<open>updateTimer\<close>; the expiry of the silence countdown;
  the settling of the pending \<open>fetch\<close>; the end of the playback, and its error.

  A click is taken with the awaits of \<open>startRealTimeRecording\<close> (or of
  \<open>stopRealTimeRecording\<close>) as one step, and the reply with the settling of
  \<open>saveTranscript\<close> and of \<open>audio.play()\<close>. A chunk and a tick may come at any time and
  with any tag, and the countdown may expire whenever the ref holds one: these are more
  sequences than the browser produces, and none is left out.
\<close>

datatype event =
    Click click_env
  | Sample "8 word list" int int
  | Chunk nat blob
  | RecorderError
  | Tick int int
  | SilenceTimeout
  | Reply turn_env
  | PlaybackEnded
  | PlaybackError

record system =
  comp :: component
  in_flight :: "request list"

fun fire :: "jsstring \<Rightarrow> event \<Rightarrow> system \<Rightarrow> system" where
  "fire interviewId (Click env) sys =
     (if isProcessing (comp sys) then sys
      else sys\<lparr>comp := toggleRecording env (comp sys)\<rparr>)"
| "fire interviewId (Sample dataArray startTime now) sys =
     (if analysisIntervalRef (comp sys)
      then sys\<lparr>comp := analyzeAudio dataArray startTime now (comp sys)\<rparr>
      else sys)"
| "fire interviewId (Chunk sid e_data) sys = sys\<lparr>comp := ondataavailable sid e_data (comp sys)\<rparr>"
| "fire interviewId RecorderError sys =
     (if mediaRecorderRef (comp sys) = None then sys
      else sys\<lparr>comp := recorder_onerror (comp sys)\<rparr>)"
| "fire interviewId (Tick startTime now) sys = sys\<lparr>comp := updateTimer startTime now (comp sys)\<rparr>"
| "fire interviewId SilenceTimeout sys =
     (if silenceTimerRef (comp sys) = None then sys
      else
        (case sendCurrentAudio_begin (first_render interviewId) (comp sys) of
           (s, None) \<Rightarrow> sys\<lparr>comp := s\<rparr>
         | (s, Some r) \<Rightarrow> \<lparr>comp = s, in_flight = in_flight sys @ [r]\<rparr>))"
| "fire interviewId (Reply env) sys =
     (case in_flight sys of
        [] \<Rightarrow> sys
      | r # rs \<Rightarrow>
          \<lparr>comp = sendCurrentAudio_resume (first_render interviewId) env (comp sys),
           in_flight = rs\<rparr>)"
| "fire interviewId PlaybackEnded sys =
     (if currentAudioRef (comp sys) = None then sys
      else sys\<lparr>comp := audio_onended (comp sys)\<rparr>)"
| "fire interviewId PlaybackError sys =
     (if currentAudioRef (comp sys) = None then sys
      else sys\<lparr>comp := audio_onerror (comp sys)\<rparr>)"

definition run :: "jsstring \<Rightarrow> event list \<Rightarrow> system" where
  "run interviewId es =
     foldl (\<lambda>sys e. fire interviewId e sys) \<lparr>comp = mounted, in_flight = []\<rparr> es"

text \<open>
  The states of the turn loop, read off the refs: processing while \<open>isProcessingRef\<close> is
  set, else playing while \<open>isPlayingTTSRef\<close> is set, else recording when the recorder of
  the current session id is recording, else idle.
\<close>

datatype turn_state = Idle | Recording | Processing | Playing

definition turn_state :: "component \<Rightarrow> turn_state" where
  "turn_state s =
     (if isProcessingRef s then Processing
      else if isPlayingTTSRef s then Playing
      else if mediaRecorderRef s
              = Some \<lparr>sessionId = currentRecordingSessionRef s, rec_state = Rec_recording\<rparr>
      then Recording
      else Idle)"

section \<open>Sample inputs\<close>

text \<open>A start of the interview that passes the usage check and gets the microphone.\<close>

definition start_click :: click_env where
  "start_click =
     \<lparr>greeting_now = 1000,
      starting = \<lparr>usageCheck = Inr \<lparr>canStart = True, currentUsage = 3, planLimit = 60\<rparr>,
                  userMedia = None, start_now = 1200\<rparr>,
      stop_now = 90000, usage_added = True\<rparr>"

definition started :: component where
  "started = toggleRecording start_click mounted"

text \<open>One second of speech in two chunks of audio, then silence; a loud and a silent
  sample.\<close>

definition loud :: "8 word list" where
  "loud = [200, 180, 90, 40]"

definition quiet :: "8 word list" where
  "quiet = [3, 0, 1, 0]"

definition spoken :: component where
  "spoken =
     ondataavailable 1 (Blob 3200)
       (ondataavailable 1 (Blob 3100) (analyzeAudio loud 1300 1300 started))"

definition fallen_silent :: component where
  "fallen_silent = analyzeAudio quiet 2400 2400 spoken"

text \<open>The response \<open>{text: "Q2", transcript: "I am Taro", audio: null}\<close>.\<close>

definition taro_data :: api_data where
  "taro_data =
     \<lparr>d_text = Some (ascii ''Q2''), d_transcript = Some (ascii ''I am Taro''),
      d_audio = None, d_mimeType = None\<rparr>"

definition taro_reply :: turn_env where
  "taro_reply =
     \<lparr>fetched = Json taro_data, saved = None, played = None,
      user_now = 4000, assistant_now = 4001\<rparr>"

definition user_turn :: message where
  "user_turn = \<lparr>role = User, content = ascii ''I am Taro'', timestamp = 4000\<rparr>"

definition assistant_turn :: message where
  "assistant_turn = \<lparr>role = Assistant, content = ascii ''Q2'', timestamp = 4001\<rparr>"

text \<open>The same start with a single chunk of 640 bytes before the silence.\<close>

definition tiny :: component where
  "tiny =
     analyzeAudio quiet 2400 2400
       (ondataavailable 1 (Blob 640) (analyzeAudio loud 1300 1300 started))"

definition tiny_trace :: "event list" where
  "tiny_trace =
     [Click start_click, Sample loud 1300 1300, Chunk 1 (Blob 640), Sample quiet 2400 2400]"

text \<open>The sample interview up to the expiry of the countdown, and the state in which its
  request is pending.\<close>

definition turn_trace :: "event list" where
  "turn_trace =
     [Click start_click, Sample loud 1300 1300, Chunk 1 (Blob 3100), Chunk 1 (Blob 3200),
      Sample quiet 2400 2400, SilenceTimeout]"

definition awaiting :: component where
  "awaiting = fst (sendCurrentAudio_begin (first_render []) fallen_silent)"

text \<open>A round trip in which \<open>fetch\<close> rejects.\<close>

definition network_down :: turn_env where
  "network_down =
     \<lparr>fetched = FetchRejected (Error (ascii ''Failed to fetch'')), saved = None, played = None,
      user_now = 4000, assistant_now = 4001\<rparr>"

text \<open>A response with synthesized audio and its MIME type; the round trip in which the
  playback starts, and the one in which \<open>audio.play()\<close> rejects (as it does when the
  browser does not allow the playback), with the state the sample interview is in after
  it.\<close>

definition spoken_data :: api_data where
  "spoken_data =
     \<lparr>d_text = Some (ascii ''Q2''), d_transcript = Some (ascii ''I am Taro''),
      d_audio = Some (ascii ''SUQzBAAAAAAA''), d_mimeType = Some (ascii ''audio/mp3'')\<rparr>"

definition spoken_reply :: turn_env where
  "spoken_reply =
     \<lparr>fetched = Json spoken_data, saved = None, played = None,
      user_now = 4000, assistant_now = 4001\<rparr>"

definition blocked_reply :: turn_env where
  "blocked_reply =
     \<lparr>fetched = Json spoken_data, saved = None,
      played = Some (Error (ascii ''play() failed because the user did not interact'')),
      user_now = 4000, assistant_now = 4001\<rparr>"

definition play_blocked :: system where
  "play_blocked = run [] (turn_trace @ [Reply blocked_reply])"

text \<open>The sample interview with a failed round trip, stopped and started again.\<close>

definition second_interview :: "event list" where
  "second_interview =
     turn_trace @ [Reply network_down, Click start_click, Click start_click]"

text \<open>Transcripts: "watashi wa Tarou desu", "watashi wa Hanako desu" (in Japanese script),
  the names they give, and "2-nen hataraita keiken ari" with the two captures it yields.\<close>

definition taro_transcript :: jsstring where
  "taro_transcript = [0x79C1, 0x306F, 0x30BF, 0x30ED, 0x30A6, 0x3067, 0x3059]"

definition hanako_transcript :: jsstring where
  "hanako_transcript = [0x79C1, 0x306F, 0x30CF, 0x30CA, 0x30B3, 0x3067, 0x3059]"

definition taro_name :: jsstring where
  "taro_name = [0x30BF, 0x30ED, 0x30A6]"

definition work_transcript :: jsstring where
  "work_transcript = [0x0032, 0x5E74, 0x50CD, 0x3044, 0x305F, 0x7D4C, 0x9A13, 0x3042, 0x308A]"

definition work_first_capture :: jsstring where
  "work_first_capture = [0x0032, 0x5E74, 0x50CD, 0x3044, 0x305F]"

definition work_second_capture :: jsstring where
  "work_second_capture = [0x0032, 0x5E74, 0x50CD, 0x3044, 0x305F, 0x7D4C, 0x9A13, 0x3042]"

section \<open>Vocabulary of the properties\<close>

text \<open>The failures of the round trip: \<open>fetch\<close> rejects, the response is not \<open>ok\<close>, its
  body is not JSON, or the body has no text.\<close>

definition response_failure :: "fetch_outcome \<Rightarrow> bool" where
  "response_failure r \<longleftrightarrow> (case r of Json d \<Rightarrow> \<not> truthy (d_text d) | _ \<Rightarrow> True)"

text \<open>
  The relation between the pending requests and the flags that holds between any two
  events: a request is pending exactly while \<open>isProcessingRef\<close> is set, and there is at most
  one; while processing nothing is playing and the buffer is empty; no countdown is pending
  while processing or playing; a countdown is pending only over a non-empty buffer; a
  pending countdown, and the processing flag, imply that the analyser, the stream and the
  audio context exist.
\<close>

definition settled :: "system \<Rightarrow> bool" where
  "settled sys \<longleftrightarrow>
     (let s = comp sys in
      (in_flight sys = [] \<longleftrightarrow> \<not> isProcessingRef s)
      \<and> length (in_flight sys) \<le> 1
      \<and> isProcessing s = isProcessingRef s
      \<and> (isProcessingRef s
           \<longrightarrow> \<not> isPlayingTTSRef s \<and> analyserRef s \<and> silenceTimerRef s = None
               \<and> chunksRef s = [])
      \<and> (isPlayingTTSRef s \<longrightarrow> silenceTimerRef s = None)
      \<and> (silenceTimerRef s \<noteq> None \<longrightarrow> analyserRef s \<and> chunksRef s \<noteq> [])
      \<and> (analyserRef s \<longrightarrow> streamRef s \<and> audioContextRef s))"

text \<open>What one pattern contributes to a fact kind with minimal length \<open>minlen\<close>: its
  trimmed capture, if the pattern matches and the trimmed capture is longer than that.\<close>

definition accepted :: "nat \<Rightarrow> pattern \<Rightarrow> jsstring \<Rightarrow> jsstring option" where
  "accepted minlen p t =
     (case js_match p t of
        Some g \<Rightarrow> if length (trim g) > minlen then Some (trim g) else None
      | None \<Rightarrow> None)"

text \<open>
  The fact sheet after a sequence of turns, each a pair of the interviewer's text and the
  transcript, starting from the empty sheet of the start of the interview.
\<close>

definition facts_after :: "(jsstring \<times> jsstring) list \<Rightarrow> candidate_info" where
  "facts_after turns =
     foldl (\<lambda>info (aiResponse, userTranscript).
              updateCandidateInfo aiResponse userTranscript info) emptyInfo turns"

text \<open>
  The known, non-empty facts of a sheet, each with the label under which the prompt shows
  it, in the order name, university, company, experience, skills; the skills as their
  list joined by a comma and a space.
\<close>

definition known_fact :: "jsstring \<Rightarrow> jsstring option \<Rightarrow> (jsstring \<times> jsstring) list" where
  "known_fact label v =
     (case v of None \<Rightarrow> [] | Some s \<Rightarrow> if s = [] then [] else [(label, s)])"

definition known_facts :: "candidate_info \<Rightarrow> (jsstring \<times> jsstring) list" where
  "known_facts info =
     known_fact facts_heading_name (name info)
     @ known_fact fact_university (university info)
     @ known_fact fact_company (company info)
     @ known_fact fact_experience (experience info)
     @ known_fact fact_skills (map_option (join (ascii '', '')) (skills info))"

section \<open>What the building blocks keep and what they reset\<close>

lemma startNew_kept:
  "conversationHistory (startNewRecordingSession s) = conversationHistory s"
  "interviewPhase (startNewRecordingSession s) = interviewPhase s"
  "candidateInfo (startNewRecordingSession s) = candidateInfo s"
  "isProcessingRef (startNewRecordingSession s) = isProcessingRef s"
  "isProcessing (startNewRecordingSession s) = isProcessing s"
  "isPlayingTTSRef (startNewRecordingSession s) = isPlayingTTSRef s"
  "isPlayingTTS (startNewRecordingSession s) = isPlayingTTS s"
  "error (startNewRecordingSession s) = error s"
  "response (startNewRecordingSession s) = response s"
  "currentAudioRef (startNewRecordingSession s) = currentAudioRef s"
  "isActive (startNewRecordingSession s) = isActive s"
  "analysisIntervalRef (startNewRecordingSession s) = analysisIntervalRef s"
  "analyserRef (startNewRecordingSession s) = analyserRef s"
  "streamRef (startNewRecordingSession s) = streamRef s"
  "audioContextRef (startNewRecordingSession s) = audioContextRef s"
  "sessionStartTime (startNewRecordingSession s) = sessionStartTime s"
  by (simp_all add: startNewRecordingSession_def Let_def)

lemma startNew_reset:
  "currentRecordingSessionRef (startNewRecordingSession s) = js_inc (currentRecordingSessionRef s)"
  "chunksRef (startNewRecordingSession s) = []"
  "hasSpokenInCurrentSessionRef (startNewRecordingSession s) = False"
  "hasSpokenInCurrentSession (startNewRecordingSession s) = False"
  "previousSpeakingStateRef (startNewRecordingSession s) = False"
  "silenceTimerRef (startNewRecordingSession s) = None"
  "silenceTimer (startNewRecordingSession s) = 0"
  by (simp_all add: startNewRecordingSession_def Let_def)

lemma startNew_recorder:
  "streamRef s \<Longrightarrow> audioContextRef s \<Longrightarrow>
   mediaRecorderRef (startNewRecordingSession s)
     = Some \<lparr>sessionId = js_inc (currentRecordingSessionRef s), rec_state = Rec_recording\<rparr>"
  by (simp add: startNewRecordingSession_def Let_def)

lemma catch_finally_kept:
  "conversationHistory (catch_finally err s) = conversationHistory s"
  "interviewPhase (catch_finally err s) = interviewPhase s"
  "candidateInfo (catch_finally err s) = candidateInfo s"
  "isPlayingTTSRef (catch_finally err s) = isPlayingTTSRef s"
  "response (catch_finally err s) = response s"
  "streamRef (catch_finally err s) = streamRef s"
  "audioContextRef (catch_finally err s) = audioContextRef s"
  "isActive (catch_finally err s) = isActive s"
  "analyserRef (catch_finally err s) = analyserRef s"
  "analysisIntervalRef (catch_finally err s) = analysisIntervalRef s"
  "currentAudioRef (catch_finally err s) = currentAudioRef s"
  by (simp_all add: catch_finally_def finally_block_def startNew_kept)

lemma catch_finally_set:
  "error (catch_finally err s) = error_prefix @ error_message err"
  "isProcessingRef (catch_finally err s) = False"
  "isProcessing (catch_finally err s) = False"
  "chunksRef (catch_finally err s) = []"
  "silenceTimerRef (catch_finally err s) = None"
  "currentRecordingSessionRef (catch_finally err s) = js_inc (currentRecordingSessionRef s)"
  by (simp_all add: catch_finally_def finally_block_def startNew_kept startNew_reset)

lemma catch_finally_recorder:
  "streamRef s \<Longrightarrow> audioContextRef s \<Longrightarrow>
   mediaRecorderRef (catch_finally err s)
     = Some \<lparr>sessionId = js_inc (currentRecordingSessionRef s), rec_state = Rec_recording\<rparr>"
  by (simp add: catch_finally_def finally_block_def startNew_recorder)

text \<open>A response with a text, whose transcript (if any) is saved: the two turns are appended
  to the history of the closure and the phase is computed from the result.\<close>

lemma resume_success:
  assumes "fetched env = Json d" "truthy (d_text d)"
    "truthy (d_transcript d) \<longrightarrow> saved env = None"
  shows "conversationHistory (sendCurrentAudio_resume c env s)
           = c_history c @
             [\<lparr>role = User,
               content = (if truthy (d_transcript d) then the_string (d_transcript d)
                          else ascii ''[Audio message]''),
               timestamp = user_now env\<rparr>,
              \<lparr>role = Assistant, content = the_string (d_text d),
               timestamp = assistant_now env\<rparr>]"
    and "interviewPhase (sendCurrentAudio_resume c env s)
           = updateInterviewPhase (conversationHistory (sendCurrentAudio_resume c env s))"
  using assms
  by (auto simp add: sendCurrentAudio_resume_def apply_response_def Let_def finally_block_def
      startNew_kept catch_finally_kept split: option.splits)

text \<open>None of the patterns matches the transcript \<open>I am Taro\<close>.\<close>

lemma no_facts_in_taro:
  "updateCandidateInfo x (ascii ''I am Taro'') emptyInfo = emptyInfo"
  by (simp add: ascii_def updateCandidateInfo_def extract_name_def extract_university_def
      extract_experience_def extract_company_def extract_skills_def emptyInfo_def truthy_def
      namePatterns_def universityPatterns_def experiencePatterns_def companyPatterns_def
      skillsPatterns_def match_here_def lazy_more.simps is_line_terminator_def)


section \<open>The pending request and the flags\<close>

lemma begin_cases:
  "sendCurrentAudio_begin c s = (s', r) \<Longrightarrow>
   (s' = s \<and> r = None \<and> (chunksRef s = [] \<or> isProcessingRef s))
   \<or> (r = None \<and> chunksRef s \<noteq> [] \<and> \<not> isProcessingRef s
       \<and> blob_size (new_Blob (chunksRef s)) < 1000
       \<and> (\<exists>m. s' = catch_finally (Error m)
             (s\<lparr>isProcessingRef := True, isProcessing := True, silenceTimerRef := None,
                silenceTimer := 0, chunksRef := [], hasSpokenInCurrentSessionRef := False,
                hasSpokenInCurrentSession := False, previousSpeakingStateRef := False,
                error := []\<rparr>)))
   \<or> (r \<noteq> None \<and> chunksRef s \<noteq> [] \<and> \<not> isProcessingRef s
       \<and> 1000 \<le> blob_size (new_Blob (chunksRef s))
       \<and> s' = s\<lparr>isProcessingRef := True, isProcessing := True, silenceTimerRef := None,
                silenceTimer := 0, chunksRef := [], hasSpokenInCurrentSessionRef := False,
                hasSpokenInCurrentSession := False, previousSpeakingStateRef := False,
                error := []\<rparr>)"
  by (auto simp add: sendCurrentAudio_begin_def Let_def split: if_splits)

lemma resume_flags:
  "isProcessingRef (sendCurrentAudio_resume c env s) = False"
  "isProcessing (sendCurrentAudio_resume c env s) = False"
  "analyserRef (sendCurrentAudio_resume c env s) = analyserRef s"
  "streamRef (sendCurrentAudio_resume c env s) = streamRef s"
  "audioContextRef (sendCurrentAudio_resume c env s) = audioContextRef s"
  by (auto simp add: sendCurrentAudio_resume_def apply_response_def Let_def finally_block_def
      catch_finally_def startNew_kept split: fetch_outcome.splits option.splits)

lemma resume_timer:
  "silenceTimerRef s = None \<Longrightarrow> silenceTimerRef (sendCurrentAudio_resume c env s) = None"
  by (auto simp add: sendCurrentAudio_resume_def apply_response_def Let_def finally_block_def
      catch_finally_def startNew_reset split: fetch_outcome.splits option.splits)

lemma settled_fire: "settled sys \<Longrightarrow> settled (fire interviewId e sys)"
proof (cases e)
  case (Click env)
  assume "settled sys"
  then show ?thesis
    unfolding Click
    by (auto simp add: settled_def Let_def toggleRecording_def stopRealTimeRecording_def
        cleanup_def startRealTimeRecording_def handleInitialAIGreeting_def startNew_kept
        startNew_reset split: sum.splits option.splits if_splits)
next
  case (Sample d t t')
  assume "settled sys"
  then show ?thesis
    unfolding Sample
    by (auto simp add: settled_def Let_def analyzeAudio_def updateTimer_def arms_def)
next
  case (Chunk sid b)
  assume "settled sys"
  then show ?thesis
    unfolding Chunk by (auto simp add: settled_def Let_def ondataavailable_def)
next
  case RecorderError
  assume "settled sys"
  then show ?thesis
    unfolding RecorderError by (auto simp add: settled_def Let_def recorder_onerror_def)
next
  case (Tick t t')
  assume "settled sys"
  then show ?thesis
    unfolding Tick by (auto simp add: settled_def Let_def updateTimer_def)
next
  case SilenceTimeout
  assume a: "settled sys"
  obtain s' r where b: "sendCurrentAudio_begin (first_render interviewId) (comp sys) = (s', r)"
    by (cases "sendCurrentAudio_begin (first_render interviewId) (comp sys)")
  from begin_cases [OF b] a b show ?thesis
    unfolding SilenceTimeout
    by (auto simp add: settled_def Let_def catch_finally_set catch_finally_kept
        catch_finally_def finally_block_def startNew_kept startNew_reset
        split: option.splits)
next
  case (Reply env)
  assume a: "settled sys"
  show ?thesis
  proof (cases "in_flight sys")
    case Nil
    with a show ?thesis unfolding Reply by simp
  next
    case (Cons q qs)
    with a have p: "isProcessingRef (comp sys)" "qs = []" "silenceTimerRef (comp sys) = None"
      "analyserRef (comp sys)" "streamRef (comp sys)" "audioContextRef (comp sys)"
      by (auto simp add: settled_def Let_def)
    show ?thesis
      unfolding Reply using Cons p
      by (simp add: settled_def Let_def resume_flags resume_timer)
  qed
next
  case PlaybackEnded
  assume "settled sys"
  then show ?thesis
    unfolding PlaybackEnded
    by (auto simp add: settled_def Let_def audio_onended_def startNew_kept startNew_reset)
next
  case PlaybackError
  assume "settled sys"
  then show ?thesis
    unfolding PlaybackError
    by (auto simp add: settled_def Let_def audio_onerror_def startNew_kept startNew_reset)
qed

lemma settled_foldl:
  "settled sys \<Longrightarrow> settled (foldl (\<lambda>sys e. fire interviewId e sys) sys es)"
  by (induction es arbitrary: sys) (simp_all add: settled_fire)

lemma settled_run: "settled (run interviewId es)"
  unfolding run_def by (rule settled_foldl) (simp add: settled_def mounted_def)


section \<open>The sample interview, step by step\<close>

lemma started_eq:
  "started =
     \<lparr>isActive = True, isProcessing = False, isSpeaking = False, response = [], error = [],
      silenceTimer = 0, hasSpokenInCurrentSession = False, isPlayingTTS = False,
      sessionStartTime = Some 1200, conversationHistory = [], interviewPhase = Introduction,
      candidateInfo = emptyInfo,
      mediaRecorderRef = Some \<lparr>sessionId = 1, rec_state = Rec_recording\<rparr>,
      audioContextRef = True, analyserRef = True, streamRef = True, chunksRef = [],
      silenceTimerRef = None, analysisIntervalRef = True, currentAudioRef = None,
      previousSpeakingStateRef = False, hasSpokenInCurrentSessionRef = False,
      isProcessingRef = False, isPlayingTTSRef = False, currentRecordingSessionRef = 1\<rparr>"
  by (simp add: started_def toggleRecording_def mounted_def start_click_def
      startRealTimeRecording_def handleInitialAIGreeting_def startNewRecordingSession_def
      stop_if_recording_def js_inc_def Let_def)

lemma loud_speaking: "currentlySpeaking loud"
  by (simp add: currentlySpeaking_def normalizedLevel_def loud_def SILENCE_THRESHOLD_def)

lemma quiet_silent: "\<not> currentlySpeaking quiet"
  by (simp add: currentlySpeaking_def normalizedLevel_def quiet_def SILENCE_THRESHOLD_def)

lemma spoken_eq:
  "spoken = started\<lparr>isSpeaking := True, hasSpokenInCurrentSession := True,
      hasSpokenInCurrentSessionRef := True, previousSpeakingStateRef := True,
      chunksRef := [Blob 3100, Blob 3200]\<rparr>"
  by (simp add: spoken_def started_eq analyzeAudio_def loud_speaking ondataavailable_def Let_def)

lemma fallen_silent_eq:
  "fallen_silent = spoken\<lparr>isSpeaking := False, previousSpeakingStateRef := False,
      silenceTimerRef := Some 2400\<rparr>"
  by (simp add: fallen_silent_def spoken_eq started_eq analyzeAudio_def quiet_silent arms_def
      updateTimer_def SILENCE_DURATION_def Let_def)


section \<open>Rejected payloads\<close>

lemma error_prefix_nonempty: "error_prefix \<noteq> []"
  by (simp add: error_prefix_def)

lemma interval_kept:
  "analysisIntervalRef (analyzeAudio d t t' s) = analysisIntervalRef s"
  "analysisIntervalRef (ondataavailable sid b s) = analysisIntervalRef s"
  by (simp_all add: analyzeAudio_def ondataavailable_def updateTimer_def Let_def)

lemma run_snoc: "run interviewId (es @ [e]) = fire interviewId e (run interviewId es)"
  by (simp add: run_def)

lemma run_start: "run interviewId [Click start_click] = \<lparr>comp = started, in_flight = []\<rparr>"
  by (simp add: run_def started_def mounted_def)

lemma catch_finally_recording:
  "streamRef s \<Longrightarrow> audioContextRef s \<Longrightarrow> \<not> isPlayingTTSRef s \<Longrightarrow>
   turn_state (catch_finally err s) = Recording"
  by (simp add: turn_state_def catch_finally_set catch_finally_kept catch_finally_recorder)

lemma begin_small:
  assumes "chunksRef s \<noteq> []" "\<not> isProcessingRef s" "blob_size (new_Blob (chunksRef s)) < 1000"
  shows "sendCurrentAudio_begin c s =
           (catch_finally
              (Error (if blob_size (new_Blob (chunksRef s)) = 0 then ascii ''Empty audio data''
                      else ascii ''Audio data too small - please speak longer''))
              (s\<lparr>isProcessingRef := True, isProcessing := True, silenceTimerRef := None,
                 silenceTimer := 0, chunksRef := [], hasSpokenInCurrentSessionRef := False,
                 hasSpokenInCurrentSession := False, previousSpeakingStateRef := False,
                 error := []\<rparr>), None)"
  using assms by (simp add: sendCurrentAudio_begin_def Let_def)

lemma timeout_small:
  assumes inv: "settled sys"
    and h: "silenceTimerRef (comp sys) \<noteq> None"
      "blob_size (new_Blob (chunksRef (comp sys))) < 1000"
  shows "in_flight (fire interviewId SilenceTimeout sys) = []"
    and "error (comp (fire interviewId SilenceTimeout sys)) \<noteq> []"
    and "turn_state (comp (fire interviewId SilenceTimeout sys)) = Recording"
    and "currentRecordingSessionRef (comp (fire interviewId SilenceTimeout sys))
          = js_inc (currentRecordingSessionRef (comp sys))"
proof -
  from inv h have p: "\<not> isProcessingRef (comp sys)" "\<not> isPlayingTTSRef (comp sys)"
    "streamRef (comp sys)" "audioContextRef (comp sys)" "in_flight sys = []"
    "chunksRef (comp sys) \<noteq> []"
    by (auto simp add: settled_def Let_def)
  note b = begin_small [OF p(6) p(1) h(2), of "first_render interviewId"]
  have f: "fire interviewId SilenceTimeout sys
      = sys\<lparr>comp := fst (sendCurrentAudio_begin (first_render interviewId) (comp sys))\<rparr>"
    using h(1) by (cases "silenceTimerRef (comp sys)") (simp_all add: b)
  show "in_flight (fire interviewId SilenceTimeout sys) = []"
    using p(5) by (simp add: f del: fire.simps)
  show "error (comp (fire interviewId SilenceTimeout sys)) \<noteq> []"
    by (simp add: f b catch_finally_set error_prefix_nonempty del: fire.simps)
  show "turn_state (comp (fire interviewId SilenceTimeout sys)) = Recording"
    using p by (simp add: f b catch_finally_recording del: fire.simps)
  show "currentRecordingSessionRef (comp (fire interviewId SilenceTimeout sys))
      = js_inc (currentRecordingSessionRef (comp sys))"
    by (simp add: f b catch_finally_set del: fire.simps)
qed

lemma tiny_eq:
  "tiny = started\<lparr>isSpeaking := False, hasSpokenInCurrentSession := True,
      hasSpokenInCurrentSessionRef := True, previousSpeakingStateRef := False,
      chunksRef := [Blob 640], silenceTimerRef := Some 2400\<rparr>"
  by (simp add: tiny_def started_eq analyzeAudio_def loud_speaking quiet_silent arms_def
      ondataavailable_def updateTimer_def SILENCE_DURATION_def Let_def)

lemma run_tiny: "run [] tiny_trace = \<lparr>comp = tiny, in_flight = []\<rparr>"
proof -
  have i: "analysisIntervalRef started" by (simp add: started_eq)
  have "run [] tiny_trace
      = fire [] (Sample quiet 2400 2400) (fire [] (Chunk 1 (Blob 640))
          (fire [] (Sample loud 1300 1300) (run [] [Click start_click])))"
    by (simp add: run_def tiny_trace_def)
  then show ?thesis
    using i by (simp add: run_start interval_kept tiny_def)
qed


section \<open>Dispatched requests and failed replies\<close>

lemma begin_sent:
  assumes "chunksRef s \<noteq> []" "\<not> isProcessingRef s" "1000 \<le> blob_size (new_Blob (chunksRef s))"
  shows "fst (sendCurrentAudio_begin c s)
           = s\<lparr>isProcessingRef := True, isProcessing := True, silenceTimerRef := None,
                silenceTimer := 0, chunksRef := [], hasSpokenInCurrentSessionRef := False,
                hasSpokenInCurrentSession := False, previousSpeakingStateRef := False,
                error := []\<rparr>"
    and "\<exists>r. snd (sendCurrentAudio_begin c s) = Some r \<and> req_audio r = new_Blob (chunksRef s)"
  using assms by (simp_all add: sendCurrentAudio_begin_def Let_def)

lemma awaiting_eq:
  "awaiting = fallen_silent\<lparr>isProcessingRef := True, isProcessing := True,
      silenceTimerRef := None, silenceTimer := 0, chunksRef := [],
      hasSpokenInCurrentSessionRef := False, hasSpokenInCurrentSession := False,
      previousSpeakingStateRef := False, error := []\<rparr>"
  unfolding awaiting_def
  by (rule begin_sent(1)) (simp_all add: fallen_silent_eq spoken_eq started_eq new_Blob_def)

lemma run_turn:
  "comp (run [] turn_trace) = awaiting" "length (in_flight (run [] turn_trace)) = 1"
proof -
  have i: "analysisIntervalRef started" by (simp add: started_eq)
  have t: "silenceTimerRef fallen_silent \<noteq> None"
    by (simp add: fallen_silent_eq spoken_eq started_eq)
  have "run [] turn_trace
      = fire [] SilenceTimeout (fire [] (Sample quiet 2400 2400) (fire [] (Chunk 1 (Blob 3200))
          (fire [] (Chunk 1 (Blob 3100))
          (fire [] (Sample loud 1300 1300) (run [] [Click start_click])))))"
    by (simp add: run_def turn_trace_def)
  also have "\<dots> = fire [] SilenceTimeout \<lparr>comp = fallen_silent, in_flight = []\<rparr>"
    using i by (simp add: run_start interval_kept fallen_silent_def spoken_def)
  finally have r: "run [] turn_trace = fire [] SilenceTimeout \<lparr>comp = fallen_silent, in_flight = []\<rparr>" .
  obtain q where q: "snd (sendCurrentAudio_begin (first_render []) fallen_silent) = Some q"
    using begin_sent(2) [of fallen_silent "first_render []"]
    by (auto simp add: fallen_silent_eq spoken_eq started_eq new_Blob_def)
  have b: "sendCurrentAudio_begin (first_render []) fallen_silent = (awaiting, Some q)"
    using q by (simp add: awaiting_def prod_eq_iff)
  show "comp (run [] turn_trace) = awaiting" "length (in_flight (run [] turn_trace)) = 1"
    using t by (auto simp add: r b)
qed

lemma resume_failure:
  assumes "response_failure (fetched env)"
  shows "sendCurrentAudio_resume c env s
      = catch_finally
          (case fetched env of
             FetchRejected err \<Rightarrow> err
           | NotOk status errorText \<Rightarrow>
               Error (ascii ''API Error: '' @ digits status @ ascii '' - '' @ errorText)
           | NotOkUnreadable err \<Rightarrow> err
           | JsonRejected err \<Rightarrow> err
           | Json d \<Rightarrow> Error (ascii ''No text response from API'')) s"
  using assms
  by (simp add: sendCurrentAudio_resume_def response_failure_def split: fetch_outcome.splits)

lemma reply_failure:
  assumes inv: "settled sys" and p: "in_flight sys \<noteq> []"
    and f: "response_failure (fetched env)"
  shows "in_flight (fire interviewId (Reply env) sys) = []"
    and "error (comp (fire interviewId (Reply env) sys)) \<noteq> []"
    and "turn_state (comp (fire interviewId (Reply env) sys)) = Recording"
    and "currentRecordingSessionRef (comp (fire interviewId (Reply env) sys))
          = js_inc (currentRecordingSessionRef (comp sys))"
proof -
  from inv p obtain q where q: "in_flight sys = [q]"
    by (cases "in_flight sys") (auto simp add: settled_def Let_def)
  from inv p have s: "\<not> isPlayingTTSRef (comp sys)" "streamRef (comp sys)"
    "audioContextRef (comp sys)"
    by (auto simp add: settled_def Let_def)
  note r = resume_failure [OF f, of "first_render interviewId" "comp sys"]
  show "in_flight (fire interviewId (Reply env) sys) = []" by (simp add: q)
  show "error (comp (fire interviewId (Reply env) sys)) \<noteq> []"
    by (simp add: q r catch_finally_set error_prefix_nonempty)
  show "turn_state (comp (fire interviewId (Reply env) sys)) = Recording"
    using s by (simp add: q r catch_finally_recording)
  show "currentRecordingSessionRef (comp (fire interviewId (Reply env) sys))
          = js_inc (currentRecordingSessionRef (comp sys))"
    by (simp add: q r catch_finally_set)
qed

lemma awaiting_fields:
  "streamRef awaiting" "audioContextRef awaiting" "\<not> isPlayingTTSRef awaiting"
  "currentRecordingSessionRef awaiting = 1" "chunksRef awaiting = []"
  "isProcessingRef awaiting" "conversationHistory awaiting = []"
  "interviewPhase awaiting = Introduction" "candidateInfo awaiting = emptyInfo"
  "currentAudioRef awaiting = None" "error awaiting = []"
  by (simp_all add: awaiting_eq fallen_silent_eq spoken_eq started_eq)

lemma tiny_fields:
  "chunksRef tiny = [Blob 640]" "\<not> isProcessingRef tiny"
  "blob_size (new_Blob (chunksRef tiny)) = 640"
  "streamRef tiny" "audioContextRef tiny" "\<not> isPlayingTTSRef tiny"
  "silenceTimerRef tiny = Some 2400" "currentRecordingSessionRef tiny = 1"
  by (simp_all add: tiny_eq started_eq new_Blob_def)


section \<open>Successful replies and playback\<close>

lemma turn_state_awaiting: "turn_state awaiting = Processing"
  by (simp add: turn_state_def awaiting_fields)

text \<open>A response with a text, a saved transcript: the state after it, by the presence of
  audio and MIME type.\<close>

lemma resume_no_audio:
  assumes "fetched env = Json d" "truthy (d_text d)"
    "truthy (d_transcript d) \<longrightarrow> saved env = None"
    "\<not> (truthy (d_audio d) \<and> truthy (d_mimeType d))"
  shows "isPlayingTTSRef (sendCurrentAudio_resume c env s) = isPlayingTTSRef s"
    and "currentAudioRef (sendCurrentAudio_resume c env s) = currentAudioRef s"
    and "error (sendCurrentAudio_resume c env s) = error s"
    and "\<not> isProcessingRef (sendCurrentAudio_resume c env s)"
    and "currentRecordingSessionRef (sendCurrentAudio_resume c env s)
          = js_inc (currentRecordingSessionRef s)"
    and "streamRef s \<and> audioContextRef s \<Longrightarrow>
         mediaRecorderRef (sendCurrentAudio_resume c env s)
           = Some \<lparr>sessionId = js_inc (currentRecordingSessionRef s), rec_state = Rec_recording\<rparr>"
  using assms
  by (auto simp add: sendCurrentAudio_resume_def apply_response_def Let_def finally_block_def
      startNew_kept startNew_reset startNew_recorder)

lemma resume_audio:
  assumes "fetched env = Json d" "truthy (d_text d)"
    "truthy (d_transcript d) \<longrightarrow> saved env = None"
    "truthy (d_audio d)" "truthy (d_mimeType d)"
  shows "isPlayingTTSRef (sendCurrentAudio_resume c env s)"
    and "\<not> isProcessingRef (sendCurrentAudio_resume c env s)"
    and "currentAudioRef (sendCurrentAudio_resume c env s)
          = Some (ascii ''data:'' @ the_string (d_mimeType d) @ ascii '';base64,''
                  @ the_string (d_audio d))"
    and "chunksRef (sendCurrentAudio_resume c env s) = []"
    and "streamRef (sendCurrentAudio_resume c env s) = streamRef s"
    and "audioContextRef (sendCurrentAudio_resume c env s) = audioContextRef s"
  using assms
  by (auto simp add: sendCurrentAudio_resume_def apply_response_def Let_def finally_block_def
      catch_finally_def startNew_kept startNew_reset split: option.splits)

lemma playback_over:
  "\<not> isProcessingRef s \<Longrightarrow> streamRef s \<Longrightarrow> audioContextRef s \<Longrightarrow>
   turn_state (audio_onended s) = Recording \<and> turn_state (audio_onerror s) = Recording"
  by (simp add: turn_state_def audio_onended_def audio_onerror_def startNew_kept startNew_reset
      startNew_recorder)

lemma playback_over_id:
  "currentRecordingSessionRef (audio_onended s) = js_inc (currentRecordingSessionRef s)"
  "currentRecordingSessionRef (audio_onerror s) = js_inc (currentRecordingSessionRef s)"
  "isPlayingTTSRef (audio_onended s) = False" "isPlayingTTSRef (audio_onerror s) = False"
  by (simp_all add: audio_onended_def audio_onerror_def startNew_kept startNew_reset)


lemma resume_play_rejected:
  assumes "fetched env = Json d" "truthy (d_text d)"
    "truthy (d_transcript d) \<longrightarrow> saved env = None"
    "truthy (d_audio d)" "truthy (d_mimeType d)" "played env = Some err"
  shows "error (sendCurrentAudio_resume c env s) = error_prefix @ error_message err"
    and "currentRecordingSessionRef (sendCurrentAudio_resume c env s)
          = js_inc (currentRecordingSessionRef s)"
    and "silenceTimerRef (sendCurrentAudio_resume c env s) = None"
    and "streamRef s \<and> audioContextRef s \<Longrightarrow>
         mediaRecorderRef (sendCurrentAudio_resume c env s)
           = Some \<lparr>sessionId = js_inc (currentRecordingSessionRef s), rec_state = Rec_recording\<rparr>"
  using assms
  by (auto simp add: sendCurrentAudio_resume_def apply_response_def Let_def catch_finally_set
      catch_finally_recorder)

lemma run_blocked:
  "comp play_blocked = sendCurrentAudio_resume (first_render []) blocked_reply awaiting"
  "in_flight play_blocked = []"
proof -
  obtain q where q: "in_flight (run [] turn_trace) = [q]"
    using run_turn(2) by (cases "in_flight (run [] turn_trace)") auto
  show "comp play_blocked = sendCurrentAudio_resume (first_render []) blocked_reply awaiting"
    "in_flight play_blocked = []"
    by (simp_all add: play_blocked_def run_snoc q run_turn(1))
qed

lemma blocked_success:
  "fetched blocked_reply = Json spoken_data" "truthy (d_text spoken_data)"
  "truthy (d_transcript spoken_data) \<longrightarrow> saved blocked_reply = None"
  "truthy (d_audio spoken_data)" "truthy (d_mimeType spoken_data)"
  "played blocked_reply = Some (Error (ascii ''play() failed because the user did not interact''))"
  by (simp_all add: blocked_reply_def spoken_data_def truthy_def ascii_def)

lemma spoken_success:
  "fetched spoken_reply = Json spoken_data"
  "truthy (d_transcript spoken_data) \<longrightarrow> saved spoken_reply = None"
  "played spoken_reply = None"
  by (simp_all add: spoken_reply_def)


section \<open>Samples and the countdown\<close>

lemma analyze_armed:
  assumes "silenceTimerRef (analyzeAudio d t t' s) \<noteq> None"
    "silenceTimerRef (analyzeAudio d t t' s) \<noteq> silenceTimerRef s"
  shows "hasSpokenInCurrentSessionRef s \<and> previousSpeakingStateRef s \<and> \<not> currentlySpeaking d
     \<and> chunksRef s \<noteq> [] \<and> silenceTimerRef s = None
     \<and> \<not> isProcessingRef s \<and> \<not> isPlayingTTSRef s
     \<and> silenceTimerRef (analyzeAudio d t t' s) = Some t"
  using assms
  by (auto simp add: analyzeAudio_def Let_def arms_def updateTimer_def split: if_splits)

lemma analyze_previous:
  "analyserRef s \<Longrightarrow> \<not> isProcessingRef s \<Longrightarrow> \<not> isPlayingTTSRef s \<Longrightarrow>
   previousSpeakingStateRef (analyzeAudio d t t' s) = currentlySpeaking d"
  by (simp add: analyzeAudio_def Let_def updateTimer_def)

lemma analyze_twice_silent:
  assumes "\<not> currentlySpeaking d1" "\<not> currentlySpeaking d2"
  shows "silenceTimerRef (analyzeAudio d2 t2 t2' (analyzeAudio d1 t1 t1' s))
       = silenceTimerRef (analyzeAudio d1 t1 t1' s)"
proof (cases "\<not> analyserRef s \<or> isProcessingRef s \<or> isPlayingTTSRef s")
  case True
  then show ?thesis by (auto simp add: analyzeAudio_def)
next
  case False
  then have "previousSpeakingStateRef (analyzeAudio d1 t1 t1' s) = False"
    using assms(1) by (simp add: analyze_previous)
  then show ?thesis
    using assms(2) by (simp add: analyzeAudio_def [of d2] Let_def arms_def)
qed

lemma busy_ignores:
  "isProcessingRef s \<or> isPlayingTTSRef s \<Longrightarrow>
   analyzeAudio d t t' s = s \<and> ondataavailable sid b s = s"
  by (auto simp add: analyzeAudio_def ondataavailable_def)

lemma busy_no_request: "isProcessingRef s \<Longrightarrow> sendCurrentAudio_begin c s = (s, None)"
  by (simp add: sendCurrentAudio_begin_def)

lemma one_in_flight: "length (in_flight (run interviewId es)) \<le> 1"
  using settled_run [of interviewId es] by (simp add: settled_def Let_def)


section \<open>The session identifier\<close>

lemma js_inc_le: "n \<le> js_inc n"
  by (simp add: js_inc_def)

lemma js_inc_less: "n < 2 ^ 53 \<Longrightarrow> n < js_inc n"
  by (simp add: js_inc_def)

lemma begin_id:
  "currentRecordingSessionRef s \<le> currentRecordingSessionRef (fst (sendCurrentAudio_begin c s))"
  by (simp add: sendCurrentAudio_begin_def Let_def catch_finally_set js_inc_le)

lemma resume_id:
  "currentRecordingSessionRef s \<le> currentRecordingSessionRef (sendCurrentAudio_resume c env s)"
  by (auto simp add: sendCurrentAudio_resume_def apply_response_def Let_def catch_finally_set
      finally_block_def startNew_reset js_inc_le split: fetch_outcome.splits option.splits)

lemma start_id:
  "currentRecordingSessionRef s \<le> currentRecordingSessionRef (startRealTimeRecording env s)"
  by (auto simp add: startRealTimeRecording_def Let_def startNew_reset js_inc_le
      split: sum.splits option.splits)

lemma stop_id: "currentRecordingSessionRef (fst (stopRealTimeRecording now added s)) = 0"
  by (simp add: stopRealTimeRecording_def Let_def cleanup_def split: option.splits)

lemma fire_id:
  assumes "\<not> (\<exists>env. e = Click env \<and> isActive (comp sys))"
  shows "currentRecordingSessionRef (comp sys)
       \<le> currentRecordingSessionRef (comp (fire interviewId e sys))"
proof (cases e)
  case (Click env)
  with assms have "\<not> isActive (comp sys)" by simp
  then show ?thesis
    unfolding Click
    using start_id [of "handleInitialAIGreeting (greeting_now env) (comp sys)" "starting env"]
    by (simp add: toggleRecording_def handleInitialAIGreeting_def Let_def)
next
  case (Sample d t t')
  then show ?thesis by (simp add: analyzeAudio_def updateTimer_def Let_def)
next
  case (Chunk sid b)
  then show ?thesis by (simp add: ondataavailable_def)
next
  case RecorderError
  then show ?thesis by (simp add: recorder_onerror_def)
next
  case (Tick t t')
  then show ?thesis by (simp add: updateTimer_def Let_def)
next
  case SilenceTimeout
  then show ?thesis
    using begin_id [of "comp sys" "first_render interviewId"]
    by (cases "sendCurrentAudio_begin (first_render interviewId) (comp sys)")
      (auto split: option.splits)
next
  case (Reply env)
  then show ?thesis
    using resume_id [of "comp sys" "first_render interviewId" env]
    by (cases "in_flight sys") simp_all
next
  case PlaybackEnded
  then show ?thesis by (simp add: playback_over_id js_inc_le)
next
  case PlaybackError
  then show ?thesis by (simp add: playback_over_id js_inc_le)
qed

lemma chunk_appended:
  assumes "chunksRef (ondataavailable sid e_data s) \<noteq> chunksRef s"
  shows "sid = currentRecordingSessionRef s \<and> \<not> isProcessingRef s \<and> \<not> isPlayingTTSRef s
       \<and> chunksRef (ondataavailable sid e_data s) = chunksRef s @ [e_data]"
  using assms by (auto simp add: ondataavailable_def split: if_splits)

lemma chunk_stale: "sid \<noteq> currentRecordingSessionRef s \<Longrightarrow> ondataavailable sid e_data s = s"
  by (simp add: ondataavailable_def)

lemma chunk_current:
  "sid = currentRecordingSessionRef s \<Longrightarrow> \<not> isProcessingRef s \<Longrightarrow> \<not> isPlayingTTSRef s \<Longrightarrow>
   0 < blob_size e_data \<Longrightarrow> chunksRef (ondataavailable sid e_data s) = chunksRef s @ [e_data]"
  by (simp add: ondataavailable_def)

lemma run_failed_turn:
  "currentRecordingSessionRef (comp (run [] (turn_trace @ [Reply network_down]))) = 2"
  "isActive (comp (run [] (turn_trace @ [Reply network_down])))"
  "\<not> isProcessing (comp (run [] (turn_trace @ [Reply network_down])))"
  "mediaRecorderRef (comp (run [] (turn_trace @ [Reply network_down])))
     = Some \<lparr>sessionId = 2, rec_state = Rec_recording\<rparr>"
proof -
  obtain q where q: "in_flight (run [] turn_trace) = [q]"
    using run_turn(2) by (cases "in_flight (run [] turn_trace)") auto
  have f: "response_failure (fetched network_down)"
    by (simp add: response_failure_def network_down_def)
  have r: "comp (run [] (turn_trace @ [Reply network_down]))
      = sendCurrentAudio_resume (first_render []) network_down awaiting"
    by (simp add: run_snoc q run_turn(1))
  have a: "isActive awaiting" by (simp add: awaiting_eq fallen_silent_eq spoken_eq started_eq)
  show "currentRecordingSessionRef (comp (run [] (turn_trace @ [Reply network_down]))) = 2"
    "isActive (comp (run [] (turn_trace @ [Reply network_down])))"
    "\<not> isProcessing (comp (run [] (turn_trace @ [Reply network_down])))"
    "mediaRecorderRef (comp (run [] (turn_trace @ [Reply network_down])))
     = Some \<lparr>sessionId = 2, rec_state = Rec_recording\<rparr>"
    using a
    by (simp_all add: r resume_failure [OF f] catch_finally_set catch_finally_recorder
        catch_finally_kept awaiting_fields js_inc_def)
qed


lemma stop_fields:
  "isActive (fst (stopRealTimeRecording now added s)) = False"
  "isProcessing (fst (stopRealTimeRecording now added s)) = False"
  by (simp_all add: stopRealTimeRecording_def Let_def cleanup_def split: option.splits)

lemma start_granted:
  assumes "usageCheck env = Inr u" "canStart u" "userMedia env = None"
  shows "currentRecordingSessionRef (startRealTimeRecording env s)
           = js_inc (currentRecordingSessionRef s)"
    and "mediaRecorderRef (startRealTimeRecording env s)
           = Some \<lparr>sessionId = js_inc (currentRecordingSessionRef s), rec_state = Rec_recording\<rparr>"
    and "conversationHistory (startRealTimeRecording env s) = []"
    and "response (startRealTimeRecording env s) = []"
  using assms
  by (simp_all add: startRealTimeRecording_def Let_def startNew_reset startNew_recorder
      startNew_kept)

lemma start_click_granted:
  "usageCheck (starting start_click) = Inr \<lparr>canStart = True, currentUsage = 3, planLimit = 60\<rparr>"
  "canStart \<lparr>canStart = True, currentUsage = 3, planLimit = 60\<rparr>"
  "userMedia (starting start_click) = None"
  by (simp_all add: start_click_def)


section \<open>The first round trip of the sample interview\<close>

lemma run_taro:
  "comp (run [] (turn_trace @ [Reply taro_reply]))
     = sendCurrentAudio_resume (first_render []) taro_reply awaiting"
proof -
  obtain q where q: "in_flight (run [] turn_trace) = [q]"
    using run_turn(2) by (cases "in_flight (run [] turn_trace)") auto
  show ?thesis by (simp add: run_snoc q run_turn(1))
qed

lemma taro_success:
  "fetched taro_reply = Json taro_data" "truthy (d_text taro_data)"
  "truthy (d_transcript taro_data) \<longrightarrow> saved taro_reply = None"
  "\<not> (truthy (d_audio taro_data) \<and> truthy (d_mimeType taro_data))"
  by (simp_all add: taro_reply_def taro_data_def truthy_def ascii_def)


section \<open>The pattern loop and the fields it fills\<close>

lemma first_accepted_Cons:
  "first_accepted (p # ps) n t
     = (case accepted n p t of Some v \<Rightarrow> Some v | None \<Rightarrow> first_accepted ps n t)"
  by (simp add: accepted_def split: option.splits)

lemma first_accepted_Some_iff:
  "first_accepted ps n t = Some v
     \<longleftrightarrow> (\<exists>i<length ps. accepted n (ps ! i) t = Some v
            \<and> (\<forall>j<i. accepted n (ps ! j) t = None))"
proof (induction ps)
  case Nil
  then show ?case by simp
next
  case (Cons p ps)
  show ?case
  proof (cases "accepted n p t")
    case None
    have "(\<exists>i<length (p # ps). accepted n ((p # ps) ! i) t = Some v
            \<and> (\<forall>j<i. accepted n ((p # ps) ! j) t = None))
        \<longleftrightarrow> (\<exists>i<length ps. accepted n (ps ! i) t = Some v
            \<and> (\<forall>j<i. accepted n (ps ! j) t = None))" (is "?L \<longleftrightarrow> ?R")
    proof
      assume ?L
      then obtain i where i: "i < length (p # ps)" "accepted n ((p # ps) ! i) t = Some v"
        "\<forall>j<i. accepted n ((p # ps) ! j) t = None" by blast
      from i(2) None obtain k where k: "i = Suc k" by (cases i) auto
      from i k have "k < length ps" "accepted n (ps ! k) t = Some v" by auto
      moreover have "\<forall>j<k. accepted n (ps ! j) t = None"
      proof (intro allI impI)
        fix j assume "j < k"
        then have "Suc j < i" using k by simp
        with i(3) have "accepted n ((p # ps) ! Suc j) t = None" by blast
        then show "accepted n (ps ! j) t = None" by simp
      qed
      ultimately show ?R by blast
    next
      assume ?R
      then obtain k where k: "k < length ps" "accepted n (ps ! k) t = Some v"
        "\<forall>j<k. accepted n (ps ! j) t = None" by blast
      have "\<forall>j<Suc k. accepted n ((p # ps) ! j) t = None"
      proof (intro allI impI)
        fix j assume "j < Suc k"
        then show "accepted n ((p # ps) ! j) t = None"
          using None k(3) by (cases j) auto
      qed
      with k(1,2) show ?L by (intro exI [of _ "Suc k"]) simp
    qed
    with None Cons.IH show ?thesis
      by (simp add: first_accepted_Cons del: first_accepted.simps)
  next
    case (Some w)
    have "(\<exists>i<length (p # ps). accepted n ((p # ps) ! i) t = Some v
            \<and> (\<forall>j<i. accepted n ((p # ps) ! j) t = None)) \<longleftrightarrow> w = v" (is "?L \<longleftrightarrow> _")
    proof
      assume ?L
      then obtain i where i: "accepted n ((p # ps) ! i) t = Some v"
        "\<forall>j<i. accepted n ((p # ps) ! j) t = None" by blast
      have "i = 0"
      proof (rule ccontr)
        assume "i \<noteq> 0"
        then have "0 < i" by simp
        with i(2) have "accepted n ((p # ps) ! 0) t = None" by blast
        with Some show False by simp
      qed
      with i(1) Some show "w = v" by simp
    next
      assume "w = v"
      with Some show ?L by (intro exI [of _ 0]) simp
    qed
    with Some show ?thesis
      by (simp add: first_accepted_Cons del: first_accepted.simps)
  qed
qed

lemma first_accepted_longer: "first_accepted ps n t = Some v \<Longrightarrow> n < length v"
  by (induction ps) (auto split: option.splits if_splits)

lemma first_accepted_truthy: "first_accepted ps n t = Some v \<Longrightarrow> truthy (Some v)"
  using first_accepted_longer [of ps n t v] by (auto simp add: truthy_def)

lemma extract_name_other:
  "university (extract_name t i) = university i" "experience (extract_name t i) = experience i"
  "company (extract_name t i) = company i" "skills (extract_name t i) = skills i"
  "interests (extract_name t i) = interests i"
  by (simp_all add: extract_name_def split: option.splits)

lemma extract_university_other:
  "name (extract_university t i) = name i" "experience (extract_university t i) = experience i"
  "company (extract_university t i) = company i" "skills (extract_university t i) = skills i"
  "interests (extract_university t i) = interests i"
  by (simp_all add: extract_university_def split: option.splits)

lemma extract_experience_other:
  "name (extract_experience t i) = name i" "university (extract_experience t i) = university i"
  "company (extract_experience t i) = company i" "skills (extract_experience t i) = skills i"
  "interests (extract_experience t i) = interests i"
  by (simp_all add: extract_experience_def split: option.splits)

lemma extract_company_other:
  "name (extract_company t i) = name i" "university (extract_company t i) = university i"
  "experience (extract_company t i) = experience i" "skills (extract_company t i) = skills i"
  "interests (extract_company t i) = interests i"
  by (simp_all add: extract_company_def split: option.splits)

lemma extract_skills_other:
  "name (extract_skills t i) = name i" "university (extract_skills t i) = university i"
  "experience (extract_skills t i) = experience i" "company (extract_skills t i) = company i"
  "interests (extract_skills t i) = interests i"
  by (simp_all add: extract_skills_def split: option.splits)

lemmas extract_other = extract_name_other extract_university_other extract_experience_other
  extract_company_other extract_skills_other

lemma update_fields:
  "name (updateCandidateInfo a t i)
     = (if truthy (name i) then name i
        else case first_accepted namePatterns 0 t of Some v \<Rightarrow> Some v | None \<Rightarrow> name i)"
  "university (updateCandidateInfo a t i)
     = (if truthy (university i) then university i
        else case first_accepted universityPatterns 2 t of
               Some v \<Rightarrow> Some v | None \<Rightarrow> university i)"
  "experience (updateCandidateInfo a t i)
     = (if truthy (experience i) then experience i
        else case first_accepted experiencePatterns 5 t of
               Some v \<Rightarrow> Some v | None \<Rightarrow> experience i)"
  "company (updateCandidateInfo a t i)
     = (if truthy (company i) then company i
        else case first_accepted companyPatterns 2 t of
               Some v \<Rightarrow> Some v | None \<Rightarrow> company i)"
  "skills (updateCandidateInfo a t i)
     = (if (case skills i of None \<Rightarrow> True | Some l \<Rightarrow> length l = 0)
        then case first_accepted skillsPatterns 3 t of
               Some v \<Rightarrow> Some [v] | None \<Rightarrow> skills i
        else skills i)"
  "interests (updateCandidateInfo a t i) = interests i"
  by (simp_all add: updateCandidateInfo_def extract_other)
    (simp_all add: extract_name_def extract_university_def extract_experience_def
      extract_company_def extract_skills_def split: option.splits)


lemmas match_defs = match_here_def lazy_more.simps is_line_terminator_def trim_def
  is_trim_space_def

lemma work_matches:
  "js_match (experiencePatterns ! 0) work_transcript = Some work_first_capture"
  "js_match (experiencePatterns ! Suc 0) work_transcript = Some work_second_capture"
  by (simp_all add: experiencePatterns_def work_transcript_def work_first_capture_def
      work_second_capture_def match_defs)

lemma work_trims:
  "trim work_first_capture = work_first_capture"
  "trim work_second_capture = work_second_capture"
  by (simp_all add: work_first_capture_def work_second_capture_def match_defs)

lemma work_accepted:
  "accepted 5 (experiencePatterns ! 0) work_transcript = None"
  "accepted 5 (experiencePatterns ! Suc 0) work_transcript = Some work_second_capture"
  by (simp_all add: accepted_def work_matches work_trims)
    (simp_all add: work_first_capture_def work_second_capture_def)

lemma work_experience:
  "first_accepted experiencePatterns 5 work_transcript = Some work_second_capture"
proof -
  have "Suc 0 < length experiencePatterns" by (simp add: experiencePatterns_def)
  moreover have "\<forall>j<Suc 0. accepted 5 (experiencePatterns ! j) work_transcript = None"
    using work_accepted(1) by simp
  ultimately show ?thesis
    using work_accepted(2) first_accepted_Some_iff [of experiencePatterns 5 work_transcript]
    by blast
qed

lemma taro_named:
  "first_accepted namePatterns 0 taro_transcript = Some taro_name"
  "first_accepted namePatterns 0 hanako_transcript \<noteq> None"
  by (simp_all add: namePatterns_def taro_transcript_def hanako_transcript_def taro_name_def
      match_defs)


section \<open>Joined lines, rendered history and rendered facts\<close>

lemma join_Cons: "join sep (x # xs) = x @ (if xs = [] then [] else sep @ join sep xs)"
  by (cases xs) simp_all

lemma join_drop: "k < length xs \<Longrightarrow> \<exists>a. join sep xs = a @ join sep (drop k xs)"
proof (induction k arbitrary: xs)
  case 0
  then show ?case by simp
next
  case (Suc k)
  then obtain x ys where xs: "xs = x # ys" by (cases xs) auto
  with Suc.prems have k: "k < length ys" by simp
  from Suc.IH [OF k] obtain a where "join sep ys = a @ join sep (drop k ys)" by blast
  moreover from k have "ys \<noteq> []" by auto
  ultimately have "join sep xs = (x @ sep @ a) @ join sep (drop (Suc k) xs)"
    by (simp add: xs join_Cons)
  then show ?case by blast
qed

lemma join_at:
  assumes "k < length xs"
  shows "join sep (drop k xs)
    = xs ! k @ (if drop (Suc k) xs = [] then [] else sep @ join sep (drop (Suc k) xs))"
proof -
  have "drop k xs = xs ! k # drop (Suc k) xs"
    using assms by (rule Cons_nth_drop_Suc [symmetric])
  then have "join sep (drop k xs) = join sep (xs ! k # drop (Suc k) xs)" by (rule arg_cong)
  then show ?thesis by (simp only: join_Cons)
qed

lemma join_in_order:
  assumes "i < j" "j < length xs"
  shows "\<exists>a b c. join sep xs = a @ xs ! i @ b @ xs ! j @ c"
proof -
  from assms have i: "i < length xs" by simp
  from join_drop [OF i] obtain a where a: "join sep xs = a @ join sep (drop i xs)" by blast
  let ?ys = "drop (Suc i) xs"
  from assms have k: "j - Suc i < length ?ys" by simp
  then have ne: "?ys \<noteq> []" by auto
  from join_drop [OF k] obtain a2 where
    a2: "join sep ?ys = a2 @ join sep (drop (j - Suc i) ?ys)" by blast
  from assms have d: "drop (j - Suc i) ?ys = drop j xs" by simp
  have "join sep xs = a @ xs ! i @ sep @ join sep ?ys"
    using a join_at [OF i] ne by simp
  also have "\<dots> = a @ xs ! i @ (sep @ a2) @ join sep (drop j xs)"
    using a2 d by simp
  also have "\<dots> = a @ xs ! i @ (sep @ a2) @ xs ! j
      @ (if drop (Suc j) xs = [] then [] else sep @ join sep (drop (Suc j) xs))"
    using join_at [OF assms(2)] by simp
  finally show ?thesis by blast
qed

lemma lines_nth:
  "i < length h \<Longrightarrow>
   map (\<lambda>(index, msg). format_message index msg) (enumerate 0 h) ! i = format_message i (h ! i)"
  by (simp add: nth_enumerate_eq)

lemma history_in_order:
  assumes "i < j" "j < length h"
  shows "\<exists>a b c. formatConversationHistory h
           = a @ format_message i (h ! i) @ b @ format_message j (h ! j) @ c"
proof -
  let ?lines = "map (\<lambda>(index, msg). format_message index msg) (enumerate 0 h)"
  from assms have l: "j < length ?lines" "i < length h" by simp_all
  from join_in_order [OF assms(1) l(1)]
  obtain a b c where "join [0x0A] ?lines = a @ ?lines ! i @ b @ ?lines ! j @ c" by blast
  then have "join [0x0A] ?lines = a @ format_message i (h ! i) @ b @ format_message j (h ! j) @ c"
    using lines_nth [OF l(2)] lines_nth [OF assms(2)] by simp
  moreover from assms have "length h \<noteq> 0" by auto
  ultimately show ?thesis by (auto simp add: formatConversationHistory_def)
qed

lemma format_message_cong:
  "role m = role m' \<Longrightarrow> content m = content m' \<Longrightarrow> format_message i m = format_message i m'"
  by (simp add: format_message_def)

lemma history_cong:
  assumes "map role h = map role h'" "map content h = map content h'"
  shows "formatConversationHistory h = formatConversationHistory h'"
proof -
  let ?render = "\<lambda>(index, msg). format_message index msg"
  from assms(1) have len: "length h = length h'" by (rule map_eq_imp_length_eq)
  have same: "format_message i (h ! i) = format_message i (h' ! i)" if "i < length h" for i
  proof -
    from that len have i: "i < length h'" by (simp only:)
    have "map role h ! i = map role h' ! i" by (simp only: assms(1))
    then have r: "role (h ! i) = role (h' ! i)"
      by (simp only: nth_map [OF that] nth_map [OF i])
    have "map content h ! i = map content h' ! i" by (simp only: assms(2))
    then have c: "content (h ! i) = content (h' ! i)"
      by (simp only: nth_map [OF that] nth_map [OF i])
    from r c show ?thesis by (rule format_message_cong)
  qed
  have "map ?render (enumerate 0 h) = map ?render (enumerate 0 h')"
  proof (rule nth_equalityI)
    show "length (map ?render (enumerate 0 h)) = length (map ?render (enumerate 0 h'))"
      by (simp only: length_map length_enumerate len)
  next
    fix i
    assume "i < length (map ?render (enumerate 0 h))"
    then have i: "i < length h" by (simp only: length_map length_enumerate)
    with len have i': "i < length h'" by (simp only:)
    show "map ?render (enumerate 0 h) ! i = map ?render (enumerate 0 h') ! i"
      by (simp only: lines_nth [OF i] lines_nth [OF i'] same [OF i])
  qed
  then have "join [0x0A] (map ?render (enumerate 0 h))
      = join [0x0A] (map ?render (enumerate 0 h'))"
    by (rule arg_cong)
  then show ?thesis
    unfolding formatConversationHistory_def by (simp only: len)
qed

lemma known_fact_truthy:
  "known_fact label v = (if truthy v then [(label, the_string v)] else [])"
  by (simp add: known_fact_def truthy_def the_string_def split: option.splits)

lemma render_known_fact:
  "concat (map (\<lambda>(label, v). label @ v) (known_fact l v))
     = (if truthy v then l @ the_string v else [])"
  by (simp add: known_fact_truthy)

lemma facts_text:
  assumes "skills info = None \<or> (\<exists>v. skills info = Some [v] \<and> v \<noteq> [])"
  shows "candidateInfoText info
       = (if truthy (name info) then concat (map (\<lambda>(label, v). label @ v) (known_facts info))
          else [])"
proof (cases "truthy (name info)")
  case False
  then show ?thesis by (simp add: candidateInfoText_def)
next
  case True
  have s: "(case skills info of Some l \<Rightarrow> fact_skills @ join (ascii '', '') l | None \<Rightarrow> [])
      = concat (map (\<lambda>(label, v). label @ v)
          (known_fact fact_skills (map_option (join (ascii '', '')) (skills info))))"
  proof (cases "skills info")
    case None
    then show ?thesis by (simp add: known_fact_def)
  next
    case (Some l)
    with assms obtain v where "l = [v]" "v \<noteq> []" by auto
    with Some show ?thesis by (simp add: known_fact_def)
  qed
  have "candidateInfoText info
      = facts_heading_name @ the_string (name info)
        @ (if truthy (university info) then fact_university @ the_string (university info) else [])
        @ (if truthy (company info) then fact_company @ the_string (company info) else [])
        @ (if truthy (experience info) then fact_experience @ the_string (experience info) else [])
        @ (case skills info of Some l \<Rightarrow> fact_skills @ join (ascii '', '') l | None \<Rightarrow> [])"
    using True by (simp add: candidateInfoText_def)
  also have "\<dots> = concat (map (\<lambda>(label, v). label @ v) (known_facts info))"
    using True by (simp only: s known_facts_def map_append concat_append render_known_fact
        if_True append_assoc)
  finally show ?thesis using True by simp
qed

lemma known_facts_nonempty: "(label, v) \<in> set (known_facts info) \<Longrightarrow> v \<noteq> []"
  by (auto simp add: known_facts_def known_fact_def split: option.splits if_splits)

lemma skills_after:
  "skills (facts_after turns) = None
   \<or> (\<exists>v. skills (facts_after turns) = Some [v] \<and> v \<noteq> [])"
proof (induction turns rule: rev_induct)
  case Nil
  then show ?case by (simp add: facts_after_def emptyInfo_def)
next
  case (snoc x turns)
  obtain a t where x: "x = (a, t)" by (cases x)
  have s: "facts_after (turns @ [x]) = updateCandidateInfo a t (facts_after turns)"
    by (simp add: facts_after_def x)
  show ?case
  proof (cases "first_accepted skillsPatterns 3 t")
    case None
    with snoc.IH show ?thesis by (auto simp add: s update_fields)
  next
    case (Some v)
    then have "v \<noteq> []" using first_accepted_longer [of skillsPatterns 3 t v] by auto
    with Some snoc.IH show ?thesis by (auto simp add: s update_fields)
  qed
qed


lemma prompt_parts:
  "createSystemPrompt h ph info
     = (prompt_head @ (if ph = Introduction then introPhaseBlock_text else [])
        @ progressionBlock @ prompt_rules @ phase_label ph @ prompt_history_heading)
       @ formatConversationHistory h @ candidateInfoText info @ prompt_tail"
  by (simp add: createSystemPrompt_def Let_def)

lemma history_line:
  assumes "i < length h"
  shows "\<exists>a c. formatConversationHistory h = a @ format_message i (h ! i) @ c"
proof -
  let ?lines = "map (\<lambda>(index, msg). format_message index msg) (enumerate 0 h)"
  from assms have l: "i < length ?lines" by simp
  from join_drop [OF l] obtain a where a: "join [0x0A] ?lines = a @ join [0x0A] (drop i ?lines)"
    by blast
  from a join_at [OF l, of "[0x0A]"] lines_nth [OF assms]
  have "\<exists>c. join [0x0A] ?lines = a @ format_message i (h ! i) @ c"
    by (simp only:) blast
  moreover from assms have "length h \<noteq> 0" by auto
  ultimately show ?thesis by (auto simp add: formatConversationHistory_def)
qed


lemma taro_facts: "facts_after [([], taro_transcript)] = emptyInfo\<lparr>name := Some taro_name\<rparr>"
  by (simp add: facts_after_def taro_transcript_def taro_name_def
      updateCandidateInfo_def extract_name_def extract_university_def
      extract_experience_def extract_company_def extract_skills_def emptyInfo_def truthy_def
      namePatterns_def universityPatterns_def experiencePatterns_def companyPatterns_def
      skillsPatterns_def match_defs)

lemma join_snoc: "xs \<noteq> [] \<Longrightarrow> join sep (xs @ [y]) = join sep xs @ sep @ y"
proof (induction xs)
  case Nil
  then show ?case by simp
next
  case (Cons x xs)
  show ?case
  proof (cases xs)
    case Nil
    then show ?thesis by simp
  next
    case (Cons z zs)
    with Cons.IH show ?thesis by simp
  qed
qed

lemma history_single: "formatConversationHistory [m] = format_message 0 m"
  by (simp add: formatConversationHistory_def enumerate_simps)

lemma history_snoc:
  assumes "h \<noteq> []"
  shows "formatConversationHistory (h @ [m])
      = formatConversationHistory h @ [0x0A] @ format_message (length h) m"
proof -
  let ?render = "\<lambda>(index, msg). format_message index msg"
  have e: "map ?render (enumerate 0 (h @ [m]))
      = map ?render (enumerate 0 h) @ [format_message (length h) m]"
    by (simp add: enumerate_append_eq)
  from assms have n: "map ?render (enumerate 0 h) \<noteq> []" by (cases h) simp_all
  have "join [0x0A] (map ?render (enumerate 0 (h @ [m])))
      = join [0x0A] (map ?render (enumerate 0 h)) @ [0x0A] @ format_message (length h) m"
    unfolding e using n by (rule join_snoc)
  with assms show ?thesis by (simp add: formatConversationHistory_def)
qed

lemma history_lines:
  assumes "h \<noteq> []"
  shows "formatConversationHistory h
      = join [0x0A] (map (\<lambda>i. format_message i (h ! i)) [0..<length h])"
proof -
  let ?render = "\<lambda>(index, msg). format_message index msg"
  have "map ?render (enumerate 0 h) = map (\<lambda>i. format_message i (h ! i)) [0..<length h]"
  proof (rule nth_equalityI)
    show "length (map ?render (enumerate 0 h))
        = length (map (\<lambda>i. format_message i (h ! i)) [0..<length h])"
      by simp
  next
    fix i
    assume "i < length (map ?render (enumerate 0 h))"
    then have i: "i < length h" by (simp only: length_map length_enumerate)
    then show "map ?render (enumerate 0 h) ! i
        = map (\<lambda>i. format_message i (h ! i)) [0..<length h] ! i"
      by (simp only: lines_nth [OF i]) simp
  qed
  then have "join [0x0A] (map ?render (enumerate 0 h))
      = join [0x0A] (map (\<lambda>i. format_message i (h ! i)) [0..<length h])"
    by (rule arg_cong)
  with assms show ?thesis by (simp add: formatConversationHistory_def)
qed


section \<open>A pending request and a failed turn\<close>

lemma begin_keeps:
  "conversationHistory (fst (sendCurrentAudio_begin c s)) = conversationHistory s"
  "interviewPhase (fst (sendCurrentAudio_begin c s)) = interviewPhase s"
  "candidateInfo (fst (sendCurrentAudio_begin c s)) = candidateInfo s"
  by (simp_all add: sendCurrentAudio_begin_def Let_def catch_finally_kept)

lemma pending_step:
  assumes inv: "settled sys" and p: "in_flight sys \<noteq> []" and e: "\<forall>env. e \<noteq> Reply env"
  shows "in_flight (fire interviewId e sys) = in_flight sys"
    and "conversationHistory (comp (fire interviewId e sys)) = conversationHistory (comp sys)"
    and "interviewPhase (comp (fire interviewId e sys)) = interviewPhase (comp sys)"
    and "candidateInfo (comp (fire interviewId e sys)) = candidateInfo (comp sys)"
proof -
  from inv p have b: "isProcessingRef (comp sys)" "isProcessing (comp sys)"
    "silenceTimerRef (comp sys) = None"
    by (auto simp add: settled_def Let_def)
  show "in_flight (fire interviewId e sys) = in_flight sys"
    "conversationHistory (comp (fire interviewId e sys)) = conversationHistory (comp sys)"
    "interviewPhase (comp (fire interviewId e sys)) = interviewPhase (comp sys)"
    "candidateInfo (comp (fire interviewId e sys)) = candidateInfo (comp sys)"
    using b e
    by (cases e; simp add: analyzeAudio_def ondataavailable_def recorder_onerror_def
        updateTimer_def Let_def audio_onended_def audio_onerror_def startNew_kept)+
qed

lemma pending_steps:
  assumes "settled sys" "in_flight sys \<noteq> []" "\<forall>e\<in>set es. \<forall>env. e \<noteq> Reply env"
  shows "in_flight (foldl (\<lambda>sys e. fire interviewId e sys) sys es) = in_flight sys
     \<and> conversationHistory (comp (foldl (\<lambda>sys e. fire interviewId e sys) sys es))
         = conversationHistory (comp sys)
     \<and> interviewPhase (comp (foldl (\<lambda>sys e. fire interviewId e sys) sys es))
         = interviewPhase (comp sys)
     \<and> candidateInfo (comp (foldl (\<lambda>sys e. fire interviewId e sys) sys es))
         = candidateInfo (comp sys)"
  using assms
proof (induction es arbitrary: sys)
  case Nil
  then show ?case by simp
next
  case (Cons e es)
  from Cons.prems(3) have e: "\<forall>env. e \<noteq> Reply env"
    and es: "\<forall>e\<in>set es. \<forall>env. e \<noteq> Reply env" by simp_all
  note st = pending_step [OF Cons.prems(1,2) e, of interviewId]
  have "settled (fire interviewId e sys)" using Cons.prems(1) by (rule settled_fire)
  moreover have "in_flight (fire interviewId e sys) \<noteq> []" using st(1) Cons.prems(2) by simp
  ultimately show ?case
    using Cons.IH [of "fire interviewId e sys"] es st by simp
qed

lemma run_append:
  "run interviewId (es @ es') = foldl (\<lambda>sys e. fire interviewId e sys) (run interviewId es) es'"
  by (simp add: run_def)

lemma timeout_keeps:
  "conversationHistory (comp (fire interviewId SilenceTimeout sys)) = conversationHistory (comp sys)"
  "interviewPhase (comp (fire interviewId SilenceTimeout sys)) = interviewPhase (comp sys)"
  "candidateInfo (comp (fire interviewId SilenceTimeout sys)) = candidateInfo (comp sys)"
  using begin_keeps [of "first_render interviewId" "comp sys"]
  by (cases "sendCurrentAudio_begin (first_render interviewId) (comp sys)";
      auto split: option.splits)+

lemma failed_turn_keeps:
  assumes p: "in_flight (run interviewId (es @ [SilenceTimeout])) \<noteq> []"
    and n: "\<forall>e\<in>set es'. \<forall>env. e \<noteq> Reply env"
    and f: "response_failure (fetched env)"
  shows "conversationHistory (comp (run interviewId (es @ [SilenceTimeout] @ es' @ [Reply env])))
           = conversationHistory (comp (run interviewId es))"
    and "interviewPhase (comp (run interviewId (es @ [SilenceTimeout] @ es' @ [Reply env])))
           = interviewPhase (comp (run interviewId es))"
    and "candidateInfo (comp (run interviewId (es @ [SilenceTimeout] @ es' @ [Reply env])))
           = candidateInfo (comp (run interviewId es))"
    and "chunksRef (comp (run interviewId (es @ [SilenceTimeout] @ es' @ [Reply env]))) = []"
    and "in_flight (run interviewId (es @ [SilenceTimeout] @ es' @ [Reply env])) = []"
proof -
  define sys1 where "sys1 = run interviewId (es @ [SilenceTimeout])"
  define sys2 where "sys2 = foldl (\<lambda>sys e. fire interviewId e sys) sys1 es'"
  have s1: "sys1 = fire interviewId SilenceTimeout (run interviewId es)"
    by (simp add: sys1_def run_snoc)
  have inv1: "settled sys1" unfolding sys1_def by (rule settled_run)
  have p1: "in_flight sys1 \<noteq> []" using p by (simp add: sys1_def)
  note k = pending_steps [OF inv1 p1 n, of interviewId, folded sys2_def]
  have r: "run interviewId (es @ [SilenceTimeout] @ es' @ [Reply env])
      = fire interviewId (Reply env) sys2"
    using run_append [of interviewId "es @ [SilenceTimeout]" "es' @ [Reply env]"]
    by (simp add: sys2_def sys1_def)
  from k p1 have "in_flight sys2 \<noteq> []" by simp
  then obtain q qs where q: "in_flight sys2 = q # qs"
    by (cases "in_flight sys2") auto
  have c: "comp (fire interviewId (Reply env) sys2)
      = sendCurrentAudio_resume (first_render interviewId) env (comp sys2)"
    by (simp add: q)
  have t: "conversationHistory (comp sys1) = conversationHistory (comp (run interviewId es))"
    "interviewPhase (comp sys1) = interviewPhase (comp (run interviewId es))"
    "candidateInfo (comp sys1) = candidateInfo (comp (run interviewId es))"
    by (simp_all only: s1 timeout_keeps)
  note u = resume_failure [OF f, of "first_render interviewId" "comp sys2"]
  show "conversationHistory (comp (run interviewId (es @ [SilenceTimeout] @ es' @ [Reply env])))
           = conversationHistory (comp (run interviewId es))"
    "interviewPhase (comp (run interviewId (es @ [SilenceTimeout] @ es' @ [Reply env])))
           = interviewPhase (comp (run interviewId es))"
    "candidateInfo (comp (run interviewId (es @ [SilenceTimeout] @ es' @ [Reply env])))
           = candidateInfo (comp (run interviewId es))"
    "chunksRef (comp (run interviewId (es @ [SilenceTimeout] @ es' @ [Reply env]))) = []"
    using k t
    by (simp_all only: r c u catch_finally_kept catch_finally_set)
  have "\<not> isProcessingRef (comp (run interviewId (es @ [SilenceTimeout] @ es' @ [Reply env])))"
    by (simp only: r c u catch_finally_set) simp
  with settled_run [of interviewId "es @ [SilenceTimeout] @ es' @ [Reply env]"]
  show "in_flight (run interviewId (es @ [SilenceTimeout] @ es' @ [Reply env])) = []"
    by (simp add: settled_def Let_def)
qed


lemma run_silent:
  "run [] [Click start_click, Sample loud 1300 1300, Chunk 1 (Blob 3100), Chunk 1 (Blob 3200),
      Sample quiet 2400 2400] = \<lparr>comp = fallen_silent, in_flight = []\<rparr>"
proof -
  have i: "analysisIntervalRef started" by (simp add: started_eq)
  have "run [] [Click start_click, Sample loud 1300 1300, Chunk 1 (Blob 3100),
      Chunk 1 (Blob 3200), Sample quiet 2400 2400]
      = fire [] (Sample quiet 2400 2400) (fire [] (Chunk 1 (Blob 3200))
          (fire [] (Chunk 1 (Blob 3100))
          (fire [] (Sample loud 1300 1300) (run [] [Click start_click]))))"
    by (simp add: run_def)
  also have "\<dots> = \<lparr>comp = fallen_silent, in_flight = []\<rparr>"
    using i by (simp add: run_start interval_kept fallen_silent_def spoken_def)
  finally show ?thesis .
qed

lemma fallen_silent_fields:
  "conversationHistory fallen_silent = []" "interviewPhase fallen_silent = Introduction"
  "candidateInfo fallen_silent = emptyInfo"
  by (simp_all add: fallen_silent_eq spoken_eq started_eq)


section \<open>The greeting and the first round trip\<close>

text \<open>
  C1. \<open>handleInitialAIGreeting\<close> puts the greeting into the history without any request,
  but \<open>startRealTimeRecording\<close>, which runs after it, sets the history and the shown
  response to empty again once the microphone is granted. In the sample interview the
  state after the click is \<open>started\<close>, with an empty history; the closure of the render
  after the start holds the same values as the one of the first render; and after the first
  round trip, with the response \<open>{text: "Q2", transcript: "I am Taro", audio: null}\<close>, the
  history is the user turn and the assistant turn, of length 2 and without the greeting,
  while the loop is recording again without having played anything.
\<close>

theorem greeting_lost_at_start:
  "conversationHistory (handleInitialAIGreeting (greeting_now start_click) mounted)
     = [\<lparr>role = Assistant, content = initialMessage, timestamp = 1000\<rparr>]
   \<and> comp (run [] [Click start_click]) = started
   \<and> conversationHistory started = [] \<and> response started = []
   \<and> \<lparr>c_history = conversationHistory awaiting, c_phase = interviewPhase awaiting,
       c_info = candidateInfo awaiting, c_interviewId = []\<rparr> = first_render []
   \<and> conversationHistory (comp (run [] (turn_trace @ [Reply taro_reply])))
       = [user_turn, assistant_turn]
   \<and> length (conversationHistory (comp (run [] (turn_trace @ [Reply taro_reply])))) = 2
   \<and> turn_state (comp (run [] (turn_trace @ [Reply taro_reply]))) = Recording"
proof -
  have g: "conversationHistory (handleInitialAIGreeting (greeting_now start_click) mounted)
     = [\<lparr>role = Assistant, content = initialMessage, timestamp = 1000\<rparr>]"
    by (simp add: handleInitialAIGreeting_def Let_def start_click_def)
  have s: "conversationHistory started = []" "response started = []"
    by (simp_all add: started_eq)
  have c: "\<lparr>c_history = conversationHistory awaiting, c_phase = interviewPhase awaiting,
       c_info = candidateInfo awaiting, c_interviewId = []\<rparr> = first_render []"
    by (simp add: first_render_def awaiting_fields)
  have h: "conversationHistory (sendCurrentAudio_resume (first_render []) taro_reply awaiting)
      = [user_turn, assistant_turn]"
    using resume_success(1) [OF taro_success(1-3), where c = "first_render []" and s = awaiting]
    by (simp add: first_render_def taro_reply_def taro_data_def truthy_def the_string_def
        user_turn_def assistant_turn_def ascii_def)
  have t: "turn_state (sendCurrentAudio_resume (first_render []) taro_reply awaiting) = Recording"
    using resume_no_audio [OF taro_success, where c = "first_render []" and s = awaiting]
    by (simp add: turn_state_def awaiting_fields)
  from g s c h t show ?thesis
    by (simp add: run_taro run_start)
qed


section \<open>The guards of the silence countdown\<close>

text \<open>
  C2. A sample sets a countdown (the ref holds a countdown it did not hold before) only if
  speech has occurred in the session, the previous-speaking flag is set, the sample is
  silence, the buffer is not empty, no countdown is pending, and the component is neither
  processing nor playing. After a sample that is analysed the previous-speaking flag is the
  classification of that sample, so of two silent samples in a row the second never sets a
  countdown. While processing or playing, a sample and a chunk leave the state as it is,
  and \<open>sendCurrentAudio\<close> sends nothing while processing. In every state the component
  can reach at most one request is pending.
\<close>

theorem countdown_armed_only_after_speech:
  "(\<forall>dataArray startTime now s.
      silenceTimerRef (analyzeAudio dataArray startTime now s) \<noteq> None
      \<and> silenceTimerRef (analyzeAudio dataArray startTime now s) \<noteq> silenceTimerRef s
      \<longrightarrow> hasSpokenInCurrentSessionRef s \<and> previousSpeakingStateRef s
        \<and> \<not> currentlySpeaking dataArray \<and> chunksRef s \<noteq> [] \<and> silenceTimerRef s = None
        \<and> \<not> isProcessingRef s \<and> \<not> isPlayingTTSRef s)
   \<and> (\<forall>dataArray startTime now s.
        analyserRef s \<and> \<not> isProcessingRef s \<and> \<not> isPlayingTTSRef s
        \<longrightarrow> previousSpeakingStateRef (analyzeAudio dataArray startTime now s)
            = currentlySpeaking dataArray)
   \<and> (\<forall>d1 t1 n1 d2 t2 n2 s.
        \<not> currentlySpeaking d1 \<and> \<not> currentlySpeaking d2
        \<longrightarrow> silenceTimerRef (analyzeAudio d2 t2 n2 (analyzeAudio d1 t1 n1 s))
            = silenceTimerRef (analyzeAudio d1 t1 n1 s))
   \<and> (\<forall>dataArray startTime now sid e_data s.
        isProcessingRef s \<or> isPlayingTTSRef s
        \<longrightarrow> analyzeAudio dataArray startTime now s = s \<and> ondataavailable sid e_data s = s)
   \<and> (\<forall>c s. isProcessingRef s \<longrightarrow> sendCurrentAudio_begin c s = (s, None))
   \<and> (\<forall>interviewId es. length (in_flight (run interviewId es)) \<le> 1)"
proof (intro conjI allI impI)
  fix dataArray :: "8 word list" and startTime now :: int and s :: component
  assume "silenceTimerRef (analyzeAudio dataArray startTime now s) \<noteq> None
      \<and> silenceTimerRef (analyzeAudio dataArray startTime now s) \<noteq> silenceTimerRef s"
  then have a: "hasSpokenInCurrentSessionRef s \<and> previousSpeakingStateRef s
     \<and> \<not> currentlySpeaking dataArray
     \<and> chunksRef s \<noteq> [] \<and> silenceTimerRef s = None
     \<and> \<not> isProcessingRef s \<and> \<not> isPlayingTTSRef s
     \<and> silenceTimerRef (analyzeAudio dataArray startTime now s) = Some startTime"
    using analyze_armed by blast
  from a show "hasSpokenInCurrentSessionRef s" by simp
  from a show "previousSpeakingStateRef s" by simp
  from a show "\<not> currentlySpeaking dataArray" by simp
  from a show "chunksRef s \<noteq> []" by simp
  from a show "silenceTimerRef s = None" by simp
  from a show "\<not> isProcessingRef s" by simp
  from a show "\<not> isPlayingTTSRef s" by simp
next
  fix dataArray :: "8 word list" and startTime now :: int and s :: component
  assume "analyserRef s \<and> \<not> isProcessingRef s \<and> \<not> isPlayingTTSRef s"
  then show "previousSpeakingStateRef (analyzeAudio dataArray startTime now s)
      = currentlySpeaking dataArray"
    by (simp add: analyze_previous)
next
  fix d1 d2 :: "8 word list" and t1 n1 t2 n2 :: int and s :: component
  assume "\<not> currentlySpeaking d1 \<and> \<not> currentlySpeaking d2"
  then show "silenceTimerRef (analyzeAudio d2 t2 n2 (analyzeAudio d1 t1 n1 s))
      = silenceTimerRef (analyzeAudio d1 t1 n1 s)"
    by (simp add: analyze_twice_silent)
next
  fix dataArray :: "8 word list" and startTime now :: int and sid :: nat and e_data :: blob
    and s :: component
  assume b: "isProcessingRef s \<or> isPlayingTTSRef s"
  from busy_ignores [OF b] show "analyzeAudio dataArray startTime now s = s" by simp
  from busy_ignores [OF b] show "ondataavailable sid e_data s = s" by simp
next
  fix c :: closure and s :: component
  assume "isProcessingRef s"
  then show "sendCurrentAudio_begin c s = (s, None)" by (rule busy_no_request)
next
  fix interviewId :: jsstring and es :: "event list"
  show "length (in_flight (run interviewId es)) \<le> 1" by (rule one_in_flight)
qed

theorem countdown_armed_only_after_speech_witness:
  "silenceTimerRef spoken = None \<and> silenceTimerRef (analyzeAudio quiet 2400 2400 spoken) = Some 2400
   \<and> hasSpokenInCurrentSessionRef spoken \<and> previousSpeakingStateRef spoken
   \<and> \<not> currentlySpeaking quiet \<and> chunksRef spoken = [Blob 3100, Blob 3200]
   \<and> \<not> isProcessingRef spoken \<and> \<not> isPlayingTTSRef spoken
   \<and> analyserRef started \<and> \<not> isProcessingRef started \<and> \<not> isPlayingTTSRef started
   \<and> currentlySpeaking loud
   \<and> previousSpeakingStateRef (analyzeAudio loud 1300 1300 started)
   \<and> silenceTimerRef (analyzeAudio quiet 2500 2500 (analyzeAudio quiet 2400 2400 spoken))
       = Some 2400
   \<and> silenceTimerRef (analyzeAudio quiet 1400 1400 (analyzeAudio quiet 1300 1300 started))
       = None
   \<and> isProcessingRef awaiting
   \<and> analyzeAudio quiet 2500 2500 awaiting = awaiting
   \<and> ondataavailable 1 (Blob 2900) awaiting = awaiting
   \<and> sendCurrentAudio_begin (first_render []) awaiting = (awaiting, None)
   \<and> length (in_flight (run [] turn_trace)) = 1"
proof -
  have v: "silenceTimerRef spoken = None" "hasSpokenInCurrentSessionRef spoken"
    "previousSpeakingStateRef spoken" "chunksRef spoken = [Blob 3100, Blob 3200]"
    "\<not> isProcessingRef spoken" "\<not> isPlayingTTSRef spoken"
    "analyserRef started" "\<not> isProcessingRef started" "\<not> isPlayingTTSRef started"
    "silenceTimerRef started = None"
    by (simp_all add: spoken_eq started_eq)
  have q: "silenceTimerRef (analyzeAudio quiet 2400 2400 spoken) = Some 2400"
    unfolding fallen_silent_def [symmetric] by (simp add: fallen_silent_eq)
  have q0: "silenceTimerRef (analyzeAudio quiet 1300 1300 started) = None"
    by (simp add: started_eq analyzeAudio_def quiet_silent arms_def Let_def)
  have h1: "silenceTimerRef (analyzeAudio quiet 2400 2400 spoken) \<noteq> None
      \<and> silenceTimerRef (analyzeAudio quiet 2400 2400 spoken) \<noteq> silenceTimerRef spoken"
    by (simp add: q v)
  have h2: "analyserRef started \<and> \<not> isProcessingRef started \<and> \<not> isPlayingTTSRef started"
    by (simp add: v)
  have h3: "\<not> currentlySpeaking quiet \<and> \<not> currentlySpeaking quiet"
    by (simp add: quiet_silent)
  have h4: "isProcessingRef awaiting \<or> isPlayingTTSRef awaiting"
    by (simp add: awaiting_fields)
  note t = countdown_armed_only_after_speech
  note t1 = t [THEN conjunct1, rule_format, OF h1]
  note t2 = t [THEN conjunct2, THEN conjunct1, rule_format, OF h2, of loud 1300 1300]
  note t3 = t [THEN conjunct2, THEN conjunct2, THEN conjunct1, rule_format, OF h3]
  note t4 = t [THEN conjunct2, THEN conjunct2, THEN conjunct2, THEN conjunct1, rule_format, OF h4]
  note t5 = t [THEN conjunct2, THEN conjunct2, THEN conjunct2, THEN conjunct2, THEN conjunct1,
      rule_format, OF awaiting_fields(6)]
  note t6 = t [THEN conjunct2, THEN conjunct2, THEN conjunct2, THEN conjunct2, THEN conjunct2,
      rule_format, of "[]" turn_trace]
  from t1 t2 t3 [of 2500 2500 2400 2400 spoken] t3 [of 1400 1400 1300 1300 started]
    t4 [of quiet 2500 2500] t4 [of _ _ _ 1 "Blob 2900"] t5 [of "first_render []"] t6
    v q q0 loud_speaking quiet_silent awaiting_fields(6) run_turn(2)
  show ?thesis by simp
qed


section \<open>Recording sessions and their chunks\<close>

text \<open>
  C3, as stated, at an interview that is stopped and started again: the first interview has
  reached session id 2; the stop sets the identifier to 0, and the session of the second
  interview gets the id 1, which is not greater than the previous one.
\<close>

theorem session_id_restarts_after_stop:
  "mediaRecorderRef (comp (run [] (turn_trace @ [Reply network_down])))
     = Some \<lparr>sessionId = 2, rec_state = Rec_recording\<rparr>
   \<and> currentRecordingSessionRef
        (comp (run [] (turn_trace @ [Reply network_down, Click start_click]))) = 0
   \<and> mediaRecorderRef (comp (run [] second_interview))
       = Some \<lparr>sessionId = 1, rec_state = Rec_recording\<rparr>
   \<and> currentRecordingSessionRef (comp (run [] second_interview)) = 1"
proof -
  define sys1 where "sys1 = run [] (turn_trace @ [Reply network_down])"
  define sys2 where "sys2 = fire [] (Click start_click) sys1"
  define sys3 where "sys3 = fire [] (Click start_click) sys2"
  have r2: "run [] (turn_trace @ [Reply network_down, Click start_click]) = sys2"
    using run_snoc [of "[]" "turn_trace @ [Reply network_down]" "Click start_click"]
    by (simp add: sys2_def sys1_def)
  have r3: "run [] second_interview = sys3"
    using run_snoc [of "[]" "turn_trace @ [Reply network_down, Click start_click]"
        "Click start_click"]
    by (simp add: sys3_def r2 second_interview_def)
  have s1: "isActive (comp sys1)" "\<not> isProcessing (comp sys1)"
    "mediaRecorderRef (comp sys1) = Some \<lparr>sessionId = 2, rec_state = Rec_recording\<rparr>"
    unfolding sys1_def by (rule run_failed_turn)+
  have c2: "comp sys2
      = fst (stopRealTimeRecording (stop_now start_click) (usage_added start_click) (comp sys1))"
    using s1 by (simp add: sys2_def toggleRecording_def)
  have s2: "currentRecordingSessionRef (comp sys2) = 0" "\<not> isActive (comp sys2)"
    "\<not> isProcessing (comp sys2)"
    by (simp_all add: c2 stop_id stop_fields)
  have c3: "comp sys3
      = startRealTimeRecording (starting start_click)
          (handleInitialAIGreeting (greeting_now start_click) (comp sys2))"
    using s2 by (simp add: sys3_def toggleRecording_def)
  have g: "currentRecordingSessionRef
        (handleInitialAIGreeting (greeting_now start_click) (comp sys2)) = 0"
    using s2 by (simp add: handleInitialAIGreeting_def Let_def)
  have s3: "mediaRecorderRef (comp sys3) = Some \<lparr>sessionId = 1, rec_state = Rec_recording\<rparr>"
    "currentRecordingSessionRef (comp sys3) = 1"
    by (simp_all add: c3 start_granted [OF start_click_granted] g js_inc_def)
  from s1 s2 s3 show ?thesis
    by (simp add: r2 r3 sys1_def [symmetric])
qed

text \<open>
  C3, amended. Each new recording session increments the identifier (by one, as long as it
  is below \<open>2^53\<close>) and tags its recorder with the new value; no event other than the
  click that stops the interview lowers the identifier, and that stop sets it to 0. A chunk
  is appended to the buffer only if its tag is the current identifier and the component is
  neither processing nor playing (and then it is appended when it is not empty); a chunk
  with another tag leaves the state as it is.
\<close>

theorem session_id_increases_until_stop:
  "(\<forall>s. currentRecordingSessionRef (startNewRecordingSession s)
           = js_inc (currentRecordingSessionRef s)
        \<and> (currentRecordingSessionRef s < 2 ^ 53
             \<longrightarrow> currentRecordingSessionRef s
                 < currentRecordingSessionRef (startNewRecordingSession s))
        \<and> (streamRef s \<and> audioContextRef s
             \<longrightarrow> mediaRecorderRef (startNewRecordingSession s)
                 = Some \<lparr>sessionId = currentRecordingSessionRef (startNewRecordingSession s),
                         rec_state = Rec_recording\<rparr>))
   \<and> (\<forall>interviewId e sys.
        \<not> (\<exists>env. e = Click env \<and> isActive (comp sys))
        \<longrightarrow> currentRecordingSessionRef (comp sys)
            \<le> currentRecordingSessionRef (comp (fire interviewId e sys)))
   \<and> (\<forall>now added s. currentRecordingSessionRef (fst (stopRealTimeRecording now added s)) = 0)
   \<and> (\<forall>sid e_data s.
        chunksRef (ondataavailable sid e_data s) \<noteq> chunksRef s
        \<longrightarrow> sid = currentRecordingSessionRef s \<and> \<not> isProcessingRef s \<and> \<not> isPlayingTTSRef s
          \<and> chunksRef (ondataavailable sid e_data s) = chunksRef s @ [e_data])
   \<and> (\<forall>sid e_data s.
        sid = currentRecordingSessionRef s \<and> \<not> isProcessingRef s \<and> \<not> isPlayingTTSRef s
        \<and> 0 < blob_size e_data
        \<longrightarrow> chunksRef (ondataavailable sid e_data s) = chunksRef s @ [e_data])
   \<and> (\<forall>sid e_data s.
        sid \<noteq> currentRecordingSessionRef s \<longrightarrow> ondataavailable sid e_data s = s)"
proof (intro conjI allI impI)
  fix s :: component
  show "currentRecordingSessionRef (startNewRecordingSession s)
      = js_inc (currentRecordingSessionRef s)"
    by (simp add: startNew_reset)
  {
    assume "currentRecordingSessionRef s < 2 ^ 53"
    then show "currentRecordingSessionRef s
        < currentRecordingSessionRef (startNewRecordingSession s)"
      by (simp add: startNew_reset js_inc_less)
  }
  {
    assume "streamRef s \<and> audioContextRef s"
    then show "mediaRecorderRef (startNewRecordingSession s)
        = Some \<lparr>sessionId = currentRecordingSessionRef (startNewRecordingSession s),
                rec_state = Rec_recording\<rparr>"
      by (simp add: startNew_reset startNew_recorder)
  }
next
  fix interviewId :: jsstring and e :: event and sys :: system
  assume "\<not> (\<exists>env. e = Click env \<and> isActive (comp sys))"
  then show "currentRecordingSessionRef (comp sys)
      \<le> currentRecordingSessionRef (comp (fire interviewId e sys))"
    by (rule fire_id)
next
  fix now :: int and added :: bool and s :: component
  show "currentRecordingSessionRef (fst (stopRealTimeRecording now added s)) = 0"
    by (rule stop_id)
next
  fix sid :: nat and e_data :: blob and s :: component
  assume "chunksRef (ondataavailable sid e_data s) \<noteq> chunksRef s"
  then have a: "sid = currentRecordingSessionRef s \<and> \<not> isProcessingRef s
      \<and> \<not> isPlayingTTSRef s
      \<and> chunksRef (ondataavailable sid e_data s) = chunksRef s @ [e_data]"
    by (rule chunk_appended)
  from a show "sid = currentRecordingSessionRef s" by simp
  from a show "\<not> isProcessingRef s" by simp
  from a show "\<not> isPlayingTTSRef s" by simp
  from a show "chunksRef (ondataavailable sid e_data s) = chunksRef s @ [e_data]" by blast
next
  fix sid :: nat and e_data :: blob and s :: component
  assume "sid = currentRecordingSessionRef s \<and> \<not> isProcessingRef s \<and> \<not> isPlayingTTSRef s
        \<and> 0 < blob_size e_data"
  then show "chunksRef (ondataavailable sid e_data s) = chunksRef s @ [e_data]"
    by (simp add: chunk_current)
next
  fix sid :: nat and e_data :: blob and s :: component
  assume "sid \<noteq> currentRecordingSessionRef s"
  then show "ondataavailable sid e_data s = s" by (rule chunk_stale)
qed

theorem session_id_increases_until_stop_witness:
  "currentRecordingSessionRef started = 1 \<and> streamRef started \<and> audioContextRef started
   \<and> currentRecordingSessionRef (startNewRecordingSession started) = 2
   \<and> mediaRecorderRef (startNewRecordingSession started)
       = Some \<lparr>sessionId = 2, rec_state = Rec_recording\<rparr>
   \<and> currentRecordingSessionRef (comp (run [] turn_trace)) = 1
   \<and> currentRecordingSessionRef (comp (fire [] (Reply network_down) (run [] turn_trace))) = 2
   \<and> chunksRef started = []
   \<and> chunksRef (ondataavailable 1 (Blob 3100) started) = [Blob 3100]
   \<and> \<not> isProcessingRef started \<and> \<not> isPlayingTTSRef started
   \<and> ondataavailable 0 (Blob 3100) started = started"
proof -
  have v: "currentRecordingSessionRef started = 1" "streamRef started" "audioContextRef started"
    "chunksRef started = []" "\<not> isProcessingRef started" "\<not> isPlayingTTSRef started"
    by (simp_all add: started_eq)
  have h1: "currentRecordingSessionRef started < 2 ^ 53" by (simp add: v)
  have h2: "streamRef started \<and> audioContextRef started" by (simp add: v)
  have h3: "\<not> (\<exists>env. Reply network_down = Click env \<and> isActive (comp (run [] turn_trace)))"
    by simp
  have h4: "chunksRef (ondataavailable 1 (Blob 3100) started) \<noteq> chunksRef started"
    by (simp add: ondataavailable_def v)
  have h5: "1 = currentRecordingSessionRef started \<and> \<not> isProcessingRef started
      \<and> \<not> isPlayingTTSRef started \<and> 0 < blob_size (Blob 3100)"
    by (simp add: v)
  have h6: "0 \<noteq> currentRecordingSessionRef started" by (simp add: v)
  have f: "response_failure (fetched network_down)"
    by (simp add: response_failure_def network_down_def)
  have p: "in_flight (run [] turn_trace) \<noteq> []" using run_turn(2) by auto
  note t = session_id_increases_until_stop
  note t1 = t [THEN conjunct1, rule_format, of started]
  note t2 = t [THEN conjunct2, THEN conjunct1, rule_format, OF h3, of "[]"]
  note t3 = t [THEN conjunct2, THEN conjunct2, THEN conjunct1, rule_format]
  note t4 = t [THEN conjunct2, THEN conjunct2, THEN conjunct2, THEN conjunct1, rule_format, OF h4]
  note t5 = t [THEN conjunct2, THEN conjunct2, THEN conjunct2, THEN conjunct2, THEN conjunct1,
      rule_format, OF h5]
  note t6 = t [THEN conjunct2, THEN conjunct2, THEN conjunct2, THEN conjunct2, THEN conjunct2,
      rule_format, OF h6, of "Blob 3100"]
  have i: "currentRecordingSessionRef (comp (fire [] (Reply network_down) (run [] turn_trace)))
      = 2"
    using reply_failure(4) [OF settled_run p f, of "[]"]
    by (simp add: run_turn awaiting_fields js_inc_def)
  from t1 [THEN conjunct1] t1 [THEN conjunct2, THEN conjunct1, rule_format, OF h1]
    t1 [THEN conjunct2, THEN conjunct2, rule_format, OF h2] t2 t4 t5 t6 v i
  show ?thesis
    by (simp add: js_inc_def run_turn awaiting_fields)
qed


section \<open>Failed turns\<close>

text \<open>
  C4. Each failure of a turn that the specification lists surfaces an error message, starts
  exactly one new recording session (the session id is incremented once) and leaves the turn
  loop recording, with the processing flags cleared: a failed round trip (\<open>fetch\<close>
  rejects, the response is not ok, its body cannot be read, or it has no text), with the
  message it gets, and a payload that is empty or below 1000 bytes. This holds of
  \<open>sendCurrentAudio\<close> in any state with a stream and no playback, and of the reply and
  the expiry of the countdown in every state the component can reach.
\<close>

theorem failed_turn_restarts_recording:
  "(\<forall>c env s. response_failure (fetched env)
      \<longrightarrow> error (sendCurrentAudio_resume c env s)
            = error_prefix @
              (case fetched env of
                 FetchRejected err \<Rightarrow> error_message err
               | NotOk status errorText \<Rightarrow>
                   ascii ''API Error: '' @ digits status @ ascii '' - '' @ errorText
               | NotOkUnreadable err \<Rightarrow> error_message err
               | JsonRejected err \<Rightarrow> error_message err
               | Json d \<Rightarrow> ascii ''No text response from API'')
        \<and> error (sendCurrentAudio_resume c env s) \<noteq> []
        \<and> \<not> isProcessingRef (sendCurrentAudio_resume c env s)
        \<and> \<not> isProcessing (sendCurrentAudio_resume c env s)
        \<and> currentRecordingSessionRef (sendCurrentAudio_resume c env s)
            = js_inc (currentRecordingSessionRef s)
        \<and> (streamRef s \<and> audioContextRef s \<and> \<not> isPlayingTTSRef s
             \<longrightarrow> turn_state (sendCurrentAudio_resume c env s) = Recording))
   \<and> (\<forall>c s. chunksRef s \<noteq> [] \<and> \<not> isProcessingRef s
         \<and> blob_size (new_Blob (chunksRef s)) < 1000
      \<longrightarrow> error (fst (sendCurrentAudio_begin c s)) \<noteq> []
        \<and> \<not> isProcessingRef (fst (sendCurrentAudio_begin c s))
        \<and> \<not> isProcessing (fst (sendCurrentAudio_begin c s))
        \<and> currentRecordingSessionRef (fst (sendCurrentAudio_begin c s))
            = js_inc (currentRecordingSessionRef s)
        \<and> (streamRef s \<and> audioContextRef s \<and> \<not> isPlayingTTSRef s
             \<longrightarrow> turn_state (fst (sendCurrentAudio_begin c s)) = Recording))
   \<and> (\<forall>interviewId es env.
        in_flight (run interviewId es) \<noteq> [] \<and> response_failure (fetched env)
      \<longrightarrow> in_flight (fire interviewId (Reply env) (run interviewId es)) = []
        \<and> error (comp (fire interviewId (Reply env) (run interviewId es))) \<noteq> []
        \<and> turn_state (comp (fire interviewId (Reply env) (run interviewId es))) = Recording
        \<and> currentRecordingSessionRef (comp (fire interviewId (Reply env) (run interviewId es)))
            = js_inc (currentRecordingSessionRef (comp (run interviewId es))))
   \<and> (\<forall>interviewId es.
        silenceTimerRef (comp (run interviewId es)) \<noteq> None
        \<and> blob_size (new_Blob (chunksRef (comp (run interviewId es)))) < 1000
      \<longrightarrow> in_flight (fire interviewId SilenceTimeout (run interviewId es)) = []
        \<and> error (comp (fire interviewId SilenceTimeout (run interviewId es))) \<noteq> []
        \<and> turn_state (comp (fire interviewId SilenceTimeout (run interviewId es))) = Recording
        \<and> currentRecordingSessionRef (comp (fire interviewId SilenceTimeout (run interviewId es)))
            = js_inc (currentRecordingSessionRef (comp (run interviewId es))))"
proof (intro conjI allI impI)
  fix c :: closure and env :: turn_env and s :: component
  assume f: "response_failure (fetched env)"
  note r = resume_failure [OF f, of c s]
  show "error (sendCurrentAudio_resume c env s)
      = error_prefix @
        (case fetched env of
           FetchRejected err \<Rightarrow> error_message err
         | NotOk status errorText \<Rightarrow>
             ascii ''API Error: '' @ digits status @ ascii '' - '' @ errorText
         | NotOkUnreadable err \<Rightarrow> error_message err
         | JsonRejected err \<Rightarrow> error_message err
         | Json d \<Rightarrow> ascii ''No text response from API'')"
    by (simp add: r catch_finally_set error_message_def split: fetch_outcome.splits)
  show "error (sendCurrentAudio_resume c env s) \<noteq> []"
    by (simp add: r catch_finally_set error_prefix_nonempty)
  show "\<not> isProcessingRef (sendCurrentAudio_resume c env s)"
    by (simp add: r catch_finally_set)
  show "\<not> isProcessing (sendCurrentAudio_resume c env s)"
    by (simp add: r catch_finally_set)
  show "currentRecordingSessionRef (sendCurrentAudio_resume c env s)
      = js_inc (currentRecordingSessionRef s)"
    by (simp add: r catch_finally_set)
  assume "streamRef s \<and> audioContextRef s \<and> \<not> isPlayingTTSRef s"
  then show "turn_state (sendCurrentAudio_resume c env s) = Recording"
    by (simp add: r catch_finally_recording)
next
  fix c :: closure and s :: component
  assume h: "chunksRef s \<noteq> [] \<and> \<not> isProcessingRef s
             \<and> blob_size (new_Blob (chunksRef s)) < 1000"
  then have b: "sendCurrentAudio_begin c s =
           (catch_finally
              (Error (if blob_size (new_Blob (chunksRef s)) = 0 then ascii ''Empty audio data''
                      else ascii ''Audio data too small - please speak longer''))
              (s\<lparr>isProcessingRef := True, isProcessing := True, silenceTimerRef := None,
                 silenceTimer := 0, chunksRef := [], hasSpokenInCurrentSessionRef := False,
                 hasSpokenInCurrentSession := False, previousSpeakingStateRef := False,
                 error := []\<rparr>), None)"
    using begin_small by blast
  show "error (fst (sendCurrentAudio_begin c s)) \<noteq> []"
    by (simp add: b catch_finally_set error_prefix_nonempty)
  show "\<not> isProcessingRef (fst (sendCurrentAudio_begin c s))"
    by (simp add: b catch_finally_set)
  show "\<not> isProcessing (fst (sendCurrentAudio_begin c s))"
    by (simp add: b catch_finally_set)
  show "currentRecordingSessionRef (fst (sendCurrentAudio_begin c s))
      = js_inc (currentRecordingSessionRef s)"
    by (simp add: b catch_finally_set)
  assume "streamRef s \<and> audioContextRef s \<and> \<not> isPlayingTTSRef s"
  then show "turn_state (fst (sendCurrentAudio_begin c s)) = Recording"
    by (simp add: b catch_finally_recording)
next
  fix interviewId :: jsstring and es :: "event list" and env :: turn_env
  assume h: "in_flight (run interviewId es) \<noteq> [] \<and> response_failure (fetched env)"
  note r = reply_failure [OF settled_run, of interviewId es env interviewId]
  from h show "in_flight (fire interviewId (Reply env) (run interviewId es)) = []"
    using r(1) by blast
  from h show "error (comp (fire interviewId (Reply env) (run interviewId es))) \<noteq> []"
    using r(2) by blast
  from h show "turn_state (comp (fire interviewId (Reply env) (run interviewId es))) = Recording"
    using r(3) by blast
  from h show "currentRecordingSessionRef (comp (fire interviewId (Reply env) (run interviewId es)))
      = js_inc (currentRecordingSessionRef (comp (run interviewId es)))"
    using r(4) by blast
next
  fix interviewId :: jsstring and es :: "event list"
  assume h: "silenceTimerRef (comp (run interviewId es)) \<noteq> None
      \<and> blob_size (new_Blob (chunksRef (comp (run interviewId es)))) < 1000"
  note r = timeout_small [OF settled_run, of interviewId es interviewId]
  from h show "in_flight (fire interviewId SilenceTimeout (run interviewId es)) = []"
    using r(1) by blast
  from h show "error (comp (fire interviewId SilenceTimeout (run interviewId es))) \<noteq> []"
    using r(2) by blast
  from h show "turn_state (comp (fire interviewId SilenceTimeout (run interviewId es))) = Recording"
    using r(3) by blast
  from h show "currentRecordingSessionRef (comp (fire interviewId SilenceTimeout (run interviewId es)))
      = js_inc (currentRecordingSessionRef (comp (run interviewId es)))"
    using r(4) by blast
qed


theorem failed_turn_restarts_recording_witness:
  "response_failure (fetched network_down)
   \<and> streamRef awaiting \<and> audioContextRef awaiting \<and> \<not> isPlayingTTSRef awaiting
   \<and> error (sendCurrentAudio_resume (first_render []) network_down awaiting)
       = error_prefix @ ascii ''Failed to fetch''
   \<and> turn_state (sendCurrentAudio_resume (first_render []) network_down awaiting) = Recording
   \<and> currentRecordingSessionRef (sendCurrentAudio_resume (first_render []) network_down awaiting)
       = 2
   \<and> chunksRef tiny = [Blob 640] \<and> \<not> isProcessingRef tiny
   \<and> blob_size (new_Blob (chunksRef tiny)) = 640
   \<and> streamRef tiny \<and> audioContextRef tiny \<and> \<not> isPlayingTTSRef tiny
   \<and> turn_state (fst (sendCurrentAudio_begin (first_render []) tiny)) = Recording
   \<and> length (in_flight (run [] turn_trace)) = 1
   \<and> in_flight (fire [] (Reply network_down) (run [] turn_trace)) = []
   \<and> turn_state (comp (fire [] (Reply network_down) (run [] turn_trace))) = Recording
   \<and> currentRecordingSessionRef (comp (fire [] (Reply network_down) (run [] turn_trace))) = 2
   \<and> silenceTimerRef (comp (run [] tiny_trace)) = Some 2400
   \<and> turn_state (comp (fire [] SilenceTimeout (run [] tiny_trace))) = Recording"
proof -
  have f: "response_failure (fetched network_down)"
    by (simp add: response_failure_def network_down_def)
  have a: "streamRef awaiting \<and> audioContextRef awaiting \<and> \<not> isPlayingTTSRef awaiting"
    by (simp add: awaiting_fields)
  have h: "chunksRef tiny \<noteq> [] \<and> \<not> isProcessingRef tiny
           \<and> blob_size (new_Blob (chunksRef tiny)) < 1000"
    and k: "streamRef tiny \<and> audioContextRef tiny \<and> \<not> isPlayingTTSRef tiny"
    by (simp_all add: tiny_fields new_Blob_def)
  have p: "in_flight (run [] turn_trace) \<noteq> [] \<and> response_failure (fetched network_down)"
    using run_turn(2) f by auto
  have g: "silenceTimerRef (comp (run [] tiny_trace)) \<noteq> None
        \<and> blob_size (new_Blob (chunksRef (comp (run [] tiny_trace)))) < 1000"
    by (simp add: run_tiny tiny_fields new_Blob_def)
  note t = failed_turn_restarts_recording
  note t1 = t [THEN conjunct1, rule_format, OF f, of "first_render []" awaiting]
  note t2 = t [THEN conjunct2, THEN conjunct1, rule_format, OF h, of "first_render []"]
  note t3 = t [THEN conjunct2, THEN conjunct2, THEN conjunct1, rule_format, OF p]
  note t4 = t [THEN conjunct2, THEN conjunct2, THEN conjunct2, rule_format, OF g]
  have e: "error (sendCurrentAudio_resume (first_render []) network_down awaiting)
       = error_prefix @ ascii ''Failed to fetch''"
    using t1 by (simp add: network_down_def error_message_def)
  from t1 t2 t3 t4 a k e f show ?thesis
    by (simp add: awaiting_fields tiny_fields run_turn run_tiny js_inc_def new_Blob_def)
qed


text \<open>
  C5. A captured payload (a non-empty buffer, dispatched while no request is pending) whose
  size is below 1000 bytes is rejected with an error message: no request is sent, the
  buffer is emptied, one new session is started, and the turn loop is recording again.
  This holds of \<open>sendCurrentAudio\<close> in any state with a stream, and of the expiry of the
  countdown in every state the component can reach, where the buffer is never empty when
  a countdown is pending.
\<close>

theorem small_payload_rejected:
  "(\<forall>c s. chunksRef s \<noteq> [] \<and> \<not> isProcessingRef s
         \<and> blob_size (new_Blob (chunksRef s)) < 1000
      \<longrightarrow> snd (sendCurrentAudio_begin c s) = None
        \<and> error (fst (sendCurrentAudio_begin c s))
            = error_prefix @
              (if blob_size (new_Blob (chunksRef s)) = 0 then ascii ''Empty audio data''
               else ascii ''Audio data too small - please speak longer'')
        \<and> error (fst (sendCurrentAudio_begin c s)) \<noteq> []
        \<and> chunksRef (fst (sendCurrentAudio_begin c s)) = []
        \<and> currentRecordingSessionRef (fst (sendCurrentAudio_begin c s))
            = js_inc (currentRecordingSessionRef s)
        \<and> (streamRef s \<and> audioContextRef s \<and> \<not> isPlayingTTSRef s
             \<longrightarrow> turn_state (fst (sendCurrentAudio_begin c s)) = Recording))
   \<and> (\<forall>interviewId es.
        silenceTimerRef (comp (run interviewId es)) \<noteq> None
        \<and> blob_size (new_Blob (chunksRef (comp (run interviewId es)))) < 1000
      \<longrightarrow> in_flight (fire interviewId SilenceTimeout (run interviewId es)) = []
        \<and> error (comp (fire interviewId SilenceTimeout (run interviewId es))) \<noteq> []
        \<and> turn_state (comp (fire interviewId SilenceTimeout (run interviewId es))) = Recording
        \<and> currentRecordingSessionRef (comp (fire interviewId SilenceTimeout (run interviewId es)))
            = js_inc (currentRecordingSessionRef (comp (run interviewId es))))"
proof (intro conjI allI impI)
  fix c :: closure and s :: component
  assume h: "chunksRef s \<noteq> [] \<and> \<not> isProcessingRef s
             \<and> blob_size (new_Blob (chunksRef s)) < 1000"
  then have b: "sendCurrentAudio_begin c s =
           (catch_finally
              (Error (if blob_size (new_Blob (chunksRef s)) = 0 then ascii ''Empty audio data''
                      else ascii ''Audio data too small - please speak longer''))
              (s\<lparr>isProcessingRef := True, isProcessing := True, silenceTimerRef := None,
                 silenceTimer := 0, chunksRef := [], hasSpokenInCurrentSessionRef := False,
                 hasSpokenInCurrentSession := False, previousSpeakingStateRef := False,
                 error := []\<rparr>), None)"
    using begin_small by blast
  show "snd (sendCurrentAudio_begin c s) = None" by (simp add: b)
  show "error (fst (sendCurrentAudio_begin c s))
      = error_prefix @
        (if blob_size (new_Blob (chunksRef s)) = 0 then ascii ''Empty audio data''
         else ascii ''Audio data too small - please speak longer'')"
    by (simp add: b catch_finally_set error_message_def)
  show "error (fst (sendCurrentAudio_begin c s)) \<noteq> []"
    by (simp add: b catch_finally_set error_prefix_nonempty)
  show "chunksRef (fst (sendCurrentAudio_begin c s)) = []"
    by (simp add: b catch_finally_set)
  show "currentRecordingSessionRef (fst (sendCurrentAudio_begin c s))
      = js_inc (currentRecordingSessionRef s)"
    by (simp add: b catch_finally_set)
  assume "streamRef s \<and> audioContextRef s \<and> \<not> isPlayingTTSRef s"
  then show "turn_state (fst (sendCurrentAudio_begin c s)) = Recording"
    by (simp add: b catch_finally_recording)
next
  fix interviewId :: jsstring and es :: "event list"
  assume h: "silenceTimerRef (comp (run interviewId es)) \<noteq> None
      \<and> blob_size (new_Blob (chunksRef (comp (run interviewId es)))) < 1000"
  note r = timeout_small [OF settled_run, of interviewId es interviewId]
  from h show "in_flight (fire interviewId SilenceTimeout (run interviewId es)) = []"
    using r(1) by blast
  from h show "error (comp (fire interviewId SilenceTimeout (run interviewId es))) \<noteq> []"
    using r(2) by blast
  from h show "turn_state (comp (fire interviewId SilenceTimeout (run interviewId es))) = Recording"
    using r(3) by blast
  from h show "currentRecordingSessionRef (comp (fire interviewId SilenceTimeout (run interviewId es)))
      = js_inc (currentRecordingSessionRef (comp (run interviewId es)))"
    using r(4) by blast
qed

theorem small_payload_rejected_witness:
  "chunksRef tiny = [Blob 640] \<and> \<not> isProcessingRef tiny
   \<and> blob_size (new_Blob (chunksRef tiny)) = 640
   \<and> streamRef tiny \<and> audioContextRef tiny \<and> \<not> isPlayingTTSRef tiny
   \<and> snd (sendCurrentAudio_begin (first_render []) tiny) = None
   \<and> error (fst (sendCurrentAudio_begin (first_render []) tiny))
       = error_prefix @ ascii ''Audio data too small - please speak longer''
   \<and> turn_state (fst (sendCurrentAudio_begin (first_render []) tiny)) = Recording
   \<and> currentRecordingSessionRef (fst (sendCurrentAudio_begin (first_render []) tiny)) = 2
   \<and> comp (run [] tiny_trace) = tiny
   \<and> silenceTimerRef (comp (run [] tiny_trace)) = Some 2400
   \<and> in_flight (fire [] SilenceTimeout (run [] tiny_trace)) = []
   \<and> turn_state (comp (fire [] SilenceTimeout (run [] tiny_trace))) = Recording"
proof -
  have h: "chunksRef tiny \<noteq> [] \<and> \<not> isProcessingRef tiny
           \<and> blob_size (new_Blob (chunksRef tiny)) < 1000"
    and v: "chunksRef tiny = [Blob 640]" "\<not> isProcessingRef tiny"
      "blob_size (new_Blob (chunksRef tiny)) = 640"
      "streamRef tiny" "audioContextRef tiny" "\<not> isPlayingTTSRef tiny"
      "silenceTimerRef tiny = Some 2400" "currentRecordingSessionRef tiny = 1"
    by (simp_all add: tiny_eq started_eq new_Blob_def)
  have g: "silenceTimerRef (comp (run [] tiny_trace)) \<noteq> None
        \<and> blob_size (new_Blob (chunksRef (comp (run [] tiny_trace)))) < 1000"
    using v by (simp add: run_tiny)
  note t = small_payload_rejected
  from t [THEN conjunct1, rule_format, OF h, of "first_render []"]
    t [THEN conjunct2, rule_format, OF g] v
  show ?thesis
    by (simp add: run_tiny js_inc_def)
qed


section \<open>The interview phase\<close>

text \<open>
  C6. The phase is a function of the number of user turns of the history alone, with the
  thresholds at most 2: introduction, at most 5: experience, at most 8: skills, at most
  11: motivation, else closing; for 0, 2, 3, 5, 6, 8, 9, 11 and 12 user turns it is
  introduction, introduction, experience, experience, skills, skills, motivation,
  motivation and closing. A round trip that succeeds appends a user turn and an assistant
  turn, and the phase it stores is the one computed from the history it stores.
\<close>

theorem phase_by_user_turn_count:
  "(\<forall>history history'. userMessageCount history = userMessageCount history'
       \<longrightarrow> updateInterviewPhase history = updateInterviewPhase history')
   \<and> (\<forall>history. updateInterviewPhase history =
         (if userMessageCount history \<le> 2 then Introduction
          else if userMessageCount history \<le> 5 then Experience
          else if userMessageCount history \<le> 8 then Skills
          else if userMessageCount history \<le> 11 then Motivation
          else Closing))
   \<and> (\<forall>history.
         (userMessageCount history = 0 \<longrightarrow> updateInterviewPhase history = Introduction)
       \<and> (userMessageCount history = 2 \<longrightarrow> updateInterviewPhase history = Introduction)
       \<and> (userMessageCount history = 3 \<longrightarrow> updateInterviewPhase history = Experience)
       \<and> (userMessageCount history = 5 \<longrightarrow> updateInterviewPhase history = Experience)
       \<and> (userMessageCount history = 6 \<longrightarrow> updateInterviewPhase history = Skills)
       \<and> (userMessageCount history = 8 \<longrightarrow> updateInterviewPhase history = Skills)
       \<and> (userMessageCount history = 9 \<longrightarrow> updateInterviewPhase history = Motivation)
       \<and> (userMessageCount history = 11 \<longrightarrow> updateInterviewPhase history = Motivation)
       \<and> (userMessageCount history = 12 \<longrightarrow> updateInterviewPhase history = Closing))
   \<and> (\<forall>c env d s.
         fetched env = Json d \<and> truthy (d_text d)
         \<and> (truthy (d_transcript d) \<longrightarrow> saved env = None)
         \<longrightarrow> (\<exists>u a. role u = User \<and> role a = Assistant
                \<and> conversationHistory (sendCurrentAudio_resume c env s) = c_history c @ [u, a])
           \<and> interviewPhase (sendCurrentAudio_resume c env s)
               = updateInterviewPhase (conversationHistory (sendCurrentAudio_resume c env s)))"
proof (intro conjI allI impI)
  fix history history'
  assume "userMessageCount history = userMessageCount history'"
  then show "updateInterviewPhase history = updateInterviewPhase history'"
    by (simp add: updateInterviewPhase_def)
next
  fix c :: closure and env :: turn_env and d :: api_data and s :: component
  assume h: "fetched env = Json d \<and> truthy (d_text d)
             \<and> (truthy (d_transcript d) \<longrightarrow> saved env = None)"
  then show "\<exists>u a. role u = User \<and> role a = Assistant
       \<and> conversationHistory (sendCurrentAudio_resume c env s) = c_history c @ [u, a]"
    using resume_success(1) [of env d c s]
    by (intro exI [of _ "\<lparr>role = User, content = _, timestamp = _\<rparr>"]
        exI [of _ "\<lparr>role = Assistant, content = _, timestamp = _\<rparr>"]) simp
  from h show "interviewPhase (sendCurrentAudio_resume c env s)
      = updateInterviewPhase (conversationHistory (sendCurrentAudio_resume c env s))"
    using resume_success(2) [of env d c s] by simp
qed (simp_all add: updateInterviewPhase_def)

theorem phase_by_user_turn_count_witness:
  "userMessageCount [user_turn, assistant_turn] = userMessageCount [assistant_turn, user_turn]
   \<and> updateInterviewPhase [user_turn, assistant_turn]
       = updateInterviewPhase [assistant_turn, user_turn]
   \<and> userMessageCount (replicate 3 user_turn) = 3
   \<and> updateInterviewPhase (replicate 3 user_turn) = Experience
   \<and> userMessageCount (replicate 12 user_turn @ [assistant_turn]) = 12
   \<and> updateInterviewPhase (replicate 12 user_turn @ [assistant_turn]) = Closing
   \<and> fetched taro_reply = Json taro_data \<and> truthy (d_text taro_data)
   \<and> saved taro_reply = None
   \<and> conversationHistory (sendCurrentAudio_resume (first_render []) taro_reply fallen_silent)
       = [user_turn, assistant_turn]
   \<and> interviewPhase (sendCurrentAudio_resume (first_render []) taro_reply fallen_silent)
       = Introduction"
proof -
  have c: "userMessageCount [user_turn, assistant_turn]
           = userMessageCount [assistant_turn, user_turn]"
    and n3: "userMessageCount (replicate 3 user_turn) = 3"
    and n12: "userMessageCount (replicate 12 user_turn @ [assistant_turn]) = 12"
    by (simp_all add: userMessageCount_def user_turn_def assistant_turn_def)
  have h: "fetched taro_reply = Json taro_data \<and> truthy (d_text taro_data)
           \<and> (truthy (d_transcript taro_data) \<longrightarrow> saved taro_reply = None)"
    by (simp add: taro_reply_def taro_data_def truthy_def ascii_def)
  note t = phase_by_user_turn_count
  have "updateInterviewPhase [user_turn, assistant_turn]
        = updateInterviewPhase [assistant_turn, user_turn]"
    using t [THEN conjunct1, rule_format, OF c] .
  moreover have "updateInterviewPhase (replicate 3 user_turn) = Experience"
    using t [THEN conjunct2, THEN conjunct2, THEN conjunct1, rule_format,
        of "replicate 3 user_turn"] n3 by simp
  moreover have "updateInterviewPhase (replicate 12 user_turn @ [assistant_turn]) = Closing"
    using t [THEN conjunct2, THEN conjunct2, THEN conjunct1, rule_format,
        of "replicate 12 user_turn @ [assistant_turn]"] n12 by simp
  moreover have "interviewPhase (sendCurrentAudio_resume (first_render []) taro_reply fallen_silent)
      = updateInterviewPhase
          (conversationHistory (sendCurrentAudio_resume (first_render []) taro_reply fallen_silent))"
    using t [THEN conjunct2, THEN conjunct2, THEN conjunct2, rule_format, OF h] by simp
  moreover have "conversationHistory
        (sendCurrentAudio_resume (first_render []) taro_reply fallen_silent)
      = [user_turn, assistant_turn]"
    using h resume_success(1) [of taro_reply taro_data "first_render []" fallen_silent]
    by (simp add: first_render_def taro_reply_def taro_data_def truthy_def the_string_def
        user_turn_def assistant_turn_def ascii_def)
  moreover have "saved taro_reply = None"
    by (simp add: taro_reply_def)
  ultimately show ?thesis
    using c n3 n12 h
    by (simp add: updateInterviewPhase_def userMessageCount_def user_turn_def
        assistant_turn_def)
qed


section \<open>The fact sheet\<close>

text \<open>
  C7, as stated, at the transcript "2-nen hataraita keiken ari" and an empty fact sheet: the
  first experience pattern matches, with a capture of 5 characters, and yet the value
  stored is the capture of the second pattern. The first match does not win: its capture
  is not longer than 5, so the loop goes on to the next pattern.
\<close>

theorem first_match_skipped_when_short:
  "experience emptyInfo = None
   \<and> js_match (experiencePatterns ! 0) work_transcript = Some work_first_capture
   \<and> trim work_first_capture = work_first_capture
   \<and> length work_first_capture = 5
   \<and> js_match (experiencePatterns ! 1) work_transcript = Some work_second_capture
   \<and> experience (updateCandidateInfo [] work_transcript emptyInfo) = Some work_second_capture
   \<and> work_second_capture \<noteq> work_first_capture"
  by (simp add: update_fields work_matches work_trims work_experience)
    (simp add: emptyInfo_def truthy_def work_first_capture_def work_second_capture_def)

text \<open>
  C7, amended. A kind that is populated (a non-empty string; for the skills a non-empty
  list) is kept by every later transcript. A kind that is empty takes the value of the
  first pattern, in the order of the list, whose match has a trimmed capture longer than
  the minimum of the kind (name 0, university 2, company 2, experience 5, skills 3), and
  stays empty if there is none; patterns that match with a shorter capture are passed
  over. So once a transcript has given a name, a second transcript does not change it.
\<close>

theorem facts_are_write_once:
  "(\<forall>a t i.
      (truthy (name i) \<longrightarrow> name (updateCandidateInfo a t i) = name i)
      \<and> (truthy (university i) \<longrightarrow> university (updateCandidateInfo a t i) = university i)
      \<and> (truthy (company i) \<longrightarrow> company (updateCandidateInfo a t i) = company i)
      \<and> (truthy (experience i) \<longrightarrow> experience (updateCandidateInfo a t i) = experience i)
      \<and> (\<forall>l. skills i = Some l \<and> l \<noteq> [] \<longrightarrow> skills (updateCandidateInfo a t i) = Some l))
   \<and> (\<forall>a t i.
      (\<not> truthy (name i)
         \<longrightarrow> name (updateCandidateInfo a t i)
             = (case first_accepted namePatterns 0 t of
                  Some v \<Rightarrow> Some v | None \<Rightarrow> name i))
      \<and> (\<not> truthy (university i)
         \<longrightarrow> university (updateCandidateInfo a t i)
             = (case first_accepted universityPatterns 2 t of
                  Some v \<Rightarrow> Some v | None \<Rightarrow> university i))
      \<and> (\<not> truthy (company i)
         \<longrightarrow> company (updateCandidateInfo a t i)
             = (case first_accepted companyPatterns 2 t of
                  Some v \<Rightarrow> Some v | None \<Rightarrow> company i))
      \<and> (\<not> truthy (experience i)
         \<longrightarrow> experience (updateCandidateInfo a t i)
             = (case first_accepted experiencePatterns 5 t of
                  Some v \<Rightarrow> Some v | None \<Rightarrow> experience i))
      \<and> (skills i = None \<or> skills i = Some []
         \<longrightarrow> skills (updateCandidateInfo a t i)
             = (case first_accepted skillsPatterns 3 t of
                  Some v \<Rightarrow> Some [v] | None \<Rightarrow> skills i)))
   \<and> (\<forall>ps n t v.
      first_accepted ps n t = Some v
        \<longleftrightarrow> (\<exists>k<length ps. accepted n (ps ! k) t = Some v
               \<and> (\<forall>j<k. accepted n (ps ! j) t = None)))
   \<and> (\<forall>ps n t. first_accepted ps n t = None \<longleftrightarrow> (\<forall>p\<in>set ps. accepted n p t = None))
   \<and> (\<forall>a1 t1 a2 t2 i v.
      \<not> truthy (name i) \<and> first_accepted namePatterns 0 t1 = Some v
      \<longrightarrow> name (updateCandidateInfo a2 t2 (updateCandidateInfo a1 t1 i)) = Some v)"
proof (intro conjI allI impI)
  fix ps :: "pattern list" and n :: nat and t :: jsstring
  show "first_accepted ps n t = None \<longleftrightarrow> (\<forall>p\<in>set ps. accepted n p t = None)"
    by (induction ps) (auto simp add: accepted_def split: option.splits if_splits)
next
  fix ps :: "pattern list" and n :: nat and t v :: jsstring
  show "first_accepted ps n t = Some v
        \<longleftrightarrow> (\<exists>k<length ps. accepted n (ps ! k) t = Some v
               \<and> (\<forall>j<k. accepted n (ps ! j) t = None))"
    by (rule first_accepted_Some_iff)
next
  fix a1 t1 a2 t2 v :: jsstring and i :: candidate_info
  assume h: "\<not> truthy (name i) \<and> first_accepted namePatterns 0 t1 = Some v"
  then have "name (updateCandidateInfo a1 t1 i) = Some v"
    by (simp add: update_fields)
  moreover have "truthy (Some v)"
    using h first_accepted_truthy by blast
  ultimately show "name (updateCandidateInfo a2 t2 (updateCandidateInfo a1 t1 i)) = Some v"
    by (simp add: update_fields)
next
  fix a t :: jsstring and i :: candidate_info and l :: "jsstring list"
  assume "skills i = Some l \<and> l \<noteq> []"
  then show "skills (updateCandidateInfo a t i) = Some l"
    by (simp add: update_fields)
next
  fix a t :: jsstring and i :: candidate_info
  assume "skills i = None \<or> skills i = Some []"
  then show "skills (updateCandidateInfo a t i)
      = (case first_accepted skillsPatterns 3 t of Some v \<Rightarrow> Some [v] | None \<Rightarrow> skills i)"
    by (auto simp add: update_fields)
qed (simp_all add: update_fields)

theorem facts_are_write_once_witness:
  "\<not> truthy (name emptyInfo)
   \<and> first_accepted namePatterns 0 taro_transcript = Some taro_name
   \<and> name (updateCandidateInfo [] taro_transcript emptyInfo) = Some taro_name
   \<and> truthy (name (updateCandidateInfo [] taro_transcript emptyInfo))
   \<and> first_accepted namePatterns 0 hanako_transcript \<noteq> None
   \<and> name (updateCandidateInfo [] hanako_transcript
              (updateCandidateInfo [] taro_transcript emptyInfo)) = Some taro_name
   \<and> \<not> truthy (experience emptyInfo)
   \<and> experience (updateCandidateInfo [] work_transcript emptyInfo) = Some work_second_capture
   \<and> (\<exists>k<length experiencePatterns.
         accepted 5 (experiencePatterns ! k) work_transcript = Some work_second_capture
         \<and> (\<forall>j<k. accepted 5 (experiencePatterns ! j) work_transcript = None))
   \<and> first_accepted namePatterns 0 (ascii ''I am Taro'') = None
   \<and> accepted 0 (namePatterns ! 0) (ascii ''I am Taro'') = None
   \<and> skills (emptyInfo\<lparr>skills := Some [taro_name]\<rparr>) = Some [taro_name]
   \<and> skills (updateCandidateInfo [] work_transcript (emptyInfo\<lparr>skills := Some [taro_name]\<rparr>))
       = Some [taro_name]"
proof -
  have e: "\<not> truthy (name emptyInfo)" "\<not> truthy (experience emptyInfo)"
    by (simp_all add: emptyInfo_def truthy_def)
  have n: "first_accepted namePatterns 0 (ascii ''I am Taro'') = None"
    by (simp add: namePatterns_def ascii_def match_defs)
  have m: "namePatterns ! 0 \<in> set namePatterns"
    by (simp add: namePatterns_def)
  have k: "skills (emptyInfo\<lparr>skills := Some [taro_name]\<rparr>) = Some [taro_name] \<and> [taro_name] \<noteq> []"
    by simp
  note t = facts_are_write_once
  note w = t [THEN conjunct1, rule_format]
  note f = t [THEN conjunct2, THEN conjunct1, rule_format]
  note c = t [THEN conjunct2, THEN conjunct2, THEN conjunct1, rule_format]
  note d = t [THEN conjunct2, THEN conjunct2, THEN conjunct2, THEN conjunct1, rule_format]
  note two = t [THEN conjunct2, THEN conjunct2, THEN conjunct2, THEN conjunct2, rule_format]
  have r1: "name (updateCandidateInfo [] taro_transcript emptyInfo) = Some taro_name"
    using f [of emptyInfo "[]" taro_transcript, THEN conjunct1, rule_format, OF e(1)]
    by (simp add: taro_named)
  have r2: "truthy (name (updateCandidateInfo [] taro_transcript emptyInfo))"
    by (simp add: r1 truthy_def taro_name_def)
  have r3: "name (updateCandidateInfo [] hanako_transcript
              (updateCandidateInfo [] taro_transcript emptyInfo)) = Some taro_name"
    using two [of emptyInfo taro_transcript taro_name "[]" hanako_transcript "[]"] e(1)
    by (simp add: taro_named)
  have r3b: "name (updateCandidateInfo [] hanako_transcript
              (updateCandidateInfo [] taro_transcript emptyInfo))
        = name (updateCandidateInfo [] taro_transcript emptyInfo)"
    using w [of "updateCandidateInfo [] taro_transcript emptyInfo" "[]" hanako_transcript,
        THEN conjunct1, rule_format, OF r2] .
  have r4: "experience (updateCandidateInfo [] work_transcript emptyInfo)
      = Some work_second_capture"
    using f [of emptyInfo "[]" work_transcript, THEN conjunct2, THEN conjunct2, THEN conjunct2,
        THEN conjunct1, rule_format, OF e(2)]
    by (simp add: work_experience)
  have r5: "\<exists>k<length experiencePatterns.
         accepted 5 (experiencePatterns ! k) work_transcript = Some work_second_capture
         \<and> (\<forall>j<k. accepted 5 (experiencePatterns ! j) work_transcript = None)"
    using c [of experiencePatterns 5 work_transcript work_second_capture] work_experience
    by blast
  have r6: "accepted 0 (namePatterns ! 0) (ascii ''I am Taro'') = None"
    using d [of namePatterns 0 "ascii ''I am Taro''"] n m by blast
  have r7: "skills (updateCandidateInfo [] work_transcript (emptyInfo\<lparr>skills := Some [taro_name]\<rparr>))
       = Some [taro_name]"
    using w [of "emptyInfo\<lparr>skills := Some [taro_name]\<rparr>" "[]" work_transcript,
        THEN conjunct2, THEN conjunct2, THEN conjunct2, THEN conjunct2, rule_format, OF k] .
  from e r1 r2 r3 r3b r4 r5 r6 r7 n taro_named show ?thesis by simp
qed


section \<open>After a successful round trip\<close>

text \<open>
  C8. The sample interview with a response that carries audio and its MIME type, where
  \<open>audio.play()\<close> rejects: the two turns are in the history, the \<open>catch\<close> block has set
  the error and started session 2, whose recorder is recording, and the processing flag is
  cleared; but the playing flag, set before the call of \<open>play\<close>, is still set. So the loop
  has not resumed recording: it is in the playing state, every chunk and every sample
  leaves the state as it is, and no countdown is pending. The handlers of the end of the
  playback and of its error, had one of them run, would have cleared the flag and left the
  loop recording, as they do after a playback that has started.
\<close>

theorem rejected_play_leaves_playing_flag:
  "fetched blocked_reply = Json spoken_data
   \<and> truthy (d_text spoken_data) \<and> truthy (d_audio spoken_data)
   \<and> truthy (d_mimeType spoken_data)
   \<and> played blocked_reply
       = Some (Error (ascii ''play() failed because the user did not interact''))
   \<and> comp (run [] turn_trace) = awaiting \<and> turn_state awaiting = Processing
   \<and> play_blocked = run [] (turn_trace @ [Reply blocked_reply])
   \<and> in_flight play_blocked = []
   \<and> conversationHistory (comp play_blocked) = [user_turn, assistant_turn]
   \<and> error (comp play_blocked)
       = error_prefix @ ascii ''play() failed because the user did not interact''
   \<and> currentRecordingSessionRef (comp play_blocked) = 2
   \<and> mediaRecorderRef (comp play_blocked) = Some \<lparr>sessionId = 2, rec_state = Rec_recording\<rparr>
   \<and> \<not> isProcessingRef (comp play_blocked)
   \<and> isPlayingTTSRef (comp play_blocked)
   \<and> turn_state (comp play_blocked) = Playing
   \<and> silenceTimerRef (comp play_blocked) = None
   \<and> (\<forall>sid e_data. fire [] (Chunk sid e_data) play_blocked = play_blocked)
   \<and> (\<forall>dataArray startTime now.
         fire [] (Sample dataArray startTime now) play_blocked = play_blocked)
   \<and> fire [] SilenceTimeout play_blocked = play_blocked
   \<and> turn_state (audio_onerror (comp play_blocked)) = Recording
   \<and> turn_state (audio_onended (comp play_blocked)) = Recording
   \<and> turn_state (sendCurrentAudio_resume (first_render []) spoken_reply awaiting) = Playing
   \<and> turn_state
        (audio_onended (sendCurrentAudio_resume (first_render []) spoken_reply awaiting))
       = Recording"
proof -
  let ?s = "sendCurrentAudio_resume (first_render []) blocked_reply awaiting"
  let ?p = "sendCurrentAudio_resume (first_render []) spoken_reply awaiting"
  note a = resume_audio [OF blocked_success(1-5), where c = "first_render []" and s = awaiting]
  note r = resume_play_rejected [OF blocked_success, where c = "first_render []" and s = awaiting]
  note b = resume_audio [OF spoken_success(1) blocked_success(2) spoken_success(2)
      blocked_success(4,5), where c = "first_render []" and s = awaiting]
  have c: "comp play_blocked = ?s" by (rule run_blocked(1))
  have k: "play_blocked = \<lparr>comp = ?s, in_flight = []\<rparr>"
    using run_blocked by (cases play_blocked) simp
  have f1: "fetched blocked_reply = Json spoken_data" "truthy (d_text spoken_data)"
    "truthy (d_audio spoken_data)" "truthy (d_mimeType spoken_data)"
    "played blocked_reply
       = Some (Error (ascii ''play() failed because the user did not interact''))"
    by (rule blocked_success)+
  have f2: "comp (run [] turn_trace) = awaiting" "turn_state awaiting = Processing"
    "play_blocked = run [] (turn_trace @ [Reply blocked_reply])" "in_flight play_blocked = []"
    by (rule run_turn(1), rule turn_state_awaiting, rule play_blocked_def, rule run_blocked(2))
  have f3: "conversationHistory (comp play_blocked) = [user_turn, assistant_turn]"
    unfolding c
    using resume_success(1) [OF blocked_success(1-3), where c = "first_render []" and s = awaiting]
    by (simp add: first_render_def blocked_reply_def spoken_data_def truthy_def the_string_def
        user_turn_def assistant_turn_def ascii_def)
  have f4: "error (comp play_blocked)
       = error_prefix @ ascii ''play() failed because the user did not interact''"
    unfolding c using r(1) by (simp add: error_message_def)
  have f5: "currentRecordingSessionRef (comp play_blocked) = 2"
    "mediaRecorderRef (comp play_blocked) = Some \<lparr>sessionId = 2, rec_state = Rec_recording\<rparr>"
    unfolding c using r(2,4) by (simp_all add: awaiting_fields js_inc_def)
  have f6: "\<not> isProcessingRef (comp play_blocked)" "isPlayingTTSRef (comp play_blocked)"
    "silenceTimerRef (comp play_blocked) = None"
    unfolding c using a r(3) by simp_all
  have f7: "turn_state (comp play_blocked) = Playing" "turn_state ?p = Playing"
    unfolding c using a b by (simp_all add: turn_state_def)
  have f8: "\<forall>sid e_data. fire [] (Chunk sid e_data) play_blocked = play_blocked"
    using a(1) by (simp add: k ondataavailable_def)
  have f9: "\<forall>dataArray startTime now.
         fire [] (Sample dataArray startTime now) play_blocked = play_blocked"
    using a(1) by (simp add: k analyzeAudio_def)
  have f10: "fire [] SilenceTimeout play_blocked = play_blocked"
    using r(3) by (simp add: k)
  have f11: "turn_state (audio_onerror (comp play_blocked)) = Recording"
    "turn_state (audio_onended (comp play_blocked)) = Recording"
    "turn_state (audio_onended ?p) = Recording"
    unfolding c using playback_over [of ?s] playback_over [of ?p] a b
    by (simp_all add: awaiting_fields)
  show ?thesis
    by (intro conjI; fact)
qed


section \<open>The prompt\<close>

text \<open>
  C9. The prompt is a function of the roles and contents of the history, the phase and the
  fact sheet: histories that differ in their timestamps only give the same text. It contains
  the line of every turn, and the lines of any two turns in the order of the history,
  followed by the rendered facts and the closing sentence; a user turn is labelled as the
  candidate under the number of its exchange, an assistant turn as the interviewer. For a
  fact sheet that the extraction has built from any sequence of turns, the rendered facts
  are nothing if the name is unknown and otherwise exactly the known, non-empty facts under
  their labels; and a known fact is never empty. The prompt is exactly its fixed parts
  around the rendered history and the rendered facts. The rendered history is exactly the
  lines of the turns in the order of the history, each turn once, separated by a line feed:
  the empty history gives the sentence that nothing has been said yet, a single turn gives
  its line, and appending a turn to a non-empty history appends a line feed and the line of
  that turn, under its index, to the rendered history.
\<close>

theorem prompt_renders_history_and_facts:
  "(\<forall>h h' ph info.
      map role h = map role h' \<and> map content h = map content h'
      \<longrightarrow> createSystemPrompt h ph info = createSystemPrompt h' ph info)
   \<and> (\<forall>h ph info i.
        i < length h
        \<longrightarrow> (\<exists>a c. createSystemPrompt h ph info
                    = a @ format_message i (h ! i) @ c @ candidateInfoText info @ prompt_tail))
   \<and> (\<forall>h ph info i j.
        i < j \<and> j < length h
        \<longrightarrow> (\<exists>a b c. createSystemPrompt h ph info
                    = a @ format_message i (h ! i) @ b @ format_message j (h ! j) @ c
                      @ candidateInfoText info @ prompt_tail))
   \<and> (\<forall>i m.
        (role m = User
           \<longrightarrow> format_message i m
               = exchange_open @ digits (i div 2 + 1) @ exchange_close @ candidate_label
                 @ content m @ [0x0A])
        \<and> (role m = Assistant \<longrightarrow> format_message i m = interviewer_label @ content m @ [0x0A]))
   \<and> (\<forall>turns.
        candidateInfoText (facts_after turns)
          = (if truthy (name (facts_after turns))
             then concat (map (\<lambda>(label, v). label @ v) (known_facts (facts_after turns)))
             else []))
   \<and> (\<forall>info. \<forall>(label, v) \<in> set (known_facts info). v \<noteq> [])
   \<and> (\<forall>h ph info.
        createSystemPrompt h ph info
          = prompt_head @ (if ph = Introduction then introPhaseBlock_text else [])
            @ progressionBlock @ prompt_rules @ phase_label ph @ prompt_history_heading
            @ formatConversationHistory h @ candidateInfoText info @ prompt_tail)
   \<and> formatConversationHistory [] = no_history_text
   \<and> (\<forall>m. formatConversationHistory [m] = format_message 0 m)
   \<and> (\<forall>h m.
        h \<noteq> []
        \<longrightarrow> formatConversationHistory (h @ [m])
            = formatConversationHistory h @ [0x0A] @ format_message (length h) m)
   \<and> (\<forall>h.
        h \<noteq> []
        \<longrightarrow> formatConversationHistory h
            = join [0x0A] (map (\<lambda>i. format_message i (h ! i)) [0..<length h]))"
proof (intro conjI allI impI)
  fix h h' :: "message list" and ph :: phase and info :: candidate_info
  assume "map role h = map role h' \<and> map content h = map content h'"
  then have "formatConversationHistory h = formatConversationHistory h'"
    using history_cong by blast
  then show "createSystemPrompt h ph info = createSystemPrompt h' ph info"
    by (simp only: prompt_parts)
next
  fix h :: "message list" and ph :: phase and info :: candidate_info and i :: nat
  assume "i < length h"
  from history_line [OF this] obtain a c where
    "formatConversationHistory h = a @ format_message i (h ! i) @ c" by blast
  then have "createSystemPrompt h ph info
      = ((prompt_head @ (if ph = Introduction then introPhaseBlock_text else [])
          @ progressionBlock @ prompt_rules @ phase_label ph @ prompt_history_heading) @ a)
        @ format_message i (h ! i) @ c @ candidateInfoText info @ prompt_tail"
    by (simp only: prompt_parts append_assoc)
  then show "\<exists>a c. createSystemPrompt h ph info
      = a @ format_message i (h ! i) @ c @ candidateInfoText info @ prompt_tail"
    by blast
next
  fix h :: "message list" and ph :: phase and info :: candidate_info and i j :: nat
  assume "i < j \<and> j < length h"
  then have "i < j" "j < length h" by simp_all
  from history_in_order [OF this] obtain a b c where
    "formatConversationHistory h
       = a @ format_message i (h ! i) @ b @ format_message j (h ! j) @ c" by blast
  then have "createSystemPrompt h ph info
      = ((prompt_head @ (if ph = Introduction then introPhaseBlock_text else [])
          @ progressionBlock @ prompt_rules @ phase_label ph @ prompt_history_heading) @ a)
        @ format_message i (h ! i) @ b @ format_message j (h ! j) @ c
        @ candidateInfoText info @ prompt_tail"
    by (simp only: prompt_parts append_assoc)
  then show "\<exists>a b c. createSystemPrompt h ph info
      = a @ format_message i (h ! i) @ b @ format_message j (h ! j) @ c
        @ candidateInfoText info @ prompt_tail"
    by blast
next
  fix i :: nat and m :: message
  assume "role m = User"
  then show "format_message i m
      = exchange_open @ digits (i div 2 + 1) @ exchange_close @ candidate_label
        @ content m @ [0x0A]"
    by (simp add: format_message_def)
next
  fix i :: nat and m :: message
  assume "role m = Assistant"
  then show "format_message i m = interviewer_label @ content m @ [0x0A]"
    by (simp add: format_message_def)
next
  fix turns :: "(jsstring \<times> jsstring) list"
  show "candidateInfoText (facts_after turns)
      = (if truthy (name (facts_after turns))
         then concat (map (\<lambda>(label, v). label @ v) (known_facts (facts_after turns)))
         else [])"
    using skills_after by (rule facts_text)
next
  fix info :: candidate_info
  show "\<forall>(label, v) \<in> set (known_facts info). v \<noteq> []"
    using known_facts_nonempty by blast
next
  fix h :: "message list" and ph :: phase and info :: candidate_info
  show "createSystemPrompt h ph info
      = prompt_head @ (if ph = Introduction then introPhaseBlock_text else [])
        @ progressionBlock @ prompt_rules @ phase_label ph @ prompt_history_heading
        @ formatConversationHistory h @ candidateInfoText info @ prompt_tail"
    by (simp only: prompt_parts append_assoc)
next
  show "formatConversationHistory [] = no_history_text"
    by (simp add: formatConversationHistory_def)
next
  fix m :: message
  show "formatConversationHistory [m] = format_message 0 m"
    by (rule history_single)
next
  fix h :: "message list" and m :: message
  assume "h \<noteq> []"
  then show "formatConversationHistory (h @ [m])
      = formatConversationHistory h @ [0x0A] @ format_message (length h) m"
    by (rule history_snoc)
next
  fix h :: "message list"
  assume "h \<noteq> []"
  then show "formatConversationHistory h
      = join [0x0A] (map (\<lambda>i. format_message i (h ! i)) [0..<length h])"
    by (rule history_lines)
qed

theorem prompt_renders_history_and_facts_witness:
  "map role [user_turn] = map role [user_turn\<lparr>timestamp := 0\<rparr>]
   \<and> map content [user_turn] = map content [user_turn\<lparr>timestamp := 0\<rparr>]
   \<and> createSystemPrompt [user_turn] Introduction emptyInfo
       = createSystemPrompt [user_turn\<lparr>timestamp := 0\<rparr>] Introduction emptyInfo
   \<and> (\<exists>a b c. createSystemPrompt [user_turn, assistant_turn] Introduction emptyInfo
          = a @ format_message 0 user_turn @ b @ format_message 1 assistant_turn @ c
            @ candidateInfoText emptyInfo @ prompt_tail)
   \<and> (\<exists>a c. createSystemPrompt [user_turn] Skills emptyInfo
          = a @ format_message 0 user_turn @ c @ candidateInfoText emptyInfo @ prompt_tail)
   \<and> role user_turn = User
   \<and> format_message 0 user_turn
       = exchange_open @ [0x31] @ exchange_close @ candidate_label @ ascii ''I am Taro'' @ [0x0A]
   \<and> role assistant_turn = Assistant
   \<and> format_message 1 assistant_turn = interviewer_label @ ascii ''Q2'' @ [0x0A]
   \<and> facts_after [([], taro_transcript)] = emptyInfo\<lparr>name := Some taro_name\<rparr>
   \<and> known_facts (facts_after [([], taro_transcript)]) = [(facts_heading_name, taro_name)]
   \<and> candidateInfoText (facts_after [([], taro_transcript)]) = facts_heading_name @ taro_name
   \<and> taro_name \<noteq> []
   \<and> formatConversationHistory [user_turn, assistant_turn]
       = exchange_open @ [0x31] @ exchange_close @ candidate_label @ ascii ''I am Taro'' @ [0x0A]
         @ [0x0A] @ interviewer_label @ ascii ''Q2'' @ [0x0A]
   \<and> formatConversationHistory [user_turn, assistant_turn]
       = join [0x0A] [format_message 0 user_turn, format_message 1 assistant_turn]
   \<and> createSystemPrompt [user_turn, assistant_turn] Skills
         (facts_after [([], taro_transcript)])
       = prompt_head @ progressionBlock @ prompt_rules @ phase_label Skills
         @ prompt_history_heading
         @ exchange_open @ [0x31] @ exchange_close @ candidate_label @ ascii ''I am Taro'' @ [0x0A]
         @ [0x0A] @ interviewer_label @ ascii ''Q2'' @ [0x0A]
         @ facts_heading_name @ taro_name @ prompt_tail"
proof -
  note t = prompt_renders_history_and_facts
  have m: "map role [user_turn] = map role [user_turn\<lparr>timestamp := 0\<rparr>]
      \<and> map content [user_turn] = map content [user_turn\<lparr>timestamp := 0\<rparr>]"
    by simp
  have r: "role user_turn = User" "role assistant_turn = Assistant"
    "content user_turn = ascii ''I am Taro''" "content assistant_turn = ascii ''Q2''"
    by (simp_all add: user_turn_def assistant_turn_def)
  have d: "digits (0 div 2 + 1) = [0x31]" by (simp add: digits.simps)
  have k: "known_facts (facts_after [([], taro_transcript)]) = [(facts_heading_name, taro_name)]"
    by (simp add: taro_facts known_facts_def known_fact_def emptyInfo_def taro_name_def)
  have n: "truthy (name (facts_after [([], taro_transcript)]))"
    by (simp add: taro_facts truthy_def taro_name_def)
  have i: "(facts_heading_name, taro_name) \<in> set (known_facts (facts_after [([], taro_transcript)]))"
    by (simp add: k)
  have w1: "createSystemPrompt [user_turn] Introduction emptyInfo
       = createSystemPrompt [user_turn\<lparr>timestamp := 0\<rparr>] Introduction emptyInfo"
    using t [THEN conjunct1, rule_format, OF m] .
  have w2: "\<exists>a c. createSystemPrompt [user_turn] Skills emptyInfo
          = a @ format_message 0 user_turn @ c @ candidateInfoText emptyInfo @ prompt_tail"
    using t [THEN conjunct2, THEN conjunct1, rule_format, of 0 "[user_turn]" Skills emptyInfo]
    by simp
  have w3: "\<exists>a b c. createSystemPrompt [user_turn, assistant_turn] Introduction emptyInfo
          = a @ format_message 0 user_turn @ b @ format_message 1 assistant_turn @ c
            @ candidateInfoText emptyInfo @ prompt_tail"
    using t [THEN conjunct2, THEN conjunct2, THEN conjunct1, rule_format,
        of 0 1 "[user_turn, assistant_turn]" Introduction emptyInfo]
    by simp
  note f = t [THEN conjunct2, THEN conjunct2, THEN conjunct2, THEN conjunct1, rule_format]
  have w4: "format_message 0 user_turn
       = exchange_open @ [0x31] @ exchange_close @ candidate_label @ ascii ''I am Taro'' @ [0x0A]"
    using f [of user_turn 0, THEN conjunct1, rule_format, OF r(1)] by (simp only: d r(3))
  have w5: "format_message 1 assistant_turn = interviewer_label @ ascii ''Q2'' @ [0x0A]"
    using f [of assistant_turn 1, THEN conjunct2, rule_format, OF r(2)] by (simp only: r(4))
  have w6: "candidateInfoText (facts_after [([], taro_transcript)]) = facts_heading_name @ taro_name"
    using t [THEN conjunct2, THEN conjunct2, THEN conjunct2, THEN conjunct2, THEN conjunct1,
        rule_format, of "[([], taro_transcript)]"] n
    by (simp add: k)
  note u = t [THEN conjunct2, THEN conjunct2, THEN conjunct2, THEN conjunct2, THEN conjunct2]
  have w7: "taro_name \<noteq> []"
    using u [THEN conjunct1] i by blast
  note u1 = u [THEN conjunct2, THEN conjunct1, rule_format]
  note u3 = u [THEN conjunct2, THEN conjunct2, THEN conjunct2, THEN conjunct1, rule_format]
  note u4 = u [THEN conjunct2, THEN conjunct2, THEN conjunct2, THEN conjunct2, THEN conjunct1,
      rule_format]
  note u5 = u [THEN conjunct2, THEN conjunct2, THEN conjunct2, THEN conjunct2, THEN conjunct2,
      rule_format]
  have ne: "[user_turn] \<noteq> []" "[user_turn, assistant_turn] \<noteq> []" by simp_all
  have "formatConversationHistory ([user_turn] @ [assistant_turn])
      = formatConversationHistory [user_turn] @ [0x0A]
        @ format_message (length [user_turn]) assistant_turn"
    using ne(1) by (rule u4)
  then have w8: "formatConversationHistory [user_turn, assistant_turn]
       = exchange_open @ [0x31] @ exchange_close @ candidate_label @ ascii ''I am Taro'' @ [0x0A]
         @ [0x0A] @ interviewer_label @ ascii ''Q2'' @ [0x0A]"
    using w5 by (simp add: u3 w4)
  have w9: "formatConversationHistory [user_turn, assistant_turn]
       = join [0x0A] [format_message 0 user_turn, format_message 1 assistant_turn]"
    using u5 [OF ne(2)] by simp
  have ph: "(if Skills = Introduction then introPhaseBlock_text else []) = []" by simp
  have w10: "createSystemPrompt [user_turn, assistant_turn] Skills
         (facts_after [([], taro_transcript)])
       = prompt_head @ progressionBlock @ prompt_rules @ phase_label Skills
         @ prompt_history_heading
         @ exchange_open @ [0x31] @ exchange_close @ candidate_label @ ascii ''I am Taro'' @ [0x0A]
         @ [0x0A] @ interviewer_label @ ascii ''Q2'' @ [0x0A]
         @ facts_heading_name @ taro_name @ prompt_tail"
    by (simp only: u1 w8 w6 ph append_assoc append_Nil)
  note m1 = m [THEN conjunct1] and m2 = m [THEN conjunct2]
  note tf = taro_facts
  show ?thesis by (intro conjI; fact)
qed


section \<open>Dispatch of an utterance\<close>

text \<open>
  C10. When a request is sent, its audio is the blob of the buffer as it was, and already
  then the buffer is empty, the spoken and previous-speaking flags are cleared and no
  countdown is pending, and the history, the phase and the fact sheet are as they were.
  While the request is pending no chunk is buffered and no sample is analysed, so the
  buffer stays empty in every reachable state with a pending request. A failed round trip
  leaves the buffer empty (the audio of the utterance is gone) and leaves the history, the
  phase and the fact sheet as they were. The first part of \<open>sendCurrentAudio\<close> changes none of
  the three, whatever it returns; so a dispatch followed by a failed round trip ends with
  the history, the phase and the fact sheet of the state before the dispatch. And over the
  events: after any events, an expiry of the countdown that leaves a request pending, any
  events other than a reply, and a failed reply, no request is pending, the buffer is
  empty, and the history, the phase and the fact sheet are those before the expiry.
\<close>

theorem dispatch_clears_buffer:
  "(\<forall>c s s' r. sendCurrentAudio_begin c s = (s', Some r)
      \<longrightarrow> req_audio r = new_Blob (chunksRef s)
        \<and> chunksRef s' = []
        \<and> \<not> hasSpokenInCurrentSessionRef s' \<and> \<not> hasSpokenInCurrentSession s'
        \<and> \<not> previousSpeakingStateRef s'
        \<and> silenceTimerRef s' = None \<and> silenceTimer s' = 0
        \<and> isProcessingRef s'
        \<and> conversationHistory s' = conversationHistory s
        \<and> interviewPhase s' = interviewPhase s
        \<and> candidateInfo s' = candidateInfo s)
   \<and> (\<forall>sid e_data dataArray startTime now s. isProcessingRef s
      \<longrightarrow> ondataavailable sid e_data s = s \<and> analyzeAudio dataArray startTime now s = s)
   \<and> (\<forall>interviewId es. in_flight (run interviewId es) \<noteq> []
      \<longrightarrow> chunksRef (comp (run interviewId es)) = [])
   \<and> (\<forall>c env s. response_failure (fetched env)
      \<longrightarrow> chunksRef (sendCurrentAudio_resume c env s) = []
        \<and> conversationHistory (sendCurrentAudio_resume c env s) = conversationHistory s
        \<and> interviewPhase (sendCurrentAudio_resume c env s) = interviewPhase s
        \<and> candidateInfo (sendCurrentAudio_resume c env s) = candidateInfo s)
   \<and> (\<forall>c s. conversationHistory (fst (sendCurrentAudio_begin c s)) = conversationHistory s
        \<and> interviewPhase (fst (sendCurrentAudio_begin c s)) = interviewPhase s
        \<and> candidateInfo (fst (sendCurrentAudio_begin c s)) = candidateInfo s)
   \<and> (\<forall>c c' env s s' r.
        sendCurrentAudio_begin c s = (s', Some r) \<and> response_failure (fetched env)
      \<longrightarrow> chunksRef (sendCurrentAudio_resume c' env s') = []
        \<and> conversationHistory (sendCurrentAudio_resume c' env s') = conversationHistory s
        \<and> interviewPhase (sendCurrentAudio_resume c' env s') = interviewPhase s
        \<and> candidateInfo (sendCurrentAudio_resume c' env s') = candidateInfo s)
   \<and> (\<forall>interviewId es es' env.
        in_flight (run interviewId (es @ [SilenceTimeout])) \<noteq> []
        \<and> (\<forall>e\<in>set es'. \<forall>env'. e \<noteq> Reply env')
        \<and> response_failure (fetched env)
      \<longrightarrow> in_flight (run interviewId (es @ [SilenceTimeout] @ es' @ [Reply env])) = []
        \<and> chunksRef (comp (run interviewId (es @ [SilenceTimeout] @ es' @ [Reply env]))) = []
        \<and> conversationHistory (comp (run interviewId (es @ [SilenceTimeout] @ es' @ [Reply env])))
            = conversationHistory (comp (run interviewId es))
        \<and> interviewPhase (comp (run interviewId (es @ [SilenceTimeout] @ es' @ [Reply env])))
            = interviewPhase (comp (run interviewId es))
        \<and> candidateInfo (comp (run interviewId (es @ [SilenceTimeout] @ es' @ [Reply env])))
            = candidateInfo (comp (run interviewId es)))"
proof -
  have a1: "\<forall>c s s' r. sendCurrentAudio_begin c s = (s', Some r)
      \<longrightarrow> req_audio r = new_Blob (chunksRef s)
        \<and> chunksRef s' = []
        \<and> \<not> hasSpokenInCurrentSessionRef s' \<and> \<not> hasSpokenInCurrentSession s'
        \<and> \<not> previousSpeakingStateRef s'
        \<and> silenceTimerRef s' = None \<and> silenceTimer s' = 0
        \<and> isProcessingRef s'
        \<and> conversationHistory s' = conversationHistory s
        \<and> interviewPhase s' = interviewPhase s
        \<and> candidateInfo s' = candidateInfo s"
  proof (intro allI impI)
    fix c :: closure and s s' :: component and r :: request
    assume b: "sendCurrentAudio_begin c s = (s', Some r)"
    from begin_cases [OF b]
    have s': "s' = s\<lparr>isProcessingRef := True, isProcessing := True, silenceTimerRef := None,
                  silenceTimer := 0, chunksRef := [], hasSpokenInCurrentSessionRef := False,
                  hasSpokenInCurrentSession := False, previousSpeakingStateRef := False,
                  error := []\<rparr>"
      and g: "chunksRef s \<noteq> []" "\<not> isProcessingRef s"
        "1000 \<le> blob_size (new_Blob (chunksRef s))"
      by auto
    from begin_sent(2) [OF g, of c] b have "req_audio r = new_Blob (chunksRef s)" by simp
    then show "req_audio r = new_Blob (chunksRef s)
        \<and> chunksRef s' = []
        \<and> \<not> hasSpokenInCurrentSessionRef s' \<and> \<not> hasSpokenInCurrentSession s'
        \<and> \<not> previousSpeakingStateRef s'
        \<and> silenceTimerRef s' = None \<and> silenceTimer s' = 0
        \<and> isProcessingRef s'
        \<and> conversationHistory s' = conversationHistory s
        \<and> interviewPhase s' = interviewPhase s
        \<and> candidateInfo s' = candidateInfo s"
      by (simp add: s')
  qed
  have a2: "\<forall>sid e_data dataArray startTime now s. isProcessingRef s
      \<longrightarrow> ondataavailable sid e_data s = s \<and> analyzeAudio dataArray startTime now s = s"
    by (simp add: ondataavailable_def analyzeAudio_def)
  have a3: "\<forall>interviewId es. in_flight (run interviewId es) \<noteq> []
      \<longrightarrow> chunksRef (comp (run interviewId es)) = []"
  proof (intro allI impI)
    fix interviewId :: jsstring and es :: "event list"
    assume "in_flight (run interviewId es) \<noteq> []"
    with settled_run [of interviewId es] show "chunksRef (comp (run interviewId es)) = []"
      by (auto simp add: settled_def Let_def)
  qed
  have a4: "\<forall>c env s. response_failure (fetched env)
      \<longrightarrow> chunksRef (sendCurrentAudio_resume c env s) = []
        \<and> conversationHistory (sendCurrentAudio_resume c env s) = conversationHistory s
        \<and> interviewPhase (sendCurrentAudio_resume c env s) = interviewPhase s
        \<and> candidateInfo (sendCurrentAudio_resume c env s) = candidateInfo s"
  proof (intro allI impI)
    fix c :: closure and env :: turn_env and s :: component
    assume f: "response_failure (fetched env)"
    note r = resume_failure [OF f, of c s]
    show "chunksRef (sendCurrentAudio_resume c env s) = []
        \<and> conversationHistory (sendCurrentAudio_resume c env s) = conversationHistory s
        \<and> interviewPhase (sendCurrentAudio_resume c env s) = interviewPhase s
        \<and> candidateInfo (sendCurrentAudio_resume c env s) = candidateInfo s"
      by (simp add: r catch_finally_set catch_finally_kept)
  qed
  have a5: "\<forall>c s. conversationHistory (fst (sendCurrentAudio_begin c s)) = conversationHistory s
        \<and> interviewPhase (fst (sendCurrentAudio_begin c s)) = interviewPhase s
        \<and> candidateInfo (fst (sendCurrentAudio_begin c s)) = candidateInfo s"
    by (simp add: begin_keeps)
  have a6: "\<forall>c c' env s s' r.
        sendCurrentAudio_begin c s = (s', Some r) \<and> response_failure (fetched env)
      \<longrightarrow> chunksRef (sendCurrentAudio_resume c' env s') = []
        \<and> conversationHistory (sendCurrentAudio_resume c' env s') = conversationHistory s
        \<and> interviewPhase (sendCurrentAudio_resume c' env s') = interviewPhase s
        \<and> candidateInfo (sendCurrentAudio_resume c' env s') = candidateInfo s"
  proof (intro allI impI)
    fix c c' :: closure and env :: turn_env and s s' :: component and r :: request
    assume h: "sendCurrentAudio_begin c s = (s', Some r) \<and> response_failure (fetched env)"
    then have s': "s' = fst (sendCurrentAudio_begin c s)" by simp
    from h a4 have "chunksRef (sendCurrentAudio_resume c' env s') = []
        \<and> conversationHistory (sendCurrentAudio_resume c' env s') = conversationHistory s'
        \<and> interviewPhase (sendCurrentAudio_resume c' env s') = interviewPhase s'
        \<and> candidateInfo (sendCurrentAudio_resume c' env s') = candidateInfo s'"
      by blast
    then show "chunksRef (sendCurrentAudio_resume c' env s') = []
        \<and> conversationHistory (sendCurrentAudio_resume c' env s') = conversationHistory s
        \<and> interviewPhase (sendCurrentAudio_resume c' env s') = interviewPhase s
        \<and> candidateInfo (sendCurrentAudio_resume c' env s') = candidateInfo s"
      by (simp add: s' begin_keeps)
  qed
  have a7: "\<forall>interviewId es es' env.
        in_flight (run interviewId (es @ [SilenceTimeout])) \<noteq> []
        \<and> (\<forall>e\<in>set es'. \<forall>env'. e \<noteq> Reply env')
        \<and> response_failure (fetched env)
      \<longrightarrow> in_flight (run interviewId (es @ [SilenceTimeout] @ es' @ [Reply env])) = []
        \<and> chunksRef (comp (run interviewId (es @ [SilenceTimeout] @ es' @ [Reply env]))) = []
        \<and> conversationHistory (comp (run interviewId (es @ [SilenceTimeout] @ es' @ [Reply env])))
            = conversationHistory (comp (run interviewId es))
        \<and> interviewPhase (comp (run interviewId (es @ [SilenceTimeout] @ es' @ [Reply env])))
            = interviewPhase (comp (run interviewId es))
        \<and> candidateInfo (comp (run interviewId (es @ [SilenceTimeout] @ es' @ [Reply env])))
            = candidateInfo (comp (run interviewId es))"
  proof (intro allI impI)
    fix interviewId :: jsstring and es es' :: "event list" and env :: turn_env
    assume h: "in_flight (run interviewId (es @ [SilenceTimeout])) \<noteq> []
        \<and> (\<forall>e\<in>set es'. \<forall>env'. e \<noteq> Reply env')
        \<and> response_failure (fetched env)"
    then have p: "in_flight (run interviewId (es @ [SilenceTimeout])) \<noteq> []"
      and n: "\<forall>e\<in>set es'. \<forall>env'. e \<noteq> Reply env'"
      and f: "response_failure (fetched env)"
      by blast+
    note k = failed_turn_keeps [OF p n f]
    show "in_flight (run interviewId (es @ [SilenceTimeout] @ es' @ [Reply env])) = []
        \<and> chunksRef (comp (run interviewId (es @ [SilenceTimeout] @ es' @ [Reply env]))) = []
        \<and> conversationHistory (comp (run interviewId (es @ [SilenceTimeout] @ es' @ [Reply env])))
            = conversationHistory (comp (run interviewId es))
        \<and> interviewPhase (comp (run interviewId (es @ [SilenceTimeout] @ es' @ [Reply env])))
            = interviewPhase (comp (run interviewId es))
        \<and> candidateInfo (comp (run interviewId (es @ [SilenceTimeout] @ es' @ [Reply env])))
            = candidateInfo (comp (run interviewId es))"
      by (intro conjI) (rule k)+
  qed
  from a1 a2 a3 a4 a5 a6 a7 show ?thesis by (intro conjI)
qed

theorem dispatch_clears_buffer_witness:
  "fst (sendCurrentAudio_begin (first_render []) fallen_silent) = awaiting
   \<and> chunksRef fallen_silent = [Blob 3100, Blob 3200]
   \<and> (\<exists>r. snd (sendCurrentAudio_begin (first_render []) fallen_silent) = Some r
          \<and> req_audio r = Blob 6300)
   \<and> chunksRef awaiting = [] \<and> silenceTimerRef awaiting = None
   \<and> \<not> previousSpeakingStateRef awaiting \<and> \<not> hasSpokenInCurrentSessionRef awaiting
   \<and> isProcessingRef awaiting
   \<and> ondataavailable 1 (Blob 2900) awaiting = awaiting
   \<and> analyzeAudio loud 2500 2500 awaiting = awaiting
   \<and> length (in_flight (run [] turn_trace)) = 1
   \<and> chunksRef (comp (run [] turn_trace)) = []
   \<and> response_failure (fetched network_down)
   \<and> chunksRef (sendCurrentAudio_resume (first_render []) network_down awaiting) = []
   \<and> conversationHistory (sendCurrentAudio_resume (first_render []) network_down awaiting) = []
   \<and> interviewPhase (sendCurrentAudio_resume (first_render []) network_down awaiting)
       = Introduction
   \<and> candidateInfo (sendCurrentAudio_resume (first_render []) network_down awaiting)
       = emptyInfo
   \<and> conversationHistory fallen_silent = [] \<and> conversationHistory awaiting = []
   \<and> interviewPhase fallen_silent = Introduction \<and> interviewPhase awaiting = Introduction
   \<and> candidateInfo fallen_silent = emptyInfo \<and> candidateInfo awaiting = emptyInfo
   \<and> in_flight (run [] (turn_trace
        @ [Chunk 1 (Blob 2900), Sample loud 2500 2500, Reply network_down])) = []
   \<and> chunksRef (comp (run [] (turn_trace
        @ [Chunk 1 (Blob 2900), Sample loud 2500 2500, Reply network_down]))) = []
   \<and> conversationHistory (comp (run [] (turn_trace
        @ [Chunk 1 (Blob 2900), Sample loud 2500 2500, Reply network_down]))) = []
   \<and> interviewPhase (comp (run [] (turn_trace
        @ [Chunk 1 (Blob 2900), Sample loud 2500 2500, Reply network_down]))) = Introduction
   \<and> candidateInfo (comp (run [] (turn_trace
        @ [Chunk 1 (Blob 2900), Sample loud 2500 2500, Reply network_down]))) = emptyInfo"
proof -
  have g: "chunksRef fallen_silent \<noteq> []" "\<not> isProcessingRef fallen_silent"
    "1000 \<le> blob_size (new_Blob (chunksRef fallen_silent))"
    and v: "chunksRef fallen_silent = [Blob 3100, Blob 3200]"
      "new_Blob (chunksRef fallen_silent) = Blob 6300"
    by (simp_all add: fallen_silent_eq spoken_eq started_eq new_Blob_def)
  obtain q where q: "snd (sendCurrentAudio_begin (first_render []) fallen_silent) = Some q"
    using begin_sent(2) [OF g] by blast
  then have b: "sendCurrentAudio_begin (first_render []) fallen_silent = (awaiting, Some q)"
    by (simp add: awaiting_def prod_eq_iff)
  have f: "response_failure (fetched network_down)"
    by (simp add: response_failure_def network_down_def)
  have p: "in_flight (run [] turn_trace) \<noteq> []"
    using run_turn(2) by auto
  have tr: "turn_trace = [Click start_click, Sample loud 1300 1300, Chunk 1 (Blob 3100),
      Chunk 1 (Blob 3200), Sample quiet 2400 2400] @ [SilenceTimeout]"
    by (simp add: turn_trace_def)
  have p': "in_flight (run [] ([Click start_click, Sample loud 1300 1300, Chunk 1 (Blob 3100),
      Chunk 1 (Blob 3200), Sample quiet 2400 2400] @ [SilenceTimeout])) \<noteq> []"
    using p unfolding tr .
  have n: "\<forall>e\<in>set [Chunk 1 (Blob 2900), Sample loud 2500 2500]. \<forall>env'. e \<noteq> Reply env'"
    by simp
  note t = dispatch_clears_buffer
  note t1 = t [THEN conjunct1, rule_format, OF b]
  note t2 = t [THEN conjunct2, THEN conjunct1, rule_format, OF awaiting_fields(6)]
  note t3 = t [THEN conjunct2, THEN conjunct2, THEN conjunct1, rule_format, OF p]
  note t4 = t [THEN conjunct2, THEN conjunct2, THEN conjunct2, THEN conjunct1, rule_format,
      OF f, of "first_render []" awaiting]
  note t5 = t [THEN conjunct2, THEN conjunct2, THEN conjunct2, THEN conjunct2, THEN conjunct1,
      rule_format, of "first_render []" fallen_silent]
  note t6 = t [THEN conjunct2, THEN conjunct2, THEN conjunct2, THEN conjunct2, THEN conjunct2,
      THEN conjunct1, rule_format, OF conjI [OF b f], of "first_render []"]
  note t7 = t [THEN conjunct2, THEN conjunct2, THEN conjunct2, THEN conjunct2, THEN conjunct2,
      THEN conjunct2, rule_format, OF conjI [OF p' conjI [OF n f]]]
  have e: "\<exists>r. snd (sendCurrentAudio_begin (first_render []) fallen_silent) = Some r
          \<and> req_audio r = Blob 6300"
    using t1 q v by auto
  have w: "turn_trace @ [Chunk 1 (Blob 2900), Sample loud 2500 2500, Reply network_down]
      = [Click start_click, Sample loud 1300 1300, Chunk 1 (Blob 3100),
      Chunk 1 (Blob 3200), Sample quiet 2400 2400] @ [SilenceTimeout]
        @ [Chunk 1 (Blob 2900), Sample loud 2500 2500] @ [Reply network_down]"
    by (simp add: turn_trace_def)
  have t7': "in_flight (run [] (turn_trace
        @ [Chunk 1 (Blob 2900), Sample loud 2500 2500, Reply network_down])) = []"
    "chunksRef (comp (run [] (turn_trace
        @ [Chunk 1 (Blob 2900), Sample loud 2500 2500, Reply network_down]))) = []"
    "conversationHistory (comp (run [] (turn_trace
        @ [Chunk 1 (Blob 2900), Sample loud 2500 2500, Reply network_down]))) = []"
    "interviewPhase (comp (run [] (turn_trace
        @ [Chunk 1 (Blob 2900), Sample loud 2500 2500, Reply network_down]))) = Introduction"
    "candidateInfo (comp (run [] (turn_trace
        @ [Chunk 1 (Blob 2900), Sample loud 2500 2500, Reply network_down]))) = emptyInfo"
    using t7 unfolding w by (simp_all only: run_silent system.simps fallen_silent_fields)
  from e t1 t2 [of 1 "Blob 2900"] t2 [of _ _ loud 2500 2500] t3 t4 t5 t6 f v
  have "fst (sendCurrentAudio_begin (first_render []) fallen_silent) = awaiting
   \<and> chunksRef fallen_silent = [Blob 3100, Blob 3200]
   \<and> (\<exists>r. snd (sendCurrentAudio_begin (first_render []) fallen_silent) = Some r
          \<and> req_audio r = Blob 6300)
   \<and> chunksRef awaiting = [] \<and> silenceTimerRef awaiting = None
   \<and> \<not> previousSpeakingStateRef awaiting \<and> \<not> hasSpokenInCurrentSessionRef awaiting
   \<and> isProcessingRef awaiting
   \<and> ondataavailable 1 (Blob 2900) awaiting = awaiting
   \<and> analyzeAudio loud 2500 2500 awaiting = awaiting
   \<and> length (in_flight (run [] turn_trace)) = 1
   \<and> chunksRef (comp (run [] turn_trace)) = []
   \<and> response_failure (fetched network_down)
   \<and> chunksRef (sendCurrentAudio_resume (first_render []) network_down awaiting) = []
   \<and> conversationHistory (sendCurrentAudio_resume (first_render []) network_down awaiting) = []
   \<and> interviewPhase (sendCurrentAudio_resume (first_render []) network_down awaiting)
       = Introduction
   \<and> candidateInfo (sendCurrentAudio_resume (first_render []) network_down awaiting)
       = emptyInfo
   \<and> conversationHistory fallen_silent = [] \<and> conversationHistory awaiting = []
   \<and> interviewPhase fallen_silent = Introduction \<and> interviewPhase awaiting = Introduction
   \<and> candidateInfo fallen_silent = emptyInfo \<and> candidateInfo awaiting = emptyInfo"
    by (simp add: awaiting_fields run_turn awaiting_def [symmetric] fallen_silent_fields)
  with t7' show ?thesis by simp
qed


end
